(* ===== verification/Prelude.thy ===== *)
theory Prelude
  imports Main "HOL-Library.Sublist"
begin

text \<open>
  Shared vocabulary of the development: the Python values the finance manager
  handles (strings, JSON-compatible dictionaries, exceptions, message boxes),
  the string operations of the Python standard library the code calls
  (\<open>str(n)\<close>, \<open>str.strip\<close>, \<open>str.replace\<close>, \<open>str.startswith\<close>), and the generic
  lemmas on lists and association lists that the component theories use.
  Python strings are modelled as \<^typ>\<open>string\<close>, one \<^typ>\<open>char\<close> per code point
  (code points below 256, as the text the program handles).
\<close>

named_theorems py_str_simps "evaluation rules of the modelled Python string functions"

section \<open>Decimal digits: Python's \<open>str(n)\<close> and its inverse\<close>

definition digit_char :: "nat \<Rightarrow> char" where
  "digit_char d = char_of (48 + d)"

definition is_digit :: "char \<Rightarrow> bool" where
  "is_digit c \<longleftrightarrow> 48 \<le> (of_char c :: nat) \<and> (of_char c :: nat) \<le> 57"

definition digit_val :: "char \<Rightarrow> nat" where
  "digit_val c = of_char c - 48"

text \<open>\<open>str(n)\<close> for a non-negative Python int: most significant digit first.\<close>

fun str_of_nat :: "nat \<Rightarrow> string" where
  "str_of_nat n =
     (if n < 10 then [digit_char n] else str_of_nat (n div 10) @ [digit_char (n mod 10)])"

declare str_of_nat.simps [simp del]

definition str_of_int :: "int \<Rightarrow> string" where
  "str_of_int i = (if i < 0 then CHR ''-'' # str_of_nat (nat (- i)) else str_of_nat (nat i))"

text \<open>\<open>int(s)\<close> on a string of decimal digits.\<close>

definition nat_of_digits :: "string \<Rightarrow> nat" where
  "nat_of_digits s = foldl (\<lambda>acc c. 10 * acc + digit_val c) 0 s"

section \<open>Python string methods\<close>

text \<open>\<open>str.isspace\<close> on the code points below 256: \<open>\t \n \v \f \r\<close>, the
  separators \<open>\x1c\<close>--\<open>\x1f\<close>, the space, \<open>\x85\<close> and the no-break space.\<close>

definition is_py_space :: "char \<Rightarrow> bool" where
  "is_py_space c \<longleftrightarrow>
     (let n = (of_char c :: nat) in
      (9 \<le> n \<and> n \<le> 13) \<or> (28 \<le> n \<and> n \<le> 32) \<or> n = 133 \<or> n = 160)"

definition py_strip :: "string \<Rightarrow> string" where
  "py_strip s = rev (dropWhile is_py_space (rev (dropWhile is_py_space s)))"

text \<open>\<open>x or y\<close> where \<open>x\<close> is \<open>None\<close> or a string: \<open>x\<close> when it is a non-empty
  string (truthy), \<open>y\<close> otherwise.\<close>

fun py_or :: "string option \<Rightarrow> string \<Rightarrow> string" where
  "py_or (Some x) y = (if x \<noteq> [] then x else y)"
| "py_or None y = y"

text \<open>\<open>s.replace(c, '')\<close> for a one-character pattern.\<close>

definition py_remove :: "char \<Rightarrow> string \<Rightarrow> string" where
  "py_remove c s = filter (\<lambda>x. x \<noteq> c) s"

text \<open>\<open>s.startswith(p)\<close>.\<close>

definition py_startswith :: "string \<Rightarrow> string \<Rightarrow> bool" where
  "py_startswith s p \<longleftrightarrow> prefix p s"

text \<open>\<open>f"{x:,.0f}"\<close> on an integral value: the digits grouped by three with
  commas, the sign in front.\<close>

fun group_rev :: "string \<Rightarrow> string" where
  "group_rev (a # b # c # d # r) = a # b # c # CHR '','' # group_rev (d # r)"
| "group_rev r = r"

definition fmt_thousands :: "int \<Rightarrow> string" where
  "fmt_thousands i =
     (if i < 0 then CHR ''-'' # rev (group_rev (rev (str_of_nat (nat (- i)))))
      else rev (group_rev (rev (str_of_nat (nat i)))))"

section \<open>JSON-compatible Python values\<close>

text \<open>
  The dictionaries the program builds with \<open>to_dict\<close> and hands to \<open>json.dump\<close>,
  and the values \<open>json.load\<close> returns: objects keep their keys in insertion order
  (Python dictionaries are ordered), numbers are the integral amounts the program
  stores.
\<close>

datatype json =
    JNull
  | JBool bool
  | JNum int
  | JStr string
  | JArr "json list"
  | JObj "(string \<times> json) list"

text \<open>Looking a key up in a dictionary: with repeated keys, \<open>json.load\<close> keeps the
  last binding.\<close>

definition dict_lookup :: "(string \<times> 'v) list \<Rightarrow> string \<Rightarrow> 'v option" where
  "dict_lookup d k = map_of (rev d) k"

text \<open>\<open>d[k] = v\<close>: an existing key keeps its position, a new key goes last.\<close>

definition dict_set :: "(string \<times> 'v) list \<Rightarrow> string \<Rightarrow> 'v \<Rightarrow> (string \<times> 'v) list" where
  "dict_set d k v =
     (if k \<in> fst ` set d then map (\<lambda>(k', v'). if k' = k then (k', v) else (k', v')) d
      else d @ [(k, v)])"

text \<open>\<open>d.update(e)\<close>: the keys of \<open>e\<close> set one after the other.\<close>

definition dict_update :: "(string \<times> 'v) list \<Rightarrow> (string \<times> 'v) list \<Rightarrow> (string \<times> 'v) list" where
  "dict_update d e = foldl (\<lambda>acc (k, v). dict_set acc k v) d e"

section \<open>Paths\<close>

text \<open>\<open>os.path.dirname\<close> (posixpath): everything up to the last slash, with the
  trailing slashes removed unless it consists of slashes only.\<close>

definition os_path_dirname :: "string \<Rightarrow> string" where
  "os_path_dirname p =
     (let head = rev (dropWhile (\<lambda>c. c \<noteq> CHR ''/'') (rev p))
      in if head \<noteq> [] \<and> \<not> list_all (\<lambda>c. c = CHR ''/'') head
         then rev (dropWhile (\<lambda>c. c = CHR ''/'') (rev head)) else head)"

text \<open>The tail of \<open>os.path.split\<close>: what follows the last slash (its head is
  \<open>os.path.dirname\<close>).\<close>

definition os_path_basename :: "string \<Rightarrow> string" where
  "os_path_basename p = rev (takeWhile (\<lambda>c. c \<noteq> CHR ''/'') (rev p))"

text \<open>The first lines of \<open>os.makedirs(name)\<close>:
  \<open>head, tail = path.split(name); if not tail: head, tail = path.split(head)\<close>.\<close>

definition makedirs_head :: "string \<Rightarrow> string" where
  "makedirs_head p =
     (if os_path_basename p = [] then os_path_dirname (os_path_dirname p) else os_path_dirname p)"

definition makedirs_tail :: "string \<Rightarrow> string" where
  "makedirs_tail p =
     (if os_path_basename p = [] then os_path_basename (os_path_dirname p) else os_path_basename p)"

section \<open>Exceptions and message boxes\<close>

text \<open>The exceptions the modelled code can raise, with the argument CPython puts in
  their message.\<close>

datatype exc =
    FileNotFoundError string
  | FileExistsError string
  | IsADirectoryError string
  | NotADirectoryError string
  | PermissionError string
  | JSONDecodeError string
  | KeyError string
  | AttributeError string
  | TypeError string
  | ValueError string

text \<open>\<open>str(e)\<close> as CPython prints it.\<close>

fun exc_str :: "exc \<Rightarrow> string" where
  "exc_str (FileNotFoundError p) = ''[Errno 2] No such file or directory: '' @ [CHR 0x27] @ p @ [CHR 0x27]"
| "exc_str (FileExistsError p) = ''[Errno 17] File exists: '' @ [CHR 0x27] @ p @ [CHR 0x27]"
| "exc_str (IsADirectoryError p) = ''[Errno 21] Is a directory: '' @ [CHR 0x27] @ p @ [CHR 0x27]"
| "exc_str (NotADirectoryError p) = ''[Errno 20] Not a directory: '' @ [CHR 0x27] @ p @ [CHR 0x27]"
| "exc_str (PermissionError p) = ''[Errno 13] Permission denied: '' @ [CHR 0x27] @ p @ [CHR 0x27]"
| "exc_str (JSONDecodeError m) = m"
| "exc_str (KeyError k) = [CHR 0x27] @ k @ [CHR 0x27]"
| "exc_str (AttributeError m) = m"
| "exc_str (TypeError m) = m"
| "exc_str (ValueError m) = m"

text \<open>Sequencing of code that may raise: the first exception propagates.\<close>

definition bind_exc :: "exc + 'a \<Rightarrow> ('a \<Rightarrow> exc + 'b) \<Rightarrow> exc + 'b" where
  "bind_exc r f = (case r of Inl e \<Rightarrow> Inl e | Inr x \<Rightarrow> f x)"

text \<open>\<open>tkinter.messagebox.showerror\<close> and \<open>showinfo\<close>: title and message.\<close>

datatype dialog = ShowError string string | ShowInfo string string

section \<open>Lemmas on digits and strings\<close>

lemma of_char_digit_char [simp]: "d < 10 \<Longrightarrow> (of_char (digit_char d) :: nat) = 48 + d"
  by (simp add: digit_char_def)

lemma is_digit_digit_char [simp]: "d < 10 \<Longrightarrow> is_digit (digit_char d)"
  by (simp add: is_digit_def)

lemma digit_val_digit_char [simp]: "d < 10 \<Longrightarrow> digit_val (digit_char d) = d"
  by (simp add: digit_val_def)

lemma str_of_nat_small [py_str_simps]: "n < 10 \<Longrightarrow> str_of_nat n = [digit_char n]"
  by (simp add: str_of_nat.simps [of n])

lemma str_of_nat_big [py_str_simps]:
  "\<not> n < 10 \<Longrightarrow> str_of_nat n = str_of_nat (n div 10) @ [digit_char (n mod 10)]"
  by (simp add: str_of_nat.simps [of n])

lemma nat_of_digits_snoc [simp]:
  "nat_of_digits (s @ [c]) = 10 * nat_of_digits s + digit_val c"
  by (simp add: nat_of_digits_def)

lemma nat_of_digits_str_of_nat: "nat_of_digits (str_of_nat n) = n"
proof (induction n rule: str_of_nat.induct)
  case (1 n)
  show ?case
  proof (cases "n < 10")
    case True
    then show ?thesis by (simp add: str_of_nat_small nat_of_digits_def)
  next
    case False
    then have "nat_of_digits (str_of_nat (n div 10)) = n div 10" using "1.IH" by simp
    with False show ?thesis by (simp add: str_of_nat_big)
  qed
qed

lemma str_of_nat_inj [simp]: "str_of_nat m = str_of_nat n \<longleftrightarrow> m = n"
  by (metis nat_of_digits_str_of_nat)

lemma str_of_nat_digits: "c \<in> set (str_of_nat n) \<Longrightarrow> is_digit c"
proof (induction n rule: str_of_nat.induct)
  case (1 n)
  then show ?case by (cases "n < 10") (auto simp: str_of_nat_small str_of_nat_big)
qed

lemma str_of_nat_ne [simp]: "str_of_nat n \<noteq> []"
  by (simp add: str_of_nat.simps [of n])

lemma not_is_digit_punct [simp]:
  "\<not> is_digit (CHR ''-'')" "\<not> is_digit (CHR ''_'')" "\<not> is_digit (CHR '' '')"
  "\<not> is_digit (CHR '':'')" "\<not> is_digit (CHR '','')" "\<not> is_digit (CHR ''.'')"
  by (simp_all add: is_digit_def)

lemma punct_notin_str_of_nat [simp]:
  "CHR ''-'' \<notin> set (str_of_nat n)" "CHR ''_'' \<notin> set (str_of_nat n)"
  "CHR '' '' \<notin> set (str_of_nat n)" "CHR '':'' \<notin> set (str_of_nat n)"
  by (auto dest: str_of_nat_digits)

lemma str_of_nat_hd_digit: "is_digit (hd (str_of_nat n))"
  using str_of_nat_digits [of "hd (str_of_nat n)" n] by simp

lemma str_of_int_inj: "str_of_int i = str_of_int j \<longleftrightarrow> i = j"
proof
  assume eq: "str_of_int i = str_of_int j"
  have "\<not> is_digit (hd (str_of_int k))" if "k < 0" for k
    using that by (simp add: str_of_int_def)
  moreover have "is_digit (hd (str_of_int k))" if "\<not> k < 0" for k
    using that by (simp add: str_of_int_def str_of_nat_hd_digit)
  ultimately have "i < 0 \<longleftrightarrow> j < 0" using eq by metis
  with eq show "i = j" by (auto simp: str_of_int_def split: if_splits)
qed simp

text \<open>Two strings that each start with a delimiter-free field, followed by the
  delimiter, can only be prefix-related when the fields are equal.\<close>

lemma prefix_delim:
  assumes "c \<notin> set xs" "c \<notin> set ys" "prefix (xs @ c # us) (ys @ c # vs)"
  shows "xs = ys \<and> prefix us vs"
  using assms
proof (induction xs arbitrary: ys)
  case Nil
  then show ?case by (cases ys) auto
next
  case (Cons x xs)
  then show ?case by (cases ys) auto
qed

lemma py_startswith_append [simp]: "py_startswith (p @ s) p"
  by (simp add: py_startswith_def)

lemma py_remove_group_rev: "py_remove CHR '','' (group_rev s) = py_remove CHR '','' s"
  by (induction s rule: group_rev.induct) (simp_all add: py_remove_def)

lemma py_remove_rev: "py_remove c (rev s) = rev (py_remove c s)"
  by (simp add: py_remove_def rev_filter)

lemma py_remove_notin: "c \<notin> set s \<Longrightarrow> py_remove c s = s"
  by (induction s) (auto simp: py_remove_def)

text \<open>Removing the separators from the formatted value gives \<open>str\<close> of it back.\<close>

lemma py_remove_str_of_nat: "py_remove CHR '','' (str_of_nat n) = str_of_nat n"
  by (rule py_remove_notin) (use str_of_nat_digits [of "CHR '',''" n] in auto)

lemma py_remove_fmt_thousands: "py_remove CHR '','' (fmt_thousands i) = str_of_int i"
proof -
  have "py_remove CHR '','' (rev (group_rev (rev (str_of_nat n)))) = str_of_nat n" for n
    by (simp add: py_remove_rev py_remove_group_rev py_remove_str_of_nat)
  then show ?thesis
    unfolding fmt_thousands_def str_of_int_def py_remove_def by simp
qed

section \<open>Lemmas on exceptions\<close>

lemma bind_exc_simps [simp]:
  "bind_exc (Inl e) f = Inl e"
  "bind_exc (Inr x) f = f x"
  by (simp_all add: bind_exc_def)

lemma bind_exc_eq_Inr:
  "bind_exc r f = Inr y \<longleftrightarrow> (\<exists>x. r = Inr x \<and> f x = Inr y)"
  by (cases r) simp_all

section \<open>Lemmas on dictionaries\<close>

lemma dict_lookup_Nil [simp]: "dict_lookup [] k = None"
  by (simp add: dict_lookup_def)

lemma dict_lookup_snoc [simp]:
  "dict_lookup (d @ [(k, v)]) k' = (if k' = k then Some v else dict_lookup d k')"
  by (simp add: dict_lookup_def)

lemma dict_lookup_None: "dict_lookup d k = None \<longleftrightarrow> k \<notin> fst ` set d"
  by (simp add: dict_lookup_def map_of_eq_None_iff image_iff)

lemma dict_lookup_map_fresh:
  "k \<notin> fst ` set d \<Longrightarrow> dict_lookup d k = None"
  by (simp add: dict_lookup_None)

lemma keys_dict_set [simp]: "map fst (dict_set d k v) =
  (if k \<in> fst ` set d then map fst d else map fst d @ [k])"
  by (induction d) (auto simp: dict_set_def)

lemma map_of_map_replace:
  "map_of (map (\<lambda>(k', v'). if k' = k then (k', v) else (k', v')) d) x =
   (if x = k \<and> k \<in> fst ` set d then Some v else map_of d x)"
proof (induction d arbitrary: x)
  case Nil
  then show ?case by simp
next
  case (Cons p d)
  obtain a b where p: "p = (a, b)" by (cases p)
  show ?case using Cons.IH [of x] Cons.IH [of k] by (cases "a = k") (simp_all add: p)
qed

lemma dict_lookup_dict_set [simp]:
  "dict_lookup (dict_set d k v) k' = (if k' = k then Some v else dict_lookup d k')"
  by (auto simp: dict_set_def dict_lookup_def rev_map map_of_map_replace)

lemma distinct_dict_set [simp]:
  "distinct (map fst d) \<Longrightarrow> distinct (map fst (dict_set d k v))"
  by (simp add: image_iff)

lemma fst_set_dict_set [simp]: "fst ` set (dict_set d k v) = insert k (fst ` set d)"
proof -
  have "set (map fst (dict_set d k v)) = insert k (set (map fst d))"
    by (simp only: keys_dict_set) (auto intro: rev_image_eqI)
  then show ?thesis by (simp del: keys_dict_set)
qed

lemma dict_lookup_Some_key: "dict_lookup d k = Some v \<Longrightarrow> k \<in> fst ` set d"
  by (metis dict_lookup_None option.simps(3))

section \<open>Lemmas on paths\<close>

lemma length_dropWhile_le: "length (dropWhile P xs) \<le> length xs"
  by (induction xs) auto

lemma length_dirname_basename:
  "length (os_path_dirname p) + length (os_path_basename p) \<le> length p"
proof -
  let ?P = "\<lambda>c. c \<noteq> CHR ''/''"
  have split: "length (dropWhile ?P (rev p)) + length (takeWhile ?P (rev p)) = length p"
    by (metis length_append length_rev add.commute takeWhile_dropWhile_id)
  have "length (os_path_dirname p) \<le> length (dropWhile ?P (rev p))"
    using length_dropWhile_le [of "\<lambda>c. c = CHR ''/''" "rev (rev (dropWhile ?P (rev p)))"]
    by (simp add: os_path_dirname_def Let_def)
  with split show ?thesis by (simp add: os_path_basename_def)
qed

text \<open>The measure of the recursion of \<open>os.makedirs\<close>: it recurses on the head
  only when the tail is not empty, and the head is then shorter than the path.\<close>

lemma makedirs_head_shorter:
  assumes "makedirs_tail p \<noteq> []"
  shows "length (makedirs_head p) < length p"
proof (cases "os_path_basename p = []")
  case True
  with assms have "0 < length (os_path_basename (os_path_dirname p))"
    by (simp add: makedirs_tail_def)
  moreover have h: "makedirs_head p = os_path_dirname (os_path_dirname p)"
    using True by (simp add: makedirs_head_def)
  ultimately show ?thesis
    unfolding h using length_dirname_basename [of p] length_dirname_basename [of "os_path_dirname p"]
    by linarith
next
  case False
  then have "0 < length (os_path_basename p)" by simp
  moreover have h: "makedirs_head p = os_path_dirname p"
    using False by (simp add: makedirs_head_def)
  ultimately show ?thesis unfolding h using length_dirname_basename [of p] by linarith
qed

section \<open>Sums over partitions\<close>

lemma sum_list_filter_partition:
  "sum_list (map f (filter P xs)) + sum_list (map f (filter (\<lambda>x. \<not> P x) xs)) =
   sum_list (map f xs)" for f :: "'a \<Rightarrow> 'b::comm_monoid_add"
  by (induction xs) (simp_all add: algebra_simps)

lemma length_filter_partition:
  "length (filter P xs) + length (filter (\<lambda>x. \<not> P x) xs) = length xs"
  by (induction xs) simp_all

end
