(* ===== verification/Transaction.thy ===== *)
theory Transaction
  imports Prelude
begin

text \<open>
  \<^verbatim>\<open>src/models/transaction.py\<close>: the base class \<open>Transaction\<close> (its attributes,
  \<open>__init__\<close>, \<open>to_dict\<close> and \<open>__str__\<close>), and the clock reading
  \<open>datetime.now()\<close> with the two \<open>strftime\<close> formats the program prints it in.
  Python's string \<open>hash\<close> is randomised per process, so it is a parameter
  \<open>hash :: string \<Rightarrow> int\<close> of every operation that builds a transaction; the clock
  reading is a parameter \<open>now\<close>.
\<close>

section \<open>Clock readings and their formats\<close>

record datetime =
  dt_year :: nat
  dt_month :: nat
  dt_day :: nat
  dt_hour :: nat
  dt_minute :: nat
  dt_second :: nat

definition is_leap :: "nat \<Rightarrow> bool" where
  "is_leap y \<longleftrightarrow> 4 dvd y \<and> (\<not> 100 dvd y \<or> 400 dvd y)"

definition days_in_month :: "nat \<Rightarrow> nat \<Rightarrow> nat" where
  "days_in_month y m =
     (if m = 2 then (if is_leap y then 29 else 28)
      else if m = 4 \<or> m = 6 \<or> m = 9 \<or> m = 11 then 30 else 31)"

text \<open>The range a Python \<open>datetime\<close> object enforces on construction.\<close>

definition valid_datetime :: "datetime \<Rightarrow> bool" where
  "valid_datetime d \<longleftrightarrow>
     1 \<le> dt_year d \<and> dt_year d \<le> 9999 \<and> 1 \<le> dt_month d \<and> dt_month d \<le> 12 \<and>
     1 \<le> dt_day d \<and> dt_day d \<le> days_in_month (dt_year d) (dt_month d) \<and>
     dt_hour d < 24 \<and> dt_minute d < 60 \<and> dt_second d < 60"

text \<open>\<open>%m %d %H %M %S\<close>: two digits, zero-padded. \<open>%Y\<close>: the year zero-padded to
  four digits, as Python documents it (\<open>0001\<close> \<dots> \<open>9999\<close>) and CPython
  prints it on every platform since 3.12.5.\<close>

definition pad2 :: "nat \<Rightarrow> string" where
  "pad2 n = (if n < 10 then CHR ''0'' # str_of_nat n else str_of_nat n)"

definition pad4 :: "nat \<Rightarrow> string" where
  "pad4 n = replicate (4 - length (str_of_nat n)) CHR ''0'' @ str_of_nat n"

text \<open>\<open>now.strftime("%Y-%m")\<close>, the month key of \<open>get_monthly_spending\<close>.\<close>

definition strftime_ym :: "datetime \<Rightarrow> string" where
  "strftime_ym d = pad4 (dt_year d) @ ''-'' @ pad2 (dt_month d)"

text \<open>\<open>now.strftime("%Y-%m-%d %H:%M:%S")\<close>, the default date of a transaction.\<close>

definition strftime_full :: "datetime \<Rightarrow> string" where
  "strftime_full d =
     pad4 (dt_year d) @ ''-'' @ pad2 (dt_month d) @ ''-'' @ pad2 (dt_day d) @ '' '' @
     pad2 (dt_hour d) @ '':'' @ pad2 (dt_minute d) @ '':'' @ pad2 (dt_second d)"

section \<open>Transaction\<close>

type_synonym py_hash = "string \<Rightarrow> int"

text \<open>\<open>class Transaction\<close> (lines 4--11): the four attributes \<open>__init__\<close> sets,
  \<open>self.amount\<close>, \<open>self.description\<close>, \<open>self.date\<close> and \<open>self.id\<close> (the field
  \<open>id'\<close>: \<open>id\<close> is a constant of HOL). Amounts are integers: see the header of the
  root theory for why every amount the program stores is integral.\<close>

record transaction =
  amount :: int
  description :: string
  date :: string
  id' :: string

text \<open>\<open>Transaction.__init__(self, amount, description, date=None)\<close> (lines 7--11):
  \<^item> \<open>self.amount = amount\<close>, \<open>self.description = description\<close>;
  \<^item> \<open>self.date = date or datetime.now().strftime("%Y-%m-%d %H:%M:%S")\<close>: the
    argument when it is a non-empty string, the formatted clock reading when it is
    \<open>None\<close> (\<open>dt = None\<close>) or empty;
  \<^item> \<open>self.id = f"{self.date}_{hash(description)}"\<close>.\<close>

definition transaction_init ::
  "py_hash \<Rightarrow> datetime \<Rightarrow> int \<Rightarrow> string \<Rightarrow> string option \<Rightarrow> transaction" where
  "transaction_init hash now amt desc dt =
     (let d = py_or dt (strftime_full now)
      in \<lparr>amount = amt, description = desc, date = d,
          id' = d @ ''_'' @ str_of_int (hash desc)\<rparr>)"

text \<open>\<open>Transaction.to_dict\<close> (lines 13--20): the dictionary
  \<open>{'id': self.id, 'amount': self.amount, 'description': self.description,
  'date': self.date}\<close>, keys in this order.\<close>

definition transaction_to_dict :: "transaction \<Rightarrow> (string \<times> json) list" where
  "transaction_to_dict t =
     [(''id'', JStr (id' t)), (''amount'', JNum (amount t)),
      (''description'', JStr (description t)), (''date'', JStr (date t))]"

text \<open>\<open>Transaction.__str__\<close> (lines 22--23):
  \<open>f"Transaction: {self.description} - Rp {self.amount:,.0f} on {self.date}"\<close>.\<close>

definition transaction_str :: "transaction \<Rightarrow> string" where
  "transaction_str t =
     ''Transaction: '' @ description t @ '' - Rp '' @ fmt_thousands (amount t) @ '' on '' @ date t"

section \<open>Lemmas on the date formats\<close>

lemma nat_of_digits_zero_Cons: "nat_of_digits (CHR ''0'' # s) = nat_of_digits s"
  by (simp add: nat_of_digits_def digit_val_def)

lemma nat_of_digits_pad2 [simp]: "nat_of_digits (pad2 n) = n"
  by (simp add: pad2_def nat_of_digits_zero_Cons nat_of_digits_str_of_nat)

lemma nat_of_digits_replicate_zero:
  "nat_of_digits (replicate k CHR ''0'' @ s) = nat_of_digits s"
  by (induction k) (simp_all add: nat_of_digits_zero_Cons)

lemma nat_of_digits_pad4 [simp]: "nat_of_digits (pad4 n) = n"
  by (simp add: pad4_def nat_of_digits_replicate_zero nat_of_digits_str_of_nat)

lemma pad4_inj [simp]: "pad4 m = pad4 n \<longleftrightarrow> m = n"
  by (metis nat_of_digits_pad4)

lemma dash_notin_pad4 [simp]: "CHR ''-'' \<notin> set (pad4 n)"
  by (simp add: pad4_def)

lemma pad2_inj [simp]: "pad2 m = pad2 n \<longleftrightarrow> m = n"
  by (metis nat_of_digits_pad2)

lemma length_pad2: "n < 100 \<Longrightarrow> length (pad2 n) = 2"
  by (simp add: pad2_def str_of_nat_small str_of_nat_big)

lemma dash_notin_pad2 [simp]: "CHR ''-'' \<notin> set (pad2 n)"
  by (simp add: pad2_def)

lemma prefix_same_length: "length p = length q \<Longrightarrow> prefix p (q @ r) \<longleftrightarrow> p = q"
  by (metis append_eq_append_conv prefix_def prefix_length_prefix prefix_order.eq_iff prefix_prefix)

lemma strftime_full_ym: "py_startswith (strftime_full d) (strftime_ym d)"
  by (simp add: py_startswith_def strftime_full_def strftime_ym_def)

lemma startswith_month_iff:
  assumes "dt_month d < 100" "dt_month now < 100"
  shows "py_startswith (strftime_full d) (strftime_ym now) \<longleftrightarrow>
         dt_year d = dt_year now \<and> dt_month d = dt_month now"
proof
  assume "py_startswith (strftime_full d) (strftime_ym now)"
  then have "prefix (pad4 (dt_year now) @ CHR ''-'' # pad2 (dt_month now))
                    (pad4 (dt_year d) @ CHR ''-'' # (pad2 (dt_month d) @ ''-'' @ pad2 (dt_day d) @ '' '' @
     pad2 (dt_hour d) @ '':'' @ pad2 (dt_minute d) @ '':'' @ pad2 (dt_second d)))"
    by (simp add: py_startswith_def strftime_full_def strftime_ym_def)
  from prefix_delim [OF _ _ this] have "pad4 (dt_year now) = pad4 (dt_year d)"
     and "prefix (pad2 (dt_month now)) (pad2 (dt_month d) @ ''-'' @ pad2 (dt_day d) @ '' '' @
     pad2 (dt_hour d) @ '':'' @ pad2 (dt_minute d) @ '':'' @ pad2 (dt_second d))"
    by simp_all
  moreover have "length (pad2 (dt_month now)) = length (pad2 (dt_month d))"
    using assms by (simp add: length_pad2)
  ultimately show "dt_year d = dt_year now \<and> dt_month d = dt_month now"
    by (simp add: prefix_same_length)
next
  assume "dt_year d = dt_year now \<and> dt_month d = dt_month now"
  then show "py_startswith (strftime_full d) (strftime_ym now)"
    by (simp add: py_startswith_def strftime_full_def strftime_ym_def)
qed

section \<open>Lemmas on construction and serialisation\<close>

lemma strftime_full_ne [simp]: "strftime_full d \<noteq> []"
  by (simp add: strftime_full_def)

lemma transaction_init_sel [simp]:
  "amount (transaction_init hash now amt desc dt) = amt"
  "description (transaction_init hash now amt desc dt) = desc"
  by (simp_all add: transaction_init_def Let_def)

lemma date_transaction_init:
  "date (transaction_init hash now amt desc dt) =
     (case dt of None \<Rightarrow> strftime_full now | Some s \<Rightarrow> if s = [] then strftime_full now else s)"
  by (cases dt) (simp_all add: transaction_init_def Let_def)

lemma id_transaction_init:
  "id' (transaction_init hash now amt desc dt) =
     date (transaction_init hash now amt desc dt) @ ''_'' @ str_of_int (hash desc)"
  by (simp add: transaction_init_def Let_def)

lemma transaction_init_Some:
  "s \<noteq> [] \<Longrightarrow> transaction_init hash now amt desc (Some s) =
     \<lparr>amount = amt, description = desc, date = s, id' = s @ ''_'' @ str_of_int (hash desc)\<rparr>"
  by (simp add: transaction_init_def)

end
