(* ===== verification/Expense.thy ===== *)
theory Expense
  imports Transaction
begin

text \<open>
  \<^verbatim>\<open>src/models/expense.py\<close>: the two subclasses of \<open>Transaction\<close>. An object of
  either class is one value of the datatype \<open>expense\<close>, its constructor naming the
  class; the inherited attributes are its \<open>transaction\<close>. Each method is one
  definition per class, and a method call on an object of unknown class
  (\<open>expense.to_dict()\<close>, \<open>str(expense)\<close>, \<open>isinstance(expense, GamingExpense)\<close>) is a
  function by cases on the constructor.
\<close>

section \<open>The classes\<close>

text \<open>\<open>class GamingExpense(Transaction)\<close> (lines 5--12) adds \<open>self.game_title\<close>,
  \<open>self.expense_type\<close> and \<open>self.category = 'gaming'\<close>;
  \<open>class RegularExpense(Transaction)\<close> (lines 27--32) adds \<open>self.category\<close>.\<close>

datatype expense =
    GamingExpense transaction string string
  | RegularExpense transaction string

text \<open>The inherited attributes, and the attribute \<open>category\<close>: the constant
  \<open>'gaming'\<close> a \<open>GamingExpense\<close> sets in its constructor, the argument a
  \<open>RegularExpense\<close> stores.\<close>

fun txn :: "expense \<Rightarrow> transaction" where
  "txn (GamingExpense t _ _) = t"
| "txn (RegularExpense t _) = t"

fun category :: "expense \<Rightarrow> string" where
  "category (GamingExpense _ _ _) = ''gaming''"
| "category (RegularExpense _ c) = c"

text \<open>\<open>isinstance(expense, GamingExpense)\<close>.\<close>

fun is_gaming_instance :: "expense \<Rightarrow> bool" where
  "is_gaming_instance (GamingExpense _ _ _) = True"
| "is_gaming_instance (RegularExpense _ _) = False"

section \<open>Constructors\<close>

text \<open>\<open>GamingExpense.__init__(self, amount, description, game_title, expense_type,
  date=None)\<close> (lines 8--12): \<open>super().__init__(amount, description, date)\<close>, then the
  two attributes of its own.\<close>

definition gaming_expense_init ::
  "py_hash \<Rightarrow> datetime \<Rightarrow> int \<Rightarrow> string \<Rightarrow> string \<Rightarrow> string \<Rightarrow> string option \<Rightarrow> expense" where
  "gaming_expense_init hash now amt desc game_title expense_type dt =
     GamingExpense (transaction_init hash now amt desc dt) game_title expense_type"

text \<open>\<open>RegularExpense.__init__(self, amount, description, category, date=None)\<close>
  (lines 30--32): \<open>super().__init__(amount, description, date)\<close>, then
  \<open>self.category = category\<close>.\<close>

definition regular_expense_init ::
  "py_hash \<Rightarrow> datetime \<Rightarrow> int \<Rightarrow> string \<Rightarrow> string \<Rightarrow> string option \<Rightarrow> expense" where
  "regular_expense_init hash now amt desc cat dt =
     RegularExpense (transaction_init hash now amt desc dt) cat"

section \<open>Serialisation\<close>

text \<open>\<open>GamingExpense.to_dict\<close> (lines 14--22): \<open>data = super().to_dict()\<close>, then
  \<open>data.update({'game_title': ..., 'expense_type': ..., 'category': self.category})\<close>.\<close>

definition gaming_expense_to_dict :: "transaction \<Rightarrow> string \<Rightarrow> string \<Rightarrow> (string \<times> json) list" where
  "gaming_expense_to_dict t game_title expense_type =
     dict_update (transaction_to_dict t)
       [(''game_title'', JStr game_title), (''expense_type'', JStr expense_type),
        (''category'', JStr ''gaming'')]"

text \<open>\<open>RegularExpense.to_dict\<close> (lines 34--40): \<open>data = super().to_dict()\<close>, then
  \<open>data.update({'category': self.category})\<close>.\<close>

definition regular_expense_to_dict :: "transaction \<Rightarrow> string \<Rightarrow> (string \<times> json) list" where
  "regular_expense_to_dict t cat = dict_update (transaction_to_dict t) [(''category'', JStr cat)]"

text \<open>\<open>expense.to_dict()\<close> on an object of either class.\<close>

fun expense_to_dict :: "expense \<Rightarrow> (string \<times> json) list" where
  "expense_to_dict (GamingExpense t gt et) = gaming_expense_to_dict t gt et"
| "expense_to_dict (RegularExpense t c) = regular_expense_to_dict t c"

section \<open>Display\<close>

text \<open>\<open>GamingExpense.__str__\<close> (lines 24--25):
  \<open>f"Gaming Expense: {self.game_title} - {self.description} - Rp {self.amount:,.0f}
  ({self.expense_type})"\<close>.\<close>

definition gaming_expense_str :: "transaction \<Rightarrow> string \<Rightarrow> string \<Rightarrow> string" where
  "gaming_expense_str t game_title expense_type =
     ''Gaming Expense: '' @ game_title @ '' - '' @ description t @ '' - Rp '' @
     fmt_thousands (amount t) @ '' ('' @ expense_type @ '')''"

text \<open>\<open>RegularExpense.__str__\<close> (lines 42--43):
  \<open>f"Regular Expense: {self.description} - Rp {self.amount:,.0f} ({self.category})"\<close>.\<close>

definition regular_expense_str :: "transaction \<Rightarrow> string \<Rightarrow> string" where
  "regular_expense_str t cat =
     ''Regular Expense: '' @ description t @ '' - Rp '' @ fmt_thousands (amount t) @ '' ('' @ cat @ '')''"

text \<open>\<open>str(expense)\<close> on an object of either class.\<close>

fun expense_str :: "expense \<Rightarrow> string" where
  "expense_str (GamingExpense t gt et) = gaming_expense_str t gt et"
| "expense_str (RegularExpense t c) = regular_expense_str t c"

section \<open>Lemmas\<close>

lemma expense_to_dict_gaming:
  "expense_to_dict (GamingExpense t gt et) =
     transaction_to_dict t @
       [(''game_title'', JStr gt), (''expense_type'', JStr et), (''category'', JStr ''gaming'')]"
  by (simp add: gaming_expense_to_dict_def dict_update_def dict_set_def transaction_to_dict_def)

lemma expense_to_dict_regular:
  "expense_to_dict (RegularExpense t c) = transaction_to_dict t @ [(''category'', JStr c)]"
  by (simp add: regular_expense_to_dict_def dict_update_def dict_set_def transaction_to_dict_def)

lemmas expense_to_dict_simps = expense_to_dict_gaming expense_to_dict_regular

declare expense_to_dict.simps [simp del] expense_to_dict_simps [simp]

end
