(* ===== verification/Os.thy ===== *)
theory Os
  imports Prelude
begin

text \<open>
  The part of Python's standard library that the persistence code of
  \<^verbatim>\<open>src/models/finance_manager.py\<close> calls, over an explicit model of the file
  system (\<open>world\<close>): the files and their contents as \<open>json.load\<close> sees them, the
  directories, the paths the process may not write, and the message boxes shown so
  far. \<open>os.makedirs\<close> is the recursive function of CPython's \<^verbatim>\<open>os.py\<close>, defined
  with \<open>function\<close> and proved to terminate: each recursive call is on the head of
  the path, which is shorter. Paths are taken as written, without normalisation; the
  world lists every directory that exists. \<open>json.dump\<close> followed by
  \<open>json.load\<close> returns the dumped value, so a file holds the JSON value itself; a
  file \<open>json.load\<close> rejects holds the decoder's message.
\<close>

section \<open>The file system\<close>

datatype fentry = JsonText json | BadText string

record world =
  files :: "string \<Rightarrow> fentry option"
  dirs :: "string set"
  readonly :: "string set"
  shown :: "dialog list"

definition show_error :: "world \<Rightarrow> string \<Rightarrow> string \<Rightarrow> world" where
  "show_error w title msg = w\<lparr>shown := shown w @ [ShowError title msg]\<rparr>"

definition os_path_exists :: "world \<Rightarrow> string \<Rightarrow> bool" where
  "os_path_exists w p \<longleftrightarrow> p \<in> dirs w \<or> files w p \<noteq> None"

text \<open>\<open>os.path.isdir(p)\<close>: \<open>os.stat('')\<close> fails, so the empty path is no
  directory.\<close>

definition os_path_isdir :: "world \<Rightarrow> string \<Rightarrow> bool" where
  "os_path_isdir w p \<longleftrightarrow> p \<noteq> [] \<and> p \<in> dirs w"

section \<open>Directories\<close>

text \<open>\<open>os.mkdir(p)\<close>: the empty path does not exist (\<open>ENOENT\<close>), an existing path
  is refused (\<open>EEXIST\<close>), the parent must be a directory (\<open>ENOTDIR\<close> when it is a
  file, \<open>ENOENT\<close> when it is missing).\<close>

definition os_mkdir :: "world \<Rightarrow> string \<Rightarrow> exc + world" where
  "os_mkdir w p =
     (if p = [] then Inl (FileNotFoundError p)
      else if os_path_exists w p then Inl (FileExistsError p)
      else if os_path_dirname p \<noteq> [] \<and> os_path_dirname p \<notin> dirs w
      then (if files w (os_path_dirname p) \<noteq> None then Inl (NotADirectoryError p)
            else Inl (FileNotFoundError p))
      else Inr (w\<lparr>dirs := insert p (dirs w)\<rparr>))"

text \<open>\<open>os.makedirs(name, exist_ok=True)\<close> as \<^verbatim>\<open>os.py\<close> writes it:
  \<^verbatim>\<open>
  head, tail = path.split(name)
  if not tail:
      head, tail = path.split(head)
  if head and tail and not path.exists(head):
      try:
          makedirs(head, exist_ok=exist_ok)
      except FileExistsError:
          pass
      if tail == curdir:
          return
  try:
      mkdir(name, mode)
  except OSError:
      if not exist_ok or not path.isdir(name):
          raise
  \<close>\<close>

text \<open>\<open>try: makedirs(head, ...) except FileExistsError: pass\<close>.\<close>

fun except_file_exists :: "exc + world \<Rightarrow> world \<Rightarrow> exc + world" where
  "except_file_exists (Inl (FileExistsError _)) w = Inr w"
| "except_file_exists r w = r"

function os_makedirs :: "world \<Rightarrow> string \<Rightarrow> exc + world" where
  "os_makedirs w p =
     (case (if makedirs_head p \<noteq> [] \<and> makedirs_tail p \<noteq> [] \<and> \<not> os_path_exists w (makedirs_head p)
            then except_file_exists (os_makedirs w (makedirs_head p)) w
            else Inr w) of
        Inl e \<Rightarrow> Inl e
      | Inr w1 \<Rightarrow>
          (if makedirs_head p \<noteq> [] \<and> makedirs_tail p \<noteq> [] \<and> \<not> os_path_exists w (makedirs_head p)
              \<and> makedirs_tail p = ''.''
           then Inr w1
           else (case os_mkdir w1 p of
                   Inl e \<Rightarrow> (if os_path_isdir w1 p then Inr w1 else Inl e)
                 | Inr w2 \<Rightarrow> Inr w2)))"
  by pat_completeness auto
termination
  by (relation "measure (\<lambda>(w, p). length p)") (auto simp: makedirs_head_shorter)

declare os_makedirs.simps [simp del]

section \<open>Reading and writing JSON files\<close>

text \<open>\<open>open(p, 'w')\<close> followed by \<open>json.dump(v, f)\<close>.\<close>

definition write_json :: "world \<Rightarrow> string \<Rightarrow> json \<Rightarrow> exc + world" where
  "write_json w p v =
     (if p \<in> dirs w then Inl (IsADirectoryError p)
      else if os_path_dirname p \<noteq> [] \<and> os_path_dirname p \<notin> dirs w
      then (if files w (os_path_dirname p) \<noteq> None then Inl (NotADirectoryError p)
            else Inl (FileNotFoundError p))
      else if p \<in> readonly w then Inl (PermissionError p)
      else Inr (w\<lparr>files := (files w)(p \<mapsto> JsonText v)\<rparr>))"

text \<open>\<open>open(p, 'r')\<close> followed by \<open>json.load(f)\<close>.\<close>

definition read_json :: "world \<Rightarrow> string \<Rightarrow> exc + json" where
  "read_json w p =
     (if p \<in> dirs w then Inl (IsADirectoryError p)
      else case files w p of
        None \<Rightarrow> Inl (FileNotFoundError p)
      | Some (BadText msg) \<Rightarrow> Inl (JSONDecodeError msg)
      | Some (JsonText v) \<Rightarrow> Inr v)"

section \<open>Lemmas\<close>

lemma os_mkdir_keeps:
  "os_mkdir w p = Inr w1 \<Longrightarrow> shown w1 = shown w \<and> files w1 = files w \<and> readonly w1 = readonly w"
  by (auto simp: os_mkdir_def split: if_splits)

text \<open>\<open>os.makedirs\<close> creates directories only: on success the files, the
  read-only paths and the message boxes are those it started with.\<close>

lemma os_makedirs_keeps:
  "os_makedirs w p = Inr w1 \<Longrightarrow> shown w1 = shown w \<and> files w1 = files w \<and> readonly w1 = readonly w"
proof (induction w p arbitrary: w1 rule: os_makedirs.induct)
  case (1 w p)
  let ?c = "makedirs_head p \<noteq> [] \<and> makedirs_tail p \<noteq> [] \<and> \<not> os_path_exists w (makedirs_head p)"
  obtain w0 where w0: "(if ?c then except_file_exists (os_makedirs w (makedirs_head p)) w else Inr w) = Inr w0"
    using "1.prems" by (cases "if ?c then except_file_exists (os_makedirs w (makedirs_head p)) w else Inr w")
      (simp_all add: os_makedirs.simps [of w p])
  have k0: "shown w0 = shown w \<and> files w0 = files w \<and> readonly w0 = readonly w"
  proof (cases ?c)
    case True
    with w0 have "except_file_exists (os_makedirs w (makedirs_head p)) w = Inr w0" by simp
    then have "w0 = w \<or> os_makedirs w (makedirs_head p) = Inr w0"
      by (rule except_file_exists.elims) auto
    with "1.IH" [OF True] show ?thesis by auto
  next
    case False
    with w0 show ?thesis by simp
  qed
  have "w1 = w0 \<or> os_mkdir w0 p = Inr w1"
    using "1.prems" w0 by (auto simp: os_makedirs.simps [of w p] split: if_splits sum.splits)
  with k0 show ?case by (auto dest: os_mkdir_keeps)
qed

text \<open>A path whose directory part is a single existing directory or empty: one
  call of \<open>os.mkdir\<close>, whose \<open>EEXIST\<close> on a directory is ignored.\<close>

lemma os_makedirs_flat:
  assumes "makedirs_head p = [] \<or> makedirs_tail p = [] \<or> os_path_exists w (makedirs_head p)"
  shows "os_makedirs w p =
    (case os_mkdir w p of Inl e \<Rightarrow> (if os_path_isdir w p then Inr w else Inl e) | Inr w2 \<Rightarrow> Inr w2)"
  using assms by (auto simp: os_makedirs.simps [of w p])

lemma os_path_dirname_Nil [simp]: "os_path_dirname [] = []"
  by (simp add: os_path_dirname_def)

lemma makedirs_head_top: "os_path_dirname d = [] \<Longrightarrow> makedirs_head d = []"
  by (simp add: makedirs_head_def)

text \<open>\<open>os.makedirs('')\<close> raises \<open>FileNotFoundError\<close>; on a path without a
  directory part it is one \<open>os.mkdir\<close>.\<close>

lemma os_makedirs_empty: "os_makedirs w [] = Inl (FileNotFoundError [])"
  by (simp add: os_makedirs_flat makedirs_head_top os_mkdir_def os_path_isdir_def)

lemma os_makedirs_top:
  assumes "os_path_dirname d = []" and "d \<noteq> []"
  shows "os_makedirs w d =
    (if d \<in> dirs w then Inr w else if files w d \<noteq> None then Inl (FileExistsError d)
     else Inr (w\<lparr>dirs := insert d (dirs w)\<rparr>))"
  using assms
  by (simp add: os_makedirs_flat makedirs_head_top os_mkdir_def os_path_isdir_def os_path_exists_def)

text \<open>When \<open>os.makedirs\<close> returns, the path is a directory, unless its last
  component is \<open>.\<close>, which it does not create.\<close>

lemma os_makedirs_dir:
  "os_makedirs w p = Inr w1 \<Longrightarrow> p \<in> dirs w1 \<or> makedirs_tail p = ''.''"
  by (auto simp: os_makedirs.simps [of w p] os_mkdir_def os_path_isdir_def split: sum.splits if_splits)

end
