(* ===== verification/Persistence.thy ===== *)
theory Persistence
  imports Expense Os
begin

text \<open>
  The state of \<open>GamerFinanceManager\<close> (\<^verbatim>\<open>src/models/finance_manager.py\<close>) and its
  persistence: \<open>save_data\<close> writes the budgets and every expense to the JSON data
  file, \<open>load_data\<close> reads them back, over the file system of \<open>Os\<close>. Loading
  stores what the file holds without checking its type: Python keeps a string where
  an amount belongs, or a number where a description belongs. The model's records
  hold integral amounts and strings, so on such a value the loader returns \<open>None\<close>:
  the run leaves what the model represents. Every exception Python raises while
  loading is a value \<open>Inl\<close> of the model: a missing key, a value that is not a
  dictionary, a list or dictionary as a description (\<open>hash\<close> rejects it).
\<close>

section \<open>The manager's state\<close>

record manager =
  data_file :: string
  expenses :: "expense list"
  monthly_budget :: int
  gaming_budget :: int

text \<open>The attributes \<open>__init__\<close> (lines 14--18) sets before it calls \<open>load_data\<close>.\<close>

definition manager_fresh :: "string \<Rightarrow> manager" where
  "manager_fresh p = \<lparr>data_file = p, expenses = [], monthly_budget = 0, gaming_budget = 0\<rparr>"

section \<open>Saving\<close>

text \<open>The dictionary \<open>save_data\<close> dumps (lines 54--58).\<close>

definition manager_to_json :: "manager \<Rightarrow> json" where
  "manager_to_json m =
     JObj [(''monthly_budget'', JNum (monthly_budget m)),
           (''gaming_budget'', JNum (gaming_budget m)),
           (''expenses'', JArr (map (\<lambda>e. JObj (expense_to_dict e)) (expenses m)))]"

text \<open>\<open>save_data\<close> (lines 51--63): \<open>os.makedirs\<close> runs outside the \<open>try\<close>, so its
  exception propagates to the caller (the second component of the result); a failure
  to open or write the file is caught and shown in a message box.\<close>

definition save_data :: "manager \<Rightarrow> world \<Rightarrow> world \<times> exc option" where
  "save_data m w =
     (case os_makedirs w (os_path_dirname (data_file m)) of
        Inl e \<Rightarrow> (w, Some e)
      | Inr w1 \<Rightarrow>
          (case write_json w1 (data_file m) (manager_to_json m) of
             Inl e \<Rightarrow> (show_error w1 ''Error'' (''Failed to save data: '' @ exc_str e), None)
           | Inr w2 \<Rightarrow> (w2, None)))"

section \<open>Loading\<close>

text \<open>The Python type name that appears in the messages of \<open>AttributeError\<close> and
  \<open>TypeError\<close>. The numbers the program writes are floats (\<open>float()\<close> of the
  form's entries), which \<open>json.dump\<close> prints with a fraction and \<open>json.load\<close> reads
  back as floats. A number written by hand without fraction or exponent loads as an
  \<open>int\<close>, whose messages say \<open>int\<close>: \<open>json\<close> does not record how a number was
  written, so the model names every number \<open>float\<close>, as in the program's own files.\<close>

fun py_type_name :: "json \<Rightarrow> string" where
  "py_type_name JNull = ''NoneType''"
| "py_type_name (JBool _) = ''bool''"
| "py_type_name (JNum _) = ''float''"
| "py_type_name (JStr _) = ''str''"
| "py_type_name (JArr _) = ''list''"
| "py_type_name (JObj _) = ''dict''"

text \<open>\<open>d.get(k, default)\<close>: only dictionaries have \<open>get\<close>.\<close>

fun json_get :: "json \<Rightarrow> string \<Rightarrow> json \<Rightarrow> exc + json" where
  "json_get (JObj d) k dflt = Inr (case dict_lookup d k of None \<Rightarrow> dflt | Some v \<Rightarrow> v)"
| "json_get v k dflt =
     Inl (AttributeError ([CHR 0x27] @ py_type_name v @ [CHR 0x27] @
                          '' object has no attribute '' @ [CHR 0x27] @ ''get'' @ [CHR 0x27]))"

text \<open>\<open>d[k]\<close> on a dictionary: a missing key raises \<open>KeyError\<close>.\<close>

fun json_index :: "json \<Rightarrow> string \<Rightarrow> exc + json" where
  "json_index (JObj d) k = (case dict_lookup d k of None \<Rightarrow> Inl (KeyError k) | Some v \<Rightarrow> Inr v)"
| "json_index v k =
     Inl (TypeError (py_type_name v @ '' indices must be integers''))"

text \<open>\<open>for x in v\<close>: lists yield their items, dictionaries their keys (in the
  order of their first occurrence), strings their characters; the other values are
  not iterable.\<close>

fun py_iter :: "json \<Rightarrow> exc + json list" where
  "py_iter (JArr xs) = Inr xs"
| "py_iter (JObj d) = Inr (map JStr (rev (remdups (rev (map fst d)))))"
| "py_iter (JStr s) = Inr (map (\<lambda>c. JStr [c]) s)"
| "py_iter v =
     Inl (TypeError ([CHR 0x27] @ py_type_name v @ [CHR 0x27] @ '' object is not iterable''))"

text \<open>Truth value of a loaded value, as \<open>date or datetime.now()...\<close> in
  \<open>Transaction.__init__\<close> tests it.\<close>

fun py_truthy :: "json \<Rightarrow> bool" where
  "py_truthy JNull = False"
| "py_truthy (JBool b) = b"
| "py_truthy (JNum n) = (n \<noteq> 0)"
| "py_truthy (JStr s) = (s \<noteq> [])"
| "py_truthy (JArr xs) = (xs \<noteq> [])"
| "py_truthy (JObj d) = (d \<noteq> [])"

text \<open>\<open>hash(description)\<close> in \<open>Transaction.__init__\<close>: lists and dictionaries are
  unhashable.\<close>

fun py_hash_error :: "json \<Rightarrow> exc option" where
  "py_hash_error (JArr _) = Some (TypeError (''unhashable type: '' @ [CHR 0x27] @ ''list'' @ [CHR 0x27]))"
| "py_hash_error (JObj _) = Some (TypeError (''unhashable type: '' @ [CHR 0x27] @ ''dict'' @ [CHR 0x27]))"
| "py_hash_error _ = None"

text \<open>The model's value of a loaded field: amounts are numbers, texts are strings.
  Python stores a value of another type as it is; the model has no such record
  (\<open>None\<close>).\<close>

fun as_amount :: "json \<Rightarrow> int option" where
  "as_amount (JNum n) = Some n"
| "as_amount _ = None"

fun as_text :: "json \<Rightarrow> string option" where
  "as_text (JStr s) = Some s"
| "as_text _ = None"

text \<open>The \<open>date\<close> argument: a false value selects the clock (\<open>date or now\<close>,
  the model's \<open>None\<close>), a string is kept.\<close>

fun as_date :: "json \<Rightarrow> string option option" where
  "as_date (JStr s) = Some (Some s)"
| "as_date v = (if py_truthy v then None else Some None)"

text \<open>\<open>GamingExpense(amount, description, game_title, expense_type, date)\<close> on
  loaded values (lines 33--39): the constructor raises only in \<open>hash\<close>.\<close>

definition build_gaming ::
  "py_hash \<Rightarrow> datetime \<Rightarrow> json \<Rightarrow> json \<Rightarrow> json \<Rightarrow> json \<Rightarrow> json \<Rightarrow> (exc + expense) option" where
  "build_gaming hash now a d gt et dt =
     (case py_hash_error d of
        Some e \<Rightarrow> Some (Inl e)
      | None \<Rightarrow>
          (case (as_amount a, as_text d, as_text gt, as_text et, as_date dt) of
             (Some a', Some d', Some gt', Some et', Some dt') \<Rightarrow>
               Some (Inr (gaming_expense_init hash now a' d' gt' et' dt'))
           | _ \<Rightarrow> None))"

text \<open>\<open>RegularExpense(amount, description, category, date)\<close> on loaded values
  (lines 41--46).\<close>

definition build_regular ::
  "py_hash \<Rightarrow> datetime \<Rightarrow> json \<Rightarrow> json \<Rightarrow> json \<Rightarrow> json \<Rightarrow> (exc + expense) option" where
  "build_regular hash now a d c dt =
     (case py_hash_error d of
        Some e \<Rightarrow> Some (Inl e)
      | None \<Rightarrow>
          (case (as_amount a, as_text d, as_text c, as_date dt) of
             (Some a', Some d', Some c', Some dt') \<Rightarrow>
               Some (Inr (regular_expense_init hash now a' d' c' dt'))
           | _ \<Rightarrow> None))"

text \<open>One iteration of the loop in \<open>load_data\<close> (lines 32--46): the constructor
  chosen by the \<open>category\<close> key, its arguments read in the order Python evaluates
  them, each read raising \<open>KeyError\<close> on a missing key.\<close>

definition expense_of_json :: "py_hash \<Rightarrow> datetime \<Rightarrow> json \<Rightarrow> (exc + expense) option" where
  "expense_of_json hash now ed =
     (case json_get ed ''category'' JNull of
        Inl e \<Rightarrow> Some (Inl e)
      | Inr cat \<Rightarrow>
          if cat = JStr ''gaming'' then
            (case bind_exc (json_index ed ''amount'') (\<lambda>a.
                  bind_exc (json_index ed ''description'') (\<lambda>d.
                  bind_exc (json_index ed ''game_title'') (\<lambda>gt.
                  bind_exc (json_index ed ''expense_type'') (\<lambda>et.
                  bind_exc (json_index ed ''date'') (\<lambda>dt. Inr (a, d, gt, et, dt)))))) of
               Inl e \<Rightarrow> Some (Inl e)
             | Inr (a, d, gt, et, dt) \<Rightarrow> build_gaming hash now a d gt et dt)
          else
            (case bind_exc (json_index ed ''amount'') (\<lambda>a.
                  bind_exc (json_index ed ''description'') (\<lambda>d.
                  bind_exc (json_index ed ''category'') (\<lambda>c.
                  bind_exc (json_index ed ''date'') (\<lambda>dt. Inr (a, d, c, dt))))) of
               Inl e \<Rightarrow> Some (Inl e)
             | Inr (a, d, c, dt) \<Rightarrow> build_regular hash now a d c dt))"

text \<open>The loop (lines 31--47) appends each expense as soon as it is built; an
  exception leaves the expenses appended so far in place.\<close>

fun load_expenses ::
  "py_hash \<Rightarrow> datetime \<Rightarrow> json list \<Rightarrow> manager \<Rightarrow> (manager \<times> exc option) option" where
  "load_expenses hash now [] m = Some (m, None)"
| "load_expenses hash now (x # xs) m =
     (case expense_of_json hash now x of
        None \<Rightarrow> None
      | Some (Inl e) \<Rightarrow> Some (m, Some e)
      | Some (Inr ex) \<Rightarrow> load_expenses hash now xs (m\<lparr>expenses := expenses m @ [ex]\<rparr>))"

text \<open>The body of the \<open>try\<close> in \<open>load_data\<close> (lines 25--47): each assignment to
  the manager happens before the next step can raise.\<close>

definition load_body ::
  "py_hash \<Rightarrow> datetime \<Rightarrow> manager \<Rightarrow> world \<Rightarrow> (manager \<times> exc option) option" where
  "load_body hash now m w =
     (case read_json w (data_file m) of
        Inl e \<Rightarrow> Some (m, Some e)
      | Inr data \<Rightarrow>
        (case json_get data ''monthly_budget'' (JNum 0) of
           Inl e \<Rightarrow> Some (m, Some e)
         | Inr mbv \<Rightarrow>
           (case as_amount mbv of
              None \<Rightarrow> None
            | Some mb \<Rightarrow>
              (let m1 = m\<lparr>monthly_budget := mb\<rparr> in
               case json_get data ''gaming_budget'' (JNum 0) of
                 Inl e \<Rightarrow> Some (m1, Some e)
               | Inr gbv \<Rightarrow>
                 (case as_amount gbv of
                    None \<Rightarrow> None
                  | Some gb \<Rightarrow>
                    (let m2 = m1\<lparr>gaming_budget := gb\<rparr> in
                     case bind_exc (json_get data ''expenses'' (JArr [])) py_iter of
                       Inl e \<Rightarrow> Some (m2, Some e)
                     | Inr xs \<Rightarrow> load_expenses hash now xs m2))))))"

text \<open>\<open>load_data\<close> (lines 21--49): a missing file leaves the state alone; every
  exception of the body is caught and shown, and the state keeps what the body had
  assigned.\<close>

definition load_data :: "py_hash \<Rightarrow> datetime \<Rightarrow> manager \<Rightarrow> world \<Rightarrow> (manager \<times> world) option" where
  "load_data hash now m w =
     (if os_path_exists w (data_file m) then
        (case load_body hash now m w of
           None \<Rightarrow> None
         | Some (m', None) \<Rightarrow> Some (m', w)
         | Some (m', Some e) \<Rightarrow> Some (m', show_error w ''Error'' (''Failed to load data: '' @ exc_str e)))
      else Some (m, w))"

section \<open>What survives a reload\<close>

text \<open>An expense that \<open>load_data\<close> rebuilds as it was saved: a regular expense
  whose category is not \<open>'gaming'\<close> (that value selects the gaming constructor), a
  non-empty date (the empty date is replaced by the clock), and an id that is the one
  the loading process's hash derives from date and description.\<close>

definition reloadable :: "py_hash \<Rightarrow> expense \<Rightarrow> bool" where
  "reloadable hash e \<longleftrightarrow>
     (case e of RegularExpense _ c \<Rightarrow> c \<noteq> ''gaming'' | GamingExpense _ _ _ \<Rightarrow> True) \<and>
     date (txn e) \<noteq> [] \<and>
     id' (txn e) = date (txn e) @ ''_'' @ str_of_int (hash (description (txn e)))"

section \<open>Example data for the witnesses\<close>

definition example_hash :: py_hash where
  "example_hash s = int (length s)"

definition example_now :: datetime where
  "example_now = \<lparr>dt_year = 2025, dt_month = 3, dt_day = 7, dt_hour = 9, dt_minute = 5, dt_second = 0\<rparr>"

definition example_world :: world where
  "example_world = \<lparr>files = Map.empty, dirs = {}, readonly = {}, shown = []\<rparr>"

definition example_manager :: manager where
  "example_manager =
     \<lparr>data_file = ''data/gamer_finance.json'',
      expenses = [gaming_expense_init example_hash example_now 100000 ''Elden Ring'' ''Elden Ring'' ''Game Purchase'' None,
                  regular_expense_init example_hash example_now 50000 ''Lunch'' ''Food'' None],
      monthly_budget = 1000000, gaming_budget = 300000\<rparr>"

section \<open>Lemmas on saving and loading\<close>

lemma reloadable_gaming_init [simp]:
  "reloadable hash (gaming_expense_init hash now a d gt et None)"
  by (simp add: reloadable_def gaming_expense_init_def date_transaction_init id_transaction_init)

lemma reloadable_regular_init [simp]:
  "reloadable hash (regular_expense_init hash now a d c None) \<longleftrightarrow> c \<noteq> ''gaming''"
  by (simp add: reloadable_def regular_expense_init_def date_transaction_init id_transaction_init)

lemma expense_of_json_to_dict:
  assumes "reloadable hash e"
  shows "expense_of_json hash now (JObj (expense_to_dict e)) = Some (Inr e)"
proof (cases e)
  case (GamingExpense t gt et)
  with assms show ?thesis
    by (simp add: reloadable_def expense_to_dict_simps transaction_to_dict_def expense_of_json_def
        dict_lookup_def build_gaming_def gaming_expense_init_def transaction_init_Some)
next
  case (RegularExpense t c)
  with assms show ?thesis
    by (simp add: reloadable_def expense_to_dict_simps transaction_to_dict_def expense_of_json_def
        dict_lookup_def build_regular_def regular_expense_init_def transaction_init_Some)
qed

lemma load_expenses_to_dict:
  assumes "list_all (reloadable hash) es"
  shows "load_expenses hash now (map (\<lambda>e. JObj (expense_to_dict e)) es) m =
         Some (m\<lparr>expenses := expenses m @ es\<rparr>, None)"
  using assms
proof (induction es arbitrary: m)
  case Nil
  then show ?case by simp
next
  case (Cons e es)
  then show ?case by (simp add: expense_of_json_to_dict)
qed

lemma load_body_manager_to_json:
  assumes "list_all (reloadable hash) (expenses m)"
    and "data_file m' \<notin> dirs w" and "files w (data_file m') = Some (JsonText (manager_to_json m))"
  shows "load_body hash now m' w =
    Some (m'\<lparr>monthly_budget := monthly_budget m, gaming_budget := gaming_budget m,
        expenses := expenses m' @ expenses m\<rparr>, None)"
  using assms by (simp add: load_body_def read_json_def manager_to_json_def dict_lookup_def
      load_expenses_to_dict)


lemma manager_fresh_sel [simp]:
  "data_file (manager_fresh p) = p" "expenses (manager_fresh p) = []"
  "monthly_budget (manager_fresh p) = 0" "gaming_budget (manager_fresh p) = 0"
  by (simp_all add: manager_fresh_def)

lemma save_data_written:
  assumes "save_data m w = (w', None)" and "shown w' = shown w"
  shows "files w' (data_file m) = Some (JsonText (manager_to_json m)) \<and> data_file m \<notin> dirs w'"
  using assms
  by (auto simp: save_data_def write_json_def show_error_def split: sum.splits if_splits
      dest: os_makedirs_keeps)

lemma load_data_after_save:
  assumes "list_all (reloadable hash) (expenses m)"
    and "save_data m w = (w', None)" and "shown w' = shown w"
  shows "load_data hash now (manager_fresh (data_file m)) w' = Some (m, w')"
proof -
  from save_data_written [OF assms(2,3)]
  have f: "files w' (data_file m) = Some (JsonText (manager_to_json m))"
    and d: "data_file m \<notin> dirs w'" by simp_all
  have "load_body hash now (manager_fresh (data_file m)) w' = Some (m, None)"
    using load_body_manager_to_json [OF assms(1), of "manager_fresh (data_file m)"] f d
    by (cases m) (simp add: manager_fresh_def)
  with f d show ?thesis by (simp add: load_data_def os_path_exists_def)
qed

text \<open>C2: Saving a manager whose expenses survive a reload, when the save succeeds without an error message, and then constructing a fresh manager on the same file reproduces the saved state exactly: same budgets, same expenses in the same order, same ids.\<close>

theorem save_load_roundtrip:
  assumes "list_all (reloadable hash) (expenses m)"
    and "save_data m w = (w', None)" and "shown w' = shown w"
  shows "load_data hash now (manager_fresh (data_file m)) w' = Some (m, w')"
  using assms by (rule load_data_after_save)

theorem save_load_roundtrip_witness:
  "list_all (reloadable example_hash) (expenses example_manager) \<and>
   save_data example_manager example_world = (fst (save_data example_manager example_world), None) \<and>
   shown (fst (save_data example_manager example_world)) = shown example_world \<and>
   load_data example_hash example_now (manager_fresh (data_file example_manager))
     (fst (save_data example_manager example_world)) =
   Some (example_manager, fst (save_data example_manager example_world))"
proof -
  have h1: "list_all (reloadable example_hash) (expenses example_manager)"
    by (simp add: example_manager_def)
  have h2: "save_data example_manager example_world = (fst (save_data example_manager example_world), None)"
    and h3: "shown (fst (save_data example_manager example_world)) = shown example_world"
    by (simp_all add: save_data_def example_manager_def example_world_def os_makedirs_top
        os_path_dirname_def write_json_def)
  show ?thesis using save_load_roundtrip [OF h1 h2 h3] h1 h2 h3 by simp
qed

text \<open>C31: A record that cannot be rebuilt stops the load part-way: the budgets and the records before it stay loaded, the records after it are dropped, and an error box is shown; the manager is not reset to an empty store.\<close>

theorem load_data_keeps_prefix:
  assumes "list_all (reloadable hash) es" and "expense_of_json hash now bad = Some (Inl e)"
    and "p \<notin> dirs w"
    and "files w p = Some (JsonText (JObj [(''monthly_budget'', JNum mb), (''gaming_budget'', JNum gb),
           (''expenses'', JArr (map (\<lambda>e. JObj (expense_to_dict e)) es @ bad # rest))]))"
  shows "load_data hash now (manager_fresh p) w =
    Some (\<lparr>data_file = p, expenses = es, monthly_budget = mb, gaming_budget = gb\<rparr>,
     show_error w ''Error'' (''Failed to load data: '' @ exc_str e))"
proof -
  have "load_expenses hash now (map (\<lambda>e. JObj (expense_to_dict e)) es @ bad # rest) m =
        Some (m\<lparr>expenses := expenses m @ es\<rparr>, Some e)" for m
    using assms(1,2)
  proof (induction es arbitrary: m)
    case Nil
    then show ?case by simp
  next
    case (Cons x es)
    then show ?case by (simp add: expense_of_json_to_dict)
  qed
  with assms(3,4) show ?thesis
    by (simp add: load_data_def os_path_exists_def load_body_def read_json_def dict_lookup_def
        manager_fresh_def)
qed

theorem load_data_keeps_prefix_witness:
  "list_all (reloadable example_hash)
     [regular_expense_init example_hash example_now 50000 ''Lunch'' ''Food'' None] \<and>
   expense_of_json example_hash example_now (JObj []) = Some (Inl (KeyError ''amount'')) \<and>
   ''d.json'' \<notin> dirs (example_world\<lparr>files := [''d.json'' \<mapsto> JsonText (JObj
     [(''monthly_budget'', JNum 5), (''gaming_budget'', JNum 2),
      (''expenses'', JArr (map (\<lambda>e. JObj (expense_to_dict e))
         [regular_expense_init example_hash example_now 50000 ''Lunch'' ''Food'' None] @
         JObj [] # []))])]\<rparr>) \<and>
   load_data example_hash example_now (manager_fresh ''d.json'')
     (example_world\<lparr>files := [''d.json'' \<mapsto> JsonText (JObj
       [(''monthly_budget'', JNum 5), (''gaming_budget'', JNum 2),
        (''expenses'', JArr (map (\<lambda>e. JObj (expense_to_dict e))
           [regular_expense_init example_hash example_now 50000 ''Lunch'' ''Food'' None] @
           JObj [] # []))])]\<rparr>) =
   Some (\<lparr>data_file = ''d.json'',
     expenses = [regular_expense_init example_hash example_now 50000 ''Lunch'' ''Food'' None],
     monthly_budget = 5, gaming_budget = 2\<rparr>,
    show_error (example_world\<lparr>files := [''d.json'' \<mapsto> JsonText (JObj
       [(''monthly_budget'', JNum 5), (''gaming_budget'', JNum 2),
        (''expenses'', JArr (map (\<lambda>e. JObj (expense_to_dict e))
           [regular_expense_init example_hash example_now 50000 ''Lunch'' ''Food'' None] @
           JObj [] # []))])]\<rparr>)
      ''Error'' (''Failed to load data: '' @ exc_str (KeyError ''amount'')))"
proof -
  have h1: "list_all (reloadable example_hash)
     [regular_expense_init example_hash example_now 50000 ''Lunch'' ''Food'' None]" by simp
  have h2: "expense_of_json example_hash example_now (JObj []) = Some (Inl (KeyError ''amount''))"
    by (simp add: expense_of_json_def)
  have h3: "''d.json'' \<notin> dirs (example_world\<lparr>files := [''d.json'' \<mapsto> JsonText (JObj
     [(''monthly_budget'', JNum 5), (''gaming_budget'', JNum 2),
      (''expenses'', JArr (map (\<lambda>e. JObj (expense_to_dict e))
         [regular_expense_init example_hash example_now 50000 ''Lunch'' ''Food'' None] @
         JObj [] # []))])]\<rparr>)"
    by (simp add: example_world_def)
  show ?thesis using h1 h2 h3 load_data_keeps_prefix [OF h1 h2 h3] by simp
qed

text \<open>C35: Two entries that stop the load. A RegularExpense whose category is the string gaming is saved without game_title, and loading it raises KeyError game_title, so such a record never survives a reload. An entry carrying amount, description, category and date whose description is a list raises, with the category gaming, the same KeyError, and with any other category the TypeError unhashable type list of hash() in Transaction.__init__.\<close>

theorem expense_of_json_list_description:
  "expense_of_json hash now (JObj (expense_to_dict (RegularExpense t ''gaming''))) =
     Some (Inl (KeyError ''game_title'')) \<and>
   expense_of_json hash now
     (JObj [(''amount'', a), (''description'', JArr xs), (''category'', JStr c), (''date'', dt)]) =
   Some (Inl (if c = ''gaming'' then KeyError ''game_title''
              else TypeError (''unhashable type: '' @ [CHR 0x27] @ ''list'' @ [CHR 0x27])))"
  by (simp add: transaction_to_dict_def expense_of_json_def build_regular_def dict_lookup_def)

text \<open>C34: The id is not read back from the file but recomputed from the loading process's string hash: a reloaded record keeps its id exactly when the two processes hash its description alike.\<close>

theorem reload_regenerates_id:
  assumes "reloadable hash e"
  shows "\<exists>e'. expense_of_json hash' now (JObj (expense_to_dict e)) = Some (Inr e') \<and>
           (id' (txn e') = id' (txn e) \<longleftrightarrow>
            hash' (description (txn e)) = hash (description (txn e)))"
proof (cases e)
  case (GamingExpense t gt et)
  with assms show ?thesis
    by (simp add: reloadable_def transaction_to_dict_def expense_of_json_def dict_lookup_def
        build_gaming_def gaming_expense_init_def transaction_init_Some str_of_int_inj)
next
  case (RegularExpense t c)
  with assms show ?thesis
    by (simp add: reloadable_def transaction_to_dict_def expense_of_json_def dict_lookup_def
        build_regular_def regular_expense_init_def transaction_init_Some str_of_int_inj)
qed

theorem reload_regenerates_id_witness:
  "reloadable example_hash (regular_expense_init example_hash example_now 50000 ''Lunch'' ''Food'' None) \<and>
   (\<exists>e'. expense_of_json (\<lambda>s. example_hash s + 1) example_now
      (JObj (expense_to_dict (regular_expense_init example_hash example_now 50000 ''Lunch'' ''Food'' None))) = Some (Inr e') \<and>
     id' (txn e') \<noteq> id' (txn (regular_expense_init example_hash example_now 50000 ''Lunch'' ''Food'' None)))"
proof -
  have h: "reloadable example_hash (regular_expense_init example_hash example_now 50000 ''Lunch'' ''Food'' None)"
    by simp
  show ?thesis
    using h reload_regenerates_id [OF h, of "\<lambda>s. example_hash s + 1" example_now]
    by (auto simp: regular_expense_init_def)
qed

text \<open>C37: When the data file path has no directory part, os.makedirs('') raises FileNotFoundError outside the try block: save_data propagates the exception and writes nothing.\<close>

theorem save_data_no_directory:
  assumes "os_path_dirname (data_file m) = []"
  shows "save_data m w = (w, Some (FileNotFoundError []))"
  using assms by (simp add: save_data_def os_makedirs_empty)

text \<open>C38: When the data file cannot be written, save_data catches the error, shows a Failed to save data message and raises nothing.\<close>

theorem save_data_read_only:
  assumes "os_makedirs w (os_path_dirname (data_file m)) = Inr w1"
    and "os_path_dirname (data_file m) \<in> dirs w1"
    and "data_file m \<notin> dirs w1" and "data_file m \<in> readonly w1"
  shows "save_data m w =
    (show_error w1 ''Error'' (''Failed to save data: '' @ exc_str (PermissionError (data_file m))), None)"
  using assms os_makedirs_keeps [OF assms(1)]
  by (auto simp: save_data_def write_json_def split: if_splits)

theorem save_data_no_directory_witness:
  "os_path_dirname (data_file (example_manager\<lparr>data_file := ''gamer_finance.json''\<rparr>)) = [] \<and>
   save_data (example_manager\<lparr>data_file := ''gamer_finance.json''\<rparr>) example_world =
     (example_world, Some (FileNotFoundError []))"
proof -
  have h: "os_path_dirname (data_file (example_manager\<lparr>data_file := ''gamer_finance.json''\<rparr>)) = []"
    by (simp add: os_path_dirname_def)
  show ?thesis using h save_data_no_directory [OF h] by simp
qed

theorem save_data_read_only_witness:
  "os_makedirs (example_world\<lparr>readonly := {''data/gamer_finance.json''}\<rparr>)
      (os_path_dirname (data_file example_manager)) =
     Inr (example_world\<lparr>readonly := {''data/gamer_finance.json''}, dirs := {''data''}\<rparr>) \<and>
   os_path_dirname (data_file example_manager) \<in>
     dirs (example_world\<lparr>readonly := {''data/gamer_finance.json''}, dirs := {''data''}\<rparr>) \<and>
   data_file example_manager \<notin> dirs (example_world\<lparr>readonly := {''data/gamer_finance.json''}, dirs := {''data''}\<rparr>) \<and>
   data_file example_manager \<in> readonly (example_world\<lparr>readonly := {''data/gamer_finance.json''}, dirs := {''data''}\<rparr>) \<and>
   save_data example_manager (example_world\<lparr>readonly := {''data/gamer_finance.json''}\<rparr>) =
     (show_error (example_world\<lparr>readonly := {''data/gamer_finance.json''}, dirs := {''data''}\<rparr>)
        ''Error'' (''Failed to save data: '' @ exc_str (PermissionError (data_file example_manager))), None)"
proof -
  have h1: "os_makedirs (example_world\<lparr>readonly := {''data/gamer_finance.json''}\<rparr>)
      (os_path_dirname (data_file example_manager)) =
     Inr (example_world\<lparr>readonly := {''data/gamer_finance.json''}, dirs := {''data''}\<rparr>)"
    by (simp add: os_makedirs_top os_path_dirname_def example_manager_def example_world_def)
  have h1': "os_path_dirname (data_file example_manager) \<in>
     dirs (example_world\<lparr>readonly := {''data/gamer_finance.json''}, dirs := {''data''}\<rparr>)"
    by (simp add: os_path_dirname_def example_manager_def)
  have h2: "data_file example_manager \<notin> dirs (example_world\<lparr>readonly := {''data/gamer_finance.json''}, dirs := {''data''}\<rparr>)"
    and h3: "data_file example_manager \<in> readonly (example_world\<lparr>readonly := {''data/gamer_finance.json''}, dirs := {''data''}\<rparr>)"
    by (simp_all add: example_manager_def)
  show ?thesis using h1 h1' h2 h3 save_data_read_only [OF h1 h1' h2 h3] by simp
qed

end
