(* ===== verification/Store.thy ===== *)
theory Store
  imports Persistence
begin

text \<open>
  The mutating operations of \<open>GamerFinanceManager\<close>
  (\<^verbatim>\<open>src/models/finance_manager.py\<close>): construction (\<open>__init__\<close>, which loads the
  data file), \<open>add_expense\<close>, \<open>add_gaming_expense\<close> and \<open>set_budgets\<close>. Each
  mutates the manager in place and then calls \<open>save_data\<close>; the manager keeps the
  mutation whether or not the save succeeds, and an exception \<open>save_data\<close> lets
  through reaches the caller after the mutation. A state is the manager together
  with the world, and each operation returns the next state and the exception it
  raised, if any. The operations are also collected in a datatype with one step
  function, and runs of steps are sequences of operations at given clock readings.
\<close>

type_synonym sys = "manager \<times> world"

section \<open>Operations\<close>

definition gfm_init :: "py_hash \<Rightarrow> datetime \<Rightarrow> string \<Rightarrow> world \<Rightarrow> sys option" where
  "gfm_init hash now p w = load_data hash now (manager_fresh p) w"

definition add_expense ::
  "py_hash \<Rightarrow> datetime \<Rightarrow> int \<Rightarrow> string \<Rightarrow> string \<Rightarrow> sys \<Rightarrow> sys \<times> exc option" where
  "add_expense hash now amt desc cat s =
     (let m = fst s\<lparr>expenses := expenses (fst s) @ [regular_expense_init hash now amt desc cat None]\<rparr>;
          (w, e) = save_data m (snd s)
      in ((m, w), e))"

definition add_gaming_expense ::
  "py_hash \<Rightarrow> datetime \<Rightarrow> int \<Rightarrow> string \<Rightarrow> string \<Rightarrow> string \<Rightarrow> sys \<Rightarrow> sys \<times> exc option" where
  "add_gaming_expense hash now amt desc game_title expense_type s =
     (let m = fst s\<lparr>expenses := expenses (fst s) @
                      [gaming_expense_init hash now amt desc game_title expense_type None]\<rparr>;
          (w, e) = save_data m (snd s)
      in ((m, w), e))"

definition set_budgets :: "int \<Rightarrow> int \<Rightarrow> sys \<Rightarrow> sys \<times> exc option" where
  "set_budgets mb gb s =
     (let m = fst s\<lparr>monthly_budget := mb, gaming_budget := gb\<rparr>;
          (w, e) = save_data m (snd s)
      in ((m, w), e))"

section \<open>The operations as one step function\<close>

datatype mgr_op =
    AddExpense int string string
  | AddGamingExpense int string string string
  | SetBudgets int int

fun mgr_step :: "py_hash \<Rightarrow> datetime \<Rightarrow> mgr_op \<Rightarrow> sys \<Rightarrow> sys \<times> exc option" where
  "mgr_step hash now (AddExpense a d c) s = add_expense hash now a d c s"
| "mgr_step hash now (AddGamingExpense a d gt et) s = add_gaming_expense hash now a d gt et s"
| "mgr_step hash now (SetBudgets mb gb) s = set_budgets mb gb s"

text \<open>A run: each operation at its clock reading. An exception ends the call that
  raised it, not the program (the GUI's event loop reports it and goes on), so the
  run continues from the state the call left.\<close>

fun mgr_run :: "py_hash \<Rightarrow> (datetime \<times> mgr_op) list \<Rightarrow> sys \<Rightarrow> sys" where
  "mgr_run hash [] s = s"
| "mgr_run hash ((now, op) # ops) s = mgr_run hash ops (fst (mgr_step hash now op s))"

fun op_record :: "py_hash \<Rightarrow> datetime \<Rightarrow> mgr_op \<Rightarrow> expense list" where
  "op_record hash now (AddExpense a d c) = [regular_expense_init hash now a d c None]"
| "op_record hash now (AddGamingExpense a d gt et) = [gaming_expense_init hash now a d gt et None]"
| "op_record hash now (SetBudgets mb gb) = []"

section \<open>Lemmas\<close>

lemma save_data_pair: "\<exists>w e. save_data m w0 = (w, e)"
  by simp

lemma mgr_step_manager:
  "fst (fst (mgr_step hash now op s)) =
     (case op of SetBudgets mb gb \<Rightarrow> (fst s)\<lparr>monthly_budget := mb, gaming_budget := gb\<rparr>
      | _ \<Rightarrow> (fst s)\<lparr>expenses := expenses (fst s) @ op_record hash now op\<rparr>)"
  by (cases op) (simp_all add: add_expense_def add_gaming_expense_def set_budgets_def
      Let_def case_prod_unfold)

lemma mgr_step_world:
  "mgr_step hash now op s = ((m', w'), e) \<Longrightarrow> (w', e) = save_data m' (snd s)"
  by (cases op) (auto simp: add_expense_def add_gaming_expense_def set_budgets_def
      Let_def case_prod_unfold)

lemma mgr_step_expenses:
  "expenses (fst (fst (mgr_step hash now op s))) = expenses (fst s) @ op_record hash now op"
  by (simp add: mgr_step_manager del: mgr_step.simps split: mgr_op.splits)

lemma mgr_step_data_file:
  "data_file (fst (fst (mgr_step hash now op s))) = data_file (fst s)"
  by (simp add: mgr_step_manager del: mgr_step.simps split: mgr_op.splits)

lemma add_expense_state:
  "add_expense hash now amt desc cat s =
     ((fst s\<lparr>expenses := expenses (fst s) @ [regular_expense_init hash now amt desc cat None]\<rparr>,
       fst (save_data (fst s\<lparr>expenses := expenses (fst s) @ [regular_expense_init hash now amt desc cat None]\<rparr>) (snd s))),
      snd (save_data (fst s\<lparr>expenses := expenses (fst s) @ [regular_expense_init hash now amt desc cat None]\<rparr>) (snd s)))"
  by (simp add: add_expense_def Let_def case_prod_unfold)

lemma mgr_run_expenses:
  "expenses (fst (mgr_run hash ops s)) =
     expenses (fst s) @ concat (map (\<lambda>(now, op). op_record hash now op) ops)"
proof (induction ops arbitrary: s)
  case Nil
  then show ?case by simp
next
  case (Cons p ops)
  obtain now op where p: "p = (now, op)" by (cases p)
  have "expenses (fst (mgr_run hash ops (fst (mgr_step hash now op s)))) =
        expenses (fst (fst (mgr_step hash now op s))) @
        concat (map (\<lambda>(now, op). op_record hash now op) ops)"
    by (rule Cons.IH)
  then show ?case by (simp add: p mgr_step_expenses del: mgr_step.simps)
qed

lemma mgr_run_data_file:
  "data_file (fst (mgr_run hash ops s)) = data_file (fst s)"
proof (induction ops arbitrary: s)
  case Nil
  then show ?case by simp
next
  case (Cons p ops)
  obtain now op where p: "p = (now, op)" by (cases p)
  have "data_file (fst (mgr_run hash ops (fst (mgr_step hash now op s)))) =
        data_file (fst (fst (mgr_step hash now op s)))"
    by (rule Cons.IH)
  then show ?case by (simp add: p mgr_step_data_file del: mgr_step.simps)
qed

lemma save_data_no_exc:
  "os_makedirs w (os_path_dirname (data_file m)) = Inr w1 \<Longrightarrow> snd (save_data m w) = None"
  by (auto simp: save_data_def split: sum.splits)

text \<open>C1: add_expense appends exactly one RegularExpense at the end of the list, stamped with the current time and the id date_hash(description), and changes neither the data file path nor the budgets, whatever the save does.\<close>

theorem add_expense_appends:
  "expenses (fst (fst (add_expense hash now amt desc cat s))) =
     expenses (fst s) @
       [RegularExpense \<lparr>amount = amt, description = desc, date = strftime_full now,
                       id' = strftime_full now @ ''_'' @ str_of_int (hash desc)\<rparr> cat] \<and>
   data_file (fst (fst (add_expense hash now amt desc cat s))) = data_file (fst s) \<and>
   monthly_budget (fst (fst (add_expense hash now amt desc cat s))) = monthly_budget (fst s) \<and>
   gaming_budget (fst (fst (add_expense hash now amt desc cat s))) = gaming_budget (fst s)"
  by (simp add: add_expense_state regular_expense_init_def transaction_init_def Let_def)

text \<open>C21: After an add_expense whose save raised nothing and showed no error, the data file holds the new state: a fresh manager loading it gets exactly the updated manager.\<close>

theorem add_expense_persisted:
  assumes "list_all (reloadable hash) (expenses m)" and "cat \<noteq> ''gaming''"
    and "add_expense hash now amt desc cat (m, w) = ((m', w'), None)" and "shown w' = shown w"
  shows "load_data hash now' (manager_fresh (data_file m)) w' = Some (m', w')"
proof -
  from assms(3) have m': "m' = m\<lparr>expenses := expenses m @ [regular_expense_init hash now amt desc cat None]\<rparr>"
    by (simp add: add_expense_state)
  from assms(3) m' have sv: "save_data m' w = (w', None)"
    by (simp add: add_expense_state prod_eq_iff)
  from assms(1,2) m' have "list_all (reloadable hash) (expenses m')" by simp
  from load_data_after_save [OF this sv assms(4)] m' show ?thesis by simp
qed

theorem add_expense_persisted_witness:
  "list_all (reloadable example_hash) (expenses example_manager) \<and> ''Food'' \<noteq> ''gaming'' \<and>
   add_expense example_hash example_now 50000 ''Lunch'' ''Food'' (example_manager, example_world) =
     ((fst (fst (add_expense example_hash example_now 50000 ''Lunch'' ''Food'' (example_manager, example_world))),
       snd (fst (add_expense example_hash example_now 50000 ''Lunch'' ''Food'' (example_manager, example_world)))),
      None) \<and>
   shown (snd (fst (add_expense example_hash example_now 50000 ''Lunch'' ''Food'' (example_manager, example_world)))) =
     shown example_world \<and>
   load_data example_hash example_now (manager_fresh (data_file example_manager))
     (snd (fst (add_expense example_hash example_now 50000 ''Lunch'' ''Food'' (example_manager, example_world)))) =
   Some (fst (add_expense example_hash example_now 50000 ''Lunch'' ''Food'' (example_manager, example_world)))"
proof -
  have h1: "list_all (reloadable example_hash) (expenses example_manager)"
    by (simp add: example_manager_def)
  have h2: "''Food'' \<noteq> ''gaming''" by simp
  have h3: "add_expense example_hash example_now 50000 ''Lunch'' ''Food'' (example_manager, example_world) =
     ((fst (fst (add_expense example_hash example_now 50000 ''Lunch'' ''Food'' (example_manager, example_world))),
       snd (fst (add_expense example_hash example_now 50000 ''Lunch'' ''Food'' (example_manager, example_world)))),
      None)"
    and h4: "shown (snd (fst (add_expense example_hash example_now 50000 ''Lunch'' ''Food'' (example_manager, example_world)))) =
     shown example_world"
    by (simp_all add: add_expense_state save_data_def example_manager_def example_world_def
        os_makedirs_top os_path_dirname_def write_json_def)
  show ?thesis using h1 h2 h3 h4 add_expense_persisted [OF h1 h2 h3 h4, of example_now] by simp
qed

text \<open>C32: The manager itself validates nothing: when os.makedirs can create the data directory, add_expense with any amount (zero or negative included) and any description (empty included) appends the record and raises nothing.\<close>

theorem add_expense_no_validation:
  assumes "os_makedirs (snd s) (os_path_dirname (data_file (fst s))) = Inr w1"
  shows "snd (add_expense hash now amt desc cat s) = None \<and>
         length (expenses (fst (fst (add_expense hash now amt desc cat s)))) =
           Suc (length (expenses (fst s)))"
  using assms by (simp add: add_expense_state save_data_no_exc)

text \<open>C33: set_budgets stores both values as given, negative ones included, leaves the expenses alone, and can only fail through save_data.\<close>

theorem set_budgets_no_validation:
  "monthly_budget (fst (fst (set_budgets mb gb s))) = mb \<and>
   gaming_budget (fst (fst (set_budgets mb gb s))) = gb \<and>
   expenses (fst (fst (set_budgets mb gb s))) = expenses (fst s) \<and>
   snd (set_budgets mb gb s) =
     snd (save_data ((fst s)\<lparr>monthly_budget := mb, gaming_budget := gb\<rparr>) (snd s))"
  by (simp add: set_budgets_def Let_def case_prod_unfold)

text \<open>C22: Over any sequence of manager operations, records are only ever appended, in operation order, one per add operation and none per budget change; no record is modified or removed and the data file path never changes.\<close>

theorem mgr_run_appends_only:
  "expenses (fst (mgr_run hash ops s)) =
     expenses (fst s) @ concat (map (\<lambda>(now, op). op_record hash now op) ops) \<and>
   data_file (fst (mgr_run hash ops s)) = data_file (fst s)"
  by (simp add: mgr_run_expenses mgr_run_data_file)


theorem add_expense_no_validation_witness:
  "os_makedirs (snd (example_manager, example_world)) (os_path_dirname (data_file (fst (example_manager, example_world)))) =
     Inr (example_world\<lparr>dirs := {''data''}\<rparr>) \<and>
   snd (add_expense example_hash example_now (-5) [] ''Food'' (example_manager, example_world)) = None \<and>
   length (expenses (fst (fst (add_expense example_hash example_now (-5) [] ''Food'' (example_manager, example_world))))) = 3"
proof -
  have h1: "os_makedirs (snd (example_manager, example_world)) (os_path_dirname (data_file (fst (example_manager, example_world)))) =
     Inr (example_world\<lparr>dirs := {''data''}\<rparr>)"
    by (simp add: example_manager_def example_world_def os_path_dirname_def os_makedirs_top)
  show ?thesis using h1 add_expense_no_validation [OF h1, of example_hash example_now "-5" "[]" "''Food''"]
    by (simp add: example_manager_def)
qed

end
