(* ===== verification/Aggregation.thy ===== *)
theory Aggregation
  imports Store
begin

text \<open>
  The read-only queries of \<open>GamerFinanceManager\<close>
  (\<^verbatim>\<open>src/models/finance_manager.py\<close>): \<open>get_expenses_by_category\<close>,
  \<open>get_monthly_spending\<close>, \<open>get_spending_by_game\<close>, \<open>get_budget_status\<close> and
  \<open>get_expense_summary\<close>. The two loops are modelled as the loops they are (a fold
  over the expenses with a two-key accumulator, and a dictionary filled key by key);
  each comes with an abstract specification (sums over filtered expenses) and a
  lemma that the loop computes it. The clock reading \<open>now\<close> is a parameter of the
  queries that read \<open>datetime.now()\<close>.
\<close>

section \<open>Queries\<close>

definition expense_amount :: "expense \<Rightarrow> int" where
  "expense_amount e = amount (txn e)"

definition get_expenses_by_category :: "string \<Rightarrow> manager \<Rightarrow> json list" where
  "get_expenses_by_category cat m =
     map (\<lambda>e. JObj (expense_to_dict e)) (filter (\<lambda>e. category e = cat) (expenses m))"

text \<open>The dictionary \<open>{'gaming': ..., 'other': ...}\<close> of \<open>get_monthly_spending\<close>.\<close>

record monthly =
  sp_gaming :: int
  sp_other :: int

fun monthly_loop :: "string \<Rightarrow> expense list \<Rightarrow> monthly \<Rightarrow> monthly" where
  "monthly_loop cm [] acc = acc"
| "monthly_loop cm (e # es) acc =
     monthly_loop cm es
       (if py_startswith (date (txn e)) cm then
          (if category e = ''gaming'' then acc\<lparr>sp_gaming := sp_gaming acc + expense_amount e\<rparr>
           else acc\<lparr>sp_other := sp_other acc + expense_amount e\<rparr>)
        else acc)"

definition get_monthly_spending :: "datetime \<Rightarrow> manager \<Rightarrow> monthly" where
  "get_monthly_spending now m =
     monthly_loop (strftime_ym now) (expenses m) \<lparr>sp_gaming = 0, sp_other = 0\<rparr>"

text \<open>The loop of \<open>get_spending_by_game\<close>: only \<open>GamingExpense\<close> instances count;
  a title seen for the first time is entered with 0, then the amount is added.\<close>

fun game_loop :: "expense list \<Rightarrow> (string \<times> int) list \<Rightarrow> (string \<times> int) list" where
  "game_loop [] d = d"
| "game_loop (e # es) d =
     game_loop es
       (if is_gaming_instance e then
          (case e of
             GamingExpense t gt et \<Rightarrow>
               (let d1 = (if dict_lookup d gt = None then dict_set d gt 0 else d)
                in case dict_lookup d1 gt of
                     Some v \<Rightarrow> dict_set d1 gt (v + amount t)
                   | None \<Rightarrow> d1)
           | RegularExpense _ _ \<Rightarrow> d)
        else d)"

definition get_spending_by_game :: "manager \<Rightarrow> (string \<times> int) list" where
  "get_spending_by_game m = game_loop (expenses m) []"

record budget_status =
  bs_monthly_budget :: int
  bs_gaming_budget :: int
  bs_total_spending :: int
  bs_gaming_spending :: int
  bs_remaining_budget :: int
  bs_remaining_gaming_budget :: int

definition get_budget_status :: "datetime \<Rightarrow> manager \<Rightarrow> budget_status" where
  "get_budget_status now m =
     (let ms = get_monthly_spending now m;
          total = sp_gaming ms + sp_other ms
      in \<lparr>bs_monthly_budget = monthly_budget m, bs_gaming_budget = gaming_budget m,
          bs_total_spending = total, bs_gaming_spending = sp_gaming ms,
          bs_remaining_budget = monthly_budget m - total,
          bs_remaining_gaming_budget = gaming_budget m - sp_gaming ms\<rparr>)"

record expense_summary =
  total_expenses :: nat
  gaming_expenses :: nat
  regular_expenses :: nat
  total_amount :: int
  gaming_amount :: int
  regular_amount :: int

definition get_expense_summary :: "manager \<Rightarrow> expense_summary" where
  "get_expense_summary m =
     (let total = length (expenses m);
          gaming = length (filter (\<lambda>e. category e = ''gaming'') (expenses m))
      in \<lparr>total_expenses = total, gaming_expenses = gaming, regular_expenses = total - gaming,
          total_amount = sum_list (map expense_amount (expenses m)),
          gaming_amount = sum_list (map expense_amount (filter (\<lambda>e. category e = ''gaming'') (expenses m))),
          regular_amount = sum_list (map expense_amount (filter (\<lambda>e. category e \<noteq> ''gaming'') (expenses m)))\<rparr>)"

section \<open>Abstract specifications\<close>

definition in_month :: "string \<Rightarrow> expense \<Rightarrow> bool" where
  "in_month cm e \<longleftrightarrow> py_startswith (date (txn e)) cm"

text \<open>The (title, amount) pairs the by-game view aggregates, in list order.\<close>

fun game_entry :: "expense \<Rightarrow> (string \<times> int) list" where
  "game_entry (GamingExpense t gt et) = [(gt, amount t)]"
| "game_entry (RegularExpense _ _) = []"

definition game_entries :: "expense list \<Rightarrow> (string \<times> int) list" where
  "game_entries es = concat (map game_entry es)"

definition game_total :: "expense list \<Rightarrow> string \<Rightarrow> int" where
  "game_total es g = sum_list (map snd (filter (\<lambda>p. fst p = g) (game_entries es)))"

section \<open>Example data for the witnesses\<close>

definition example_last_month :: datetime where
  "example_last_month =
     \<lparr>dt_year = 2025, dt_month = 2, dt_day = 20, dt_hour = 18, dt_minute = 30, dt_second = 0\<rparr>"

section \<open>Lemmas\<close>

lemma monthly_loop_sums:
  "monthly_loop cm es acc =
     \<lparr>sp_gaming = sp_gaming acc +
        sum_list (map expense_amount (filter (\<lambda>e. in_month cm e \<and> category e = ''gaming'') es)),
      sp_other = sp_other acc +
        sum_list (map expense_amount (filter (\<lambda>e. in_month cm e \<and> category e \<noteq> ''gaming'') es))\<rparr>"
  by (induction es arbitrary: acc) (auto simp: in_month_def)

lemma game_loop_lookup:
  "dict_lookup (game_loop es d) g =
     (if dict_lookup d g = None \<and> g \<notin> fst ` set (game_entries es) then None
      else Some ((case dict_lookup d g of None \<Rightarrow> 0 | Some v \<Rightarrow> v) + game_total es g))"
proof (induction es arbitrary: d)
  case Nil
  then show ?case by (simp add: game_entries_def game_total_def split: option.split)
next
  case (Cons e es)
  then show ?case
    by (cases e) (auto simp: game_entries_def game_total_def Let_def split: option.split)
qed

lemma game_loop_keys:
  "set (map fst (game_loop es d)) = set (map fst d) \<union> fst ` set (game_entries es) \<and>
   (distinct (map fst d) \<longrightarrow> distinct (map fst (game_loop es d)))"
proof (induction es arbitrary: d)
  case Nil
  then show ?case by (simp add: game_entries_def)
next
  case (Cons e es)
  then show ?case
    by (cases e) (auto simp: game_entries_def Let_def dict_lookup_None
        dest: dict_lookup_Some_key split: option.split)
qed

lemma get_monthly_spending_sums:
  "get_monthly_spending now m =
     \<lparr>sp_gaming = sum_list (map expense_amount
        (filter (\<lambda>e. in_month (strftime_ym now) e \<and> category e = ''gaming'') (expenses m))),
      sp_other = sum_list (map expense_amount
        (filter (\<lambda>e. in_month (strftime_ym now) e \<and> category e \<noteq> ''gaming'') (expenses m)))\<rparr>"
  by (simp add: get_monthly_spending_def monthly_loop_sums)

lemma get_budget_status_bounds:
  assumes "list_all (\<lambda>e. 0 < expense_amount e) (expenses m)"
  shows "0 \<le> bs_gaming_spending (get_budget_status now m) \<and>
    bs_gaming_spending (get_budget_status now m) \<le> bs_total_spending (get_budget_status now m) \<and>
    bs_remaining_budget (get_budget_status now m) \<le> bs_monthly_budget (get_budget_status now m) \<and>
    bs_remaining_gaming_budget (get_budget_status now m) \<le> bs_gaming_budget (get_budget_status now m)"
proof -
  have pos: "0 < expense_amount e" if "e \<in> set (expenses m)" for e
    using assms that by (simp add: list_all_iff)
  have nn: "0 \<le> sum_list (map expense_amount (filter P (expenses m)))" for P
    by (rule sum_list_nonneg) (auto dest: pos intro: less_imp_le)
  show ?thesis
    using nn [of "\<lambda>e. in_month (strftime_ym now) e \<and> category e = ''gaming''"]
      nn [of "\<lambda>e. in_month (strftime_ym now) e \<and> category e \<noteq> ''gaming''"]
    by (simp add: get_budget_status_def Let_def get_monthly_spending_sums)
qed

lemma in_month_created:
  assumes "valid_datetime d" "valid_datetime now"
  shows "in_month (strftime_ym now) (RegularExpense (transaction_init hash d amt desc None) cat) \<longleftrightarrow>
         dt_year d = dt_year now \<and> dt_month d = dt_month now"
  using assms startswith_month_iff [of d now]
  by (simp add: in_month_def valid_datetime_def date_transaction_init)

text \<open>C4: The loop of get_monthly_spending computes, for the month string now.strftime('%Y-%m'), the sum of the amounts of the expenses whose date starts with it and whose category is gaming, and separately of those whose category is anything else.\<close>

theorem get_monthly_spending_spec:
  "get_monthly_spending now m =
     \<lparr>sp_gaming = sum_list (map expense_amount
        (filter (\<lambda>e. in_month (strftime_ym now) e \<and> category e = ''gaming'') (expenses m))),
      sp_other = sum_list (map expense_amount
        (filter (\<lambda>e. in_month (strftime_ym now) e \<and> category e \<noteq> ''gaming'') (expenses m)))\<rparr>"
  by (rule get_monthly_spending_sums)

text \<open>C5: A regular expense created at clock reading d adds its amount to the other bucket of get_monthly_spending at clock reading now exactly when d lies in the same calendar year and month as now; one from any other month adds nothing.\<close>

theorem monthly_spending_current_month_only:
  assumes "valid_datetime d" "valid_datetime now" "cat \<noteq> ''gaming''"
  shows "sp_other (get_monthly_spending now
            (m\<lparr>expenses := expenses m @ [regular_expense_init hash d amt desc cat None]\<rparr>)) =
         sp_other (get_monthly_spending now m) +
           (if dt_year d = dt_year now \<and> dt_month d = dt_month now then amt else 0)"
  using assms in_month_created [OF assms(1,2)]
  by (simp add: get_monthly_spending_sums regular_expense_init_def expense_amount_def)

text \<open>C8: get_spending_by_game maps each game title that occurs among the GamingExpense records, and only those, to the sum of their amounts over all time, with each title entered once.\<close>

theorem get_spending_by_game_spec:
  "dict_lookup (get_spending_by_game m) g =
     (if g \<in> fst ` set (game_entries (expenses m)) then Some (game_total (expenses m) g) else None) \<and>
   set (map fst (get_spending_by_game m)) = fst ` set (game_entries (expenses m)) \<and>
   distinct (map fst (get_spending_by_game m))"
  using game_loop_keys [of "expenses m" "[]"]
  by (simp add: get_spending_by_game_def game_loop_lookup)

text \<open>C19: get_budget_status reports as total spending the sum of this month's amounts, and the remaining budgets as the budget minus the spending, without clamping: overspending gives a negative remainder.\<close>

theorem get_budget_status_spec:
  "bs_total_spending (get_budget_status now m) =
     sum_list (map expense_amount (filter (in_month (strftime_ym now)) (expenses m))) \<and>
   bs_remaining_budget (get_budget_status now m) =
     monthly_budget m - bs_total_spending (get_budget_status now m) \<and>
   bs_remaining_gaming_budget (get_budget_status now m) =
     gaming_budget m - bs_gaming_spending (get_budget_status now m) \<and>
   bs_gaming_spending (get_budget_status now m) = sp_gaming (get_monthly_spending now m)"
proof -
  have "sum_list (map expense_amount (filter (in_month (strftime_ym now)) (expenses m))) =
        sum_list (map expense_amount (filter (\<lambda>e. category e = ''gaming'')
                    (filter (in_month (strftime_ym now)) (expenses m)))) +
        sum_list (map expense_amount (filter (\<lambda>e. \<not> category e = ''gaming'')
                    (filter (in_month (strftime_ym now)) (expenses m))))"
    by (rule sum_list_filter_partition [symmetric])
  then show ?thesis
    by (simp add: get_budget_status_def get_monthly_spending_sums Let_def filter_filter conj_commute)
qed

text \<open>C20: get_expense_summary counts the records of category gaming exactly as get_expenses_by_category('gaming') lists them and sums their amounts as gaming_amount; regular_expenses counts the other records and regular_amount is the total amount less the gaming amount, so the two parts split the totals.\<close>

theorem get_expense_summary_partition:
  "total_expenses (get_expense_summary m) = length (expenses m) \<and>
   gaming_expenses (get_expense_summary m) = length (get_expenses_by_category ''gaming'' m) \<and>
   regular_expenses (get_expense_summary m) =
     length (filter (\<lambda>e. category e \<noteq> ''gaming'') (expenses m)) \<and>
   total_amount (get_expense_summary m) = sum_list (map expense_amount (expenses m)) \<and>
   gaming_amount (get_expense_summary m) =
     sum_list (map expense_amount (filter (\<lambda>e. category e = ''gaming'') (expenses m))) \<and>
   regular_amount (get_expense_summary m) =
     total_amount (get_expense_summary m) - gaming_amount (get_expense_summary m)"
  using sum_list_filter_partition [of expense_amount "\<lambda>e. category e = ''gaming''" "expenses m"]
    length_filter_partition [of "\<lambda>e. category e = ''gaming''" "expenses m"]
  by (simp add: get_expense_summary_def get_expenses_by_category_def Let_def)

text \<open>C36: A RegularExpense whose category is the string gaming counts as gaming spending in get_monthly_spending and get_expense_summary, but get_spending_by_game, which tests the class, leaves it out.\<close>

theorem regular_gaming_category_split_views:
  "sp_gaming (get_monthly_spending now (m\<lparr>expenses := [RegularExpense t ''gaming'']\<rparr>)) =
     (if py_startswith (date t) (strftime_ym now) then amount t else 0) \<and>
   gaming_expenses (get_expense_summary (m\<lparr>expenses := [RegularExpense t ''gaming'']\<rparr>)) = 1 \<and>
   get_spending_by_game (m\<lparr>expenses := [RegularExpense t ''gaming'']\<rparr>) = []"
  by (simp add: get_monthly_spending_def get_expense_summary_def get_spending_by_game_def
      expense_amount_def)

theorem monthly_spending_current_month_only_witness:
  "valid_datetime example_now \<and> valid_datetime example_now \<and> ''Other'' \<noteq> ''gaming'' \<and>
   sp_other (get_monthly_spending example_now
     (example_manager\<lparr>expenses :=
        [regular_expense_init example_hash example_last_month 99999 ''Old'' ''Other'' None] @
        [regular_expense_init example_hash example_now 50000 ''New'' ''Other'' None]\<rparr>)) = 50000"
proof -
  have h1: "valid_datetime example_now"
    by (simp add: valid_datetime_def example_now_def days_in_month_def is_leap_def)
  have h2: "''Other'' \<noteq> ''gaming''" by simp
  have h3: "sp_other (get_monthly_spending example_now
     (example_manager\<lparr>expenses :=
        [regular_expense_init example_hash example_last_month 99999 ''Old'' ''Other'' None]\<rparr>)) = 0"
    by code_simp
  have h4: "dt_year example_now = dt_year example_now \<and> dt_month example_now = dt_month example_now"
    by simp
  show ?thesis
    using h1 h2 h3 h4 monthly_spending_current_month_only [OF h1 h1 h2,
        of "example_manager\<lparr>expenses :=
          [regular_expense_init example_hash example_last_month 99999 ''Old'' ''Other'' None]\<rparr>"
        example_hash 50000 "''New''"]
    by simp
qed

end
