(* ===== verification/Strptime.thy ===== *)
theory Strptime
  imports Aggregation
begin

text \<open>
  \<open>datetime.strptime(s, '%Y-%m-%d %H:%M:%S')\<close> as CPython's \<open>_strptime\<close> computes
  it: the format becomes a regular expression whose directives are alternatives tried
  in order, the space becomes \<open>\s+\<close>, the first match from the start of the string
  is taken, text left after it raises \<open>ValueError\<close> (unconverted data), and a
  field combination that is no valid date raises \<open>ValueError\<close> as well.
  A matcher returns every way it can match, in the order the regular-expression
  engine tries them; sequencing is \<open>List.bind\<close>.
\<close>

section \<open>Directive matchers\<close>

definition chr_rng :: "nat \<Rightarrow> nat \<Rightarrow> char \<Rightarrow> bool" where
  "chr_rng lo hi c \<longleftrightarrow> lo \<le> of_char c \<and> of_char c \<le> hi"

text \<open>Two characters from the given classes, read as a two-digit number.\<close>

fun re_two :: "(char \<Rightarrow> bool) \<Rightarrow> (char \<Rightarrow> bool) \<Rightarrow> string \<Rightarrow> (nat \<times> string) list" where
  "re_two p q (a # b # r) = (if p a \<and> q b then [(10 * digit_val a + digit_val b, r)] else [])"
| "re_two p q _ = []"

fun re_one :: "(char \<Rightarrow> bool) \<Rightarrow> string \<Rightarrow> (nat \<times> string) list" where
  "re_one p (a # r) = (if p a then [(digit_val a, r)] else [])"
| "re_one p _ = []"

abbreviation d09 :: "char \<Rightarrow> bool" where "d09 \<equiv> chr_rng 48 57"

text \<open>\<open>%Y\<close>: \<open>\d\d\d\d\<close>.\<close>

fun re_Y :: "string \<Rightarrow> (nat \<times> string) list" where
  "re_Y (a # b # c # d # r) =
     (if d09 a \<and> d09 b \<and> d09 c \<and> d09 d
      then [(nat_of_digits [a, b, c, d], r)] else [])"
| "re_Y _ = []"

text \<open>\<open>%m\<close>: \<open>1[0-2]|0[1-9]|[1-9]\<close>.\<close>

definition re_m :: "string \<Rightarrow> (nat \<times> string) list" where
  "re_m s = re_two (chr_rng 49 49) (chr_rng 48 50) s @ re_two (chr_rng 48 48) (chr_rng 49 57) s @
            re_one (chr_rng 49 57) s"

text \<open>\<open>%d\<close>: \<open>3[01]|[12]\d|0[1-9]|[1-9]| [1-9]\<close>.\<close>

definition re_d :: "string \<Rightarrow> (nat \<times> string) list" where
  "re_d s = re_two (chr_rng 51 51) (chr_rng 48 49) s @ re_two (chr_rng 49 50) d09 s @
            re_two (chr_rng 48 48) (chr_rng 49 57) s @ re_one (chr_rng 49 57) s @
            (case s of a # r \<Rightarrow> if a = CHR '' '' then re_one (chr_rng 49 57) r else [] | [] \<Rightarrow> [])"

text \<open>\<open>%H\<close>: \<open>2[0-3]|[0-1]\d|\d\<close>.\<close>

definition re_H :: "string \<Rightarrow> (nat \<times> string) list" where
  "re_H s = re_two (chr_rng 50 50) (chr_rng 48 51) s @ re_two (chr_rng 48 49) d09 s @ re_one d09 s"

text \<open>\<open>%M\<close>: \<open>[0-5]\d|\d\<close>.\<close>

definition re_M :: "string \<Rightarrow> (nat \<times> string) list" where
  "re_M s = re_two (chr_rng 48 53) d09 s @ re_one d09 s"

text \<open>\<open>%S\<close>: \<open>6[0-1]|[0-5]\d|\d\<close>.\<close>

definition re_S :: "string \<Rightarrow> (nat \<times> string) list" where
  "re_S s = re_two (chr_rng 54 54) (chr_rng 48 49) s @ re_two (chr_rng 48 53) d09 s @ re_one d09 s"

text \<open>A literal character, and \<open>\s+\<close> (greedy: the longest run first).\<close>

definition re_lit :: "char \<Rightarrow> string \<Rightarrow> string list" where
  "re_lit c s = (case s of a # r \<Rightarrow> if a = c then [r] else [] | [] \<Rightarrow> [])"

definition re_ws :: "string \<Rightarrow> string list" where
  "re_ws s = map (\<lambda>n. drop n s) (rev [1..<Suc (length (takeWhile is_py_space s))])"

section \<open>The whole format\<close>

definition strptime_matches :: "string \<Rightarrow> (datetime \<times> string) list" where
  "strptime_matches s =
     List.bind (re_Y s) (\<lambda>(y, r1). List.bind (re_lit CHR ''-'' r1) (\<lambda>r2.
     List.bind (re_m r2) (\<lambda>(mo, r3). List.bind (re_lit CHR ''-'' r3) (\<lambda>r4.
     List.bind (re_d r4) (\<lambda>(d, r5). List.bind (re_ws r5) (\<lambda>r6.
     List.bind (re_H r6) (\<lambda>(h, r7). List.bind (re_lit CHR '':'' r7) (\<lambda>r8.
     List.bind (re_M r8) (\<lambda>(mi, r9). List.bind (re_lit CHR '':'' r9) (\<lambda>r10.
     List.bind (re_S r10) (\<lambda>(sec, r11).
       [(\<lparr>dt_year = y, dt_month = mo, dt_day = d, dt_hour = h, dt_minute = mi, dt_second = sec\<rparr>,
         r11)])))))))))))"

definition py_strptime :: "string \<Rightarrow> exc + datetime" where
  "py_strptime s =
     (case strptime_matches s of
        [] \<Rightarrow> Inl (ValueError (''time data '' @ [CHR 0x27] @ s @ [CHR 0x27] @
                               '' does not match format '' @ [CHR 0x27] @ ''%Y-%m-%d %H:%M:%S'' @ [CHR 0x27]))
      | (dt, rest) # _ \<Rightarrow>
          if rest \<noteq> [] then Inl (ValueError (''unconverted data remains: '' @ rest))
          else if valid_datetime dt then Inr dt
          else Inl (ValueError ''day is out of range for month''))"

section \<open>Parsing what strftime printed\<close>

lemma digit_char_0: "digit_char 0 = CHR ''0''"
  by code_simp

lemma pad2_eq: "v < 100 \<Longrightarrow> pad2 v = [digit_char (v div 10), digit_char (v mod 10)]"
  by (simp add: pad2_def str_of_nat_small str_of_nat_big digit_char_0)

lemma chr_rng_digit [simp]: "x < 10 \<Longrightarrow> chr_rng lo hi (digit_char x) \<longleftrightarrow> lo \<le> 48 + x \<and> 48 + x \<le> hi"
  by (simp add: chr_rng_def)

lemma digit_char_punct [simp]:
  "x < 10 \<Longrightarrow> digit_char x \<noteq> CHR ''-''" "x < 10 \<Longrightarrow> digit_char x \<noteq> CHR '':''"
  "x < 10 \<Longrightarrow> digit_char x \<noteq> CHR '' ''"
  by (metis of_char_digit_char of_char_eq_iff not_is_digit_punct is_digit_digit_char)+

lemma not_space_digit [simp]: "x < 10 \<Longrightarrow> \<not> is_py_space (digit_char x)"
  by (simp add: is_py_space_def)

lemma is_py_space_blank [simp]: "is_py_space CHR '' ''"
  by (simp add: is_py_space_def)

lemma str_of_nat_3:
  "100 \<le> y \<Longrightarrow> y < 1000 \<Longrightarrow>
   str_of_nat y = [digit_char (y div 100), digit_char (y div 10 mod 10), digit_char (y mod 10)]"
proof -
  assume a: "100 \<le> y" "y < 1000"
  then have "10 \<le> y div 10" "y div 10 div 10 < 10" "y div 10 div 10 = y div 100"
    by (simp_all add: div_mult2_eq [symmetric])
  then show ?thesis
    using a by (simp add: str_of_nat_big [of y] str_of_nat_big [of "y div 10"] str_of_nat_small)
qed

lemma str_of_nat_4: "1000 \<le> y \<Longrightarrow> y < 10000 \<Longrightarrow>
  str_of_nat y = [digit_char (y div 1000), digit_char (y div 100 mod 10),
                  digit_char (y div 10 mod 10), digit_char (y mod 10)]"
  by (simp add: str_of_nat_big str_of_nat_small div_mult2_eq [symmetric])

lemma pad4_eq:
  assumes "y < 10000"
  shows "pad4 y = [digit_char (y div 1000), digit_char (y div 100 mod 10),
                   digit_char (y div 10 mod 10), digit_char (y mod 10)]"
proof -
  consider "y < 10" | "10 \<le> y" "y < 100" | "100 \<le> y" "y < 1000" | "1000 \<le> y"
    by linarith
  then show ?thesis
  proof cases
    case 1
    then show ?thesis by (simp add: pad4_def str_of_nat_small numeral_3_eq_3 digit_char_0)
  next
    case 2
    then show ?thesis
      by (simp add: pad4_def str_of_nat_small str_of_nat_big numeral_2_eq_2 digit_char_0)
  next
    case 3
    then show ?thesis by (simp add: pad4_def str_of_nat_3 digit_char_0)
  next
    case 4
    then show ?thesis using assms by (simp add: pad4_def str_of_nat_4)
  qed
qed

lemma re_Y_year: "y < 10000 \<Longrightarrow> re_Y (pad4 y @ r) = [(y, r)]"
proof -
  assume a: "y < 10000"
  have "nat_of_digits (pad4 y) = y" by simp
  moreover have "y div 1000 < 10" "y div 100 mod 10 \<le> 9" "y div 10 mod 10 \<le> 9" "y mod 10 \<le> 9"
    using a by simp_all
  ultimately show ?thesis
    using a by (simp add: pad4_eq)
qed

lemma re_m_pad2: "1 \<le> v \<Longrightarrow> v \<le> 12 \<Longrightarrow>
  re_m (pad2 v @ r) = (v, r) # (if 10 \<le> v then [(1, digit_char (v mod 10) # r)] else [])"
  by (auto simp: re_m_def pad2_eq; presburger)

lemma re_d_pad2: "1 \<le> v \<Longrightarrow> v \<le> 31 \<Longrightarrow>
  re_d (pad2 v @ r) = (v, r) # (if 10 \<le> v then [(v div 10, digit_char (v mod 10) # r)] else [])"
  by (auto simp: re_d_def pad2_eq; presburger)

lemma re_H_pad2: "v < 24 \<Longrightarrow>
  re_H (pad2 v @ r) = [(v, r), (v div 10, digit_char (v mod 10) # r)]"
  by (auto simp: re_H_def pad2_eq; presburger)

lemma re_M_pad2: "v < 60 \<Longrightarrow>
  re_M (pad2 v @ r) = [(v, r), (v div 10, digit_char (v mod 10) # r)]"
  by (auto simp: re_M_def pad2_eq)

lemma re_S_pad2: "v < 60 \<Longrightarrow>
  re_S (pad2 v @ r) = [(v, r), (v div 10, digit_char (v mod 10) # r)]"
  by (auto simp: re_S_def pad2_eq)

lemma re_S_pad2_end: "v < 60 \<Longrightarrow> re_S (pad2 v) = [(v, []), (v div 10, [digit_char (v mod 10)])]"
  using re_S_pad2 [of v "[]"] by simp

lemma re_lit_same [simp]: "re_lit c (c # r) = [r]"
  by (simp add: re_lit_def)

lemma re_lit_digit [simp]:
  "x < 10 \<Longrightarrow> re_lit CHR ''-'' (digit_char x # r) = []"
  "x < 10 \<Longrightarrow> re_lit CHR '':'' (digit_char x # r) = []"
  by (simp_all add: re_lit_def)

lemma re_ws_digit [simp]: "x < 10 \<Longrightarrow> re_ws (digit_char x # r) = []"
  by (simp add: re_ws_def)

lemma re_ws_blank_pad2: "v < 100 \<Longrightarrow> re_ws (CHR '' '' # pad2 v @ r) = [pad2 v @ r]"
  by (simp add: re_ws_def pad2_eq)

lemma days_in_month_le_31: "days_in_month y m \<le> 31"
  by (simp add: days_in_month_def)

lemma strptime_matches_strftime_full:
  assumes "valid_datetime d"
  shows "strptime_matches (strftime_full d) =
           [(d, []), (d\<lparr>dt_second := dt_second d div 10\<rparr>, [digit_char (dt_second d mod 10)])]"
proof -
  from assms have r: "1 \<le> dt_month d" "dt_month d \<le> 12" "1 \<le> dt_day d" "dt_day d \<le> 31"
    "dt_hour d < 24" "dt_minute d < 60" "dt_second d < 60" "dt_year d < 10000"
    using days_in_month_le_31 [of "dt_year d" "dt_month d"] by (auto simp: valid_datetime_def)
  then show ?thesis
    by (cases d) (simp add: strptime_matches_def strftime_full_def re_Y_year re_m_pad2 re_d_pad2
        re_H_pad2 re_M_pad2 re_S_pad2 re_S_pad2_end re_ws_blank_pad2)
qed

lemma strptime_strftime_full:
  assumes "valid_datetime d"
  shows "py_strptime (strftime_full d) = Inr d"
  using assms by (simp add: py_strptime_def strptime_matches_strftime_full)

end
