(* ===== verification/Refresh.thy ===== *)
theory Refresh
  imports Strptime "HOL-Library.Product_Lexorder" "HOL-Library.Multiset"
begin

text \<open>
  \<open>GamerFinanceGUI.refresh_data\<close> and \<open>update_spending_chart\<close>
  (\<^verbatim>\<open>src/main.py\<close>): what the window shows after every change. The view is the
  data behind the widgets: the six budget labels and the colour of the two
  remaining-budget labels, the rows of the recent-expenses and gaming trees (the
  expenses they show, most recent first), the lines of the spending-by-game text and
  the two chart bars. The text formatting of a row is not modelled. Sorting by date
  parses every date with \<open>strptime\<close> first; a date it rejects raises
  \<open>ValueError\<close> out of \<open>refresh_data\<close>, after the labels are set and the
  recent tree is cleared. CPython's descending sort is shown equal to a reference
  insertion sort, and the recent tree is bounded by twenty stored records.
\<close>

section \<open>Colours and sorting\<close>

datatype color = White | Red | PrimaryGreen | Gray

text \<open>The labels start in the dark theme's text colour (white); refreshing sets
  \<open>'red' if remaining < 0 else (primary if remaining > 0 else 'gray')\<close>.\<close>

definition remaining_color :: "int \<Rightarrow> color" where
  "remaining_color x = (if x < 0 then Red else if 0 < x then PrimaryGreen else Gray)"

text \<open>\<open>[f(x) for x in xs]\<close> where \<open>f\<close> may raise: the first exception wins.\<close>

fun map_exc :: "('a \<Rightarrow> exc + 'b) \<Rightarrow> 'a list \<Rightarrow> exc + 'b list" where
  "map_exc f [] = Inr []"
| "map_exc f (x # xs) = bind_exc (f x) (\<lambda>y. bind_exc (map_exc f xs) (\<lambda>ys. Inr (y # ys)))"

text \<open>\<open>sorted(xs, key=key, reverse=True)\<close> as CPython's \<open>list.sort\<close> does it:
  all keys are computed first, in list order; then the list is reversed, sorted
  stably in ascending order and reversed again, so that elements with equal keys
  keep their original order.\<close>

definition py_sorted_desc :: "('a \<Rightarrow> exc + 'k::linorder) \<Rightarrow> 'a list \<Rightarrow> exc + 'a list" where
  "py_sorted_desc key xs =
     bind_exc (map_exc key xs) (\<lambda>ks. Inr (map snd (rev (sort_key fst (rev (zip ks xs))))))"

text \<open>The reference the sort is compared with: insertion sort into a list kept in
  descending order of the key, each element going after those whose key is not
  smaller, which keeps elements of equal key in their original order.\<close>

fun insort_desc :: "('a \<Rightarrow> 'k::linorder) \<Rightarrow> 'a \<Rightarrow> 'a list \<Rightarrow> 'a list" where
  "insort_desc k x [] = [x]"
| "insort_desc k x (y # ys) = (if k y < k x then x # y # ys else y # insort_desc k x ys)"

definition sort_desc :: "('a \<Rightarrow> 'k::linorder) \<Rightarrow> 'a list \<Rightarrow> 'a list" where
  "sort_desc k xs = foldl (\<lambda>ys x. insort_desc k x ys) [] xs"

definition dt_key :: "datetime \<Rightarrow> nat \<times> nat \<times> nat \<times> nat \<times> nat \<times> nat" where
  "dt_key d = (dt_year d, dt_month d, dt_day d, dt_hour d, dt_minute d, dt_second d)"

text \<open>\<open>key=lambda x: datetime.strptime(x.date, '%Y-%m-%d %H:%M:%S')\<close>.\<close>

definition expense_date_key :: "expense \<Rightarrow> exc + (nat \<times> nat \<times> nat \<times> nat \<times> nat \<times> nat)" where
  "expense_date_key e = bind_exc (py_strptime (date (txn e))) (\<lambda>d. Inr (dt_key d))"

section \<open>The view and its refresh\<close>

text \<open>The widgets of the gaming tab (\<open>create_gaming_expenses\<close>): the rows of
  \<open>gaming_tree\<close> and the lines of \<open>game_spending_text\<close>.\<close>

record gaming_view =
  gaming_rows :: "expense list"
  game_lines :: "(string \<times> int) list"

text \<open>The dashboard's widgets (\<open>create_dashboard\<close>): the budget labels with the
  colours of the two remainders, the rows of \<open>recent_tree\<close> and the chart; with the
  gaming tab's, all the data \<open>refresh_data\<close> writes.\<close>

record view = gaming_view +
  status_shown :: budget_status
  color_remaining :: color
  color_remaining_gaming :: color
  recent_rows :: "expense list"
  chart :: monthly

definition refresh_data :: "datetime \<Rightarrow> manager \<Rightarrow> view \<Rightarrow> view \<times> exc option" where
  "refresh_data now m v =
     (let bs = get_budget_status now m;
          v1 = v\<lparr>status_shown := bs,
                 color_remaining := remaining_color (bs_remaining_budget bs),
                 color_remaining_gaming := remaining_color (bs_remaining_gaming_budget bs),
                 recent_rows := []\<rparr>
      in case py_sorted_desc expense_date_key (expenses m) of
           Inl e \<Rightarrow> (v1, Some e)
         | Inr srt \<Rightarrow>
             (let v2 = v1\<lparr>recent_rows := take 20 srt, gaming_rows := []\<rparr>
              in case py_sorted_desc expense_date_key (filter is_gaming_instance (expenses m)) of
                   Inl e \<Rightarrow> (v2, Some e)
                 | Inr gs \<Rightarrow>
                     (v2\<lparr>gaming_rows := gs,
                         game_lines := map snd (rev (sort_key fst (rev
                           (map (\<lambda>p. (snd p, p)) (get_spending_by_game m))))),
                         chart := get_monthly_spending now m\<rparr>, None)))"

text \<open>The sort key of a stored date, where it parses.\<close>

definition date_key :: "expense \<Rightarrow> nat \<times> nat \<times> nat \<times> nat \<times> nat \<times> nat" where
  "date_key e = (case expense_date_key e of Inr k \<Rightarrow> k | Inl _ \<Rightarrow> (0, 0, 0, 0, 0, 0))"

definition date_parses :: "expense \<Rightarrow> bool" where
  "date_parses e \<longleftrightarrow> (case py_strptime (date (txn e)) of Inr _ \<Rightarrow> True | Inl _ \<Rightarrow> False)"

text \<open>The widgets as \<open>create_widgets\<close> leaves them: labels \<open>Rp 0\<close> in white,
  empty trees and text, an empty chart.\<close>

definition initial_view :: view where
  "initial_view =
     \<lparr>gaming_rows = [], game_lines = [],
      status_shown = \<lparr>bs_monthly_budget = 0, bs_gaming_budget = 0, bs_total_spending = 0,
                      bs_gaming_spending = 0, bs_remaining_budget = 0, bs_remaining_gaming_budget = 0\<rparr>,
      color_remaining = White, color_remaining_gaming = White, recent_rows = [],
      chart = \<lparr>sp_gaming = 0, sp_other = 0\<rparr>\<rparr>"

section \<open>Lemmas\<close>

lemma map_exc_Inr: "(\<forall>x \<in> set xs. f x = Inr (k x)) \<Longrightarrow> map_exc f xs = Inr (map k xs)"
  by (induction xs) auto

lemma map_snd_insort_key:
  "\<forall>p \<in> set ys. fst p = k (snd p) \<Longrightarrow>
   map snd (insort_key fst (k x, x) ys) = insort_key k x (map snd ys)"
  by (induction ys) auto

lemma sort_key_fst_zip_map:
  "map snd (sort_key fst (zip (map k xs) xs)) = sort_key k xs \<and>
   (\<forall>p \<in> set (sort_key fst (zip (map k xs) xs)). fst p = k (snd p))"
proof (induction xs)
  case Nil
  then show ?case by simp
next
  case (Cons x xs)
  then show ?case by (simp add: map_snd_insort_key set_insort_key)
qed

lemma py_sorted_desc_Inr:
  assumes "\<forall>x \<in> set xs. key x = Inr (k x)"
  shows "py_sorted_desc key xs = Inr (rev (sort_key k (rev xs)))"
proof -
  have m: "map_exc key xs = Inr (map k xs)"
    using assms by (rule map_exc_Inr)
  have z: "rev (zip (map k xs) xs) = zip (map k (rev xs)) (rev xs)"
    by (metis length_map rev_map zip_rev)
  have "map snd (sort_key fst (zip (map k (rev xs)) (rev xs))) = sort_key k (rev xs)"
    using sort_key_fst_zip_map [of k "rev xs"] by blast
  then show ?thesis
    by (simp add: py_sorted_desc_def m z rev_map [symmetric])
qed

lemma map_exc_Inl:
  "x \<in> set xs \<Longrightarrow> f x = Inl e \<Longrightarrow> \<exists>e'. map_exc f xs = Inl e'"
  by (induction xs) (auto simp: bind_exc_def split: sum.splits)

lemma date_parses_key:
  "date_parses e \<Longrightarrow> expense_date_key e = Inr (date_key e)"
  by (auto simp: date_parses_def date_key_def expense_date_key_def split: sum.splits)

lemma not_date_parses_key:
  "\<not> date_parses e \<Longrightarrow> \<exists>msg. expense_date_key e = Inl (ValueError msg)"
  by (auto simp: date_parses_def expense_date_key_def py_strptime_def split: sum.splits list.splits if_splits)

lemma py_sorted_desc_dates:
  "\<forall>e \<in> set xs. date_parses e \<Longrightarrow>
   py_sorted_desc expense_date_key xs = Inr (rev (sort_key date_key (rev xs)))"
  by (rule py_sorted_desc_Inr) (simp add: date_parses_key)

lemma sorted_desc_props:
  "sorted_wrt (\<ge>) (map k (rev (sort_key k (rev xs)))) \<and>
   mset (rev (sort_key k (rev xs))) = mset xs \<and>
   filter (\<lambda>y. k y = c) (rev (sort_key k (rev xs))) = filter (\<lambda>y. k y = c) xs"
proof -
  have "sorted (map k (sort_key k (rev xs)))" by simp
  then have "sorted_wrt (\<ge>) (rev (map k (sort_key k (rev xs))))"
    by (simp add: sorted_wrt_rev)
  moreover have "filter (\<lambda>y. k y = c) (sort_key k (rev xs)) = filter (\<lambda>y. k y = c) (rev xs)"
    by (rule sort_key_stable)
  ultimately show ?thesis by (simp add: rev_map rev_filter [symmetric] mset_sort)
qed

lemma sort_desc_snoc [simp]: "sort_desc k (xs @ [x]) = insort_desc k x (sort_desc k xs)"
  by (simp add: sort_desc_def)

lemma sort_desc_Nil [simp]: "sort_desc k [] = []"
  by (simp add: sort_desc_def)

lemma mset_insort_desc [simp]: "mset (insort_desc k x ys) = add_mset x (mset ys)"
  by (induction ys) auto

lemma set_insort_desc [simp]: "set (insort_desc k x ys) = insert x (set ys)"
  by (induction ys) auto

lemma sorted_insort_desc:
  "sorted_wrt (\<ge>) (map k ys) \<Longrightarrow> sorted_wrt (\<ge>) (map k (insort_desc k x ys))"
  by (induction ys) auto

lemma filter_insort_desc:
  "sorted_wrt (\<ge>) (map k ys) \<Longrightarrow>
   filter (\<lambda>y. k y = c) (insort_desc k x ys) = filter (\<lambda>y. k y = c) ys @ (if k x = c then [x] else [])"
proof (induction ys)
  case Nil
  then show ?case by simp
next
  case (Cons y ys)
  show ?case
  proof (cases "k y < k x")
    case True
    with Cons.prems have "filter (\<lambda>z. k z = k x) (y # ys) = []"
      by (auto simp: filter_empty_conv)
    with True show ?thesis by auto
  next
    case False
    with Cons show ?thesis by simp
  qed
qed

lemma sort_desc_props:
  "sorted_wrt (\<ge>) (map k (sort_desc k xs)) \<and> mset (sort_desc k xs) = mset xs \<and>
   filter (\<lambda>y. k y = c) (sort_desc k xs) = filter (\<lambda>y. k y = c) xs"
  by (induction xs rule: rev_induct) (simp_all add: sorted_insort_desc filter_insort_desc)

lemma map_exc_length: "map_exc f xs = Inr ys \<Longrightarrow> length ys = length xs"
  by (induction xs arbitrary: ys) (auto simp: bind_exc_def split: sum.splits)

lemma py_sorted_desc_mset:
  assumes "py_sorted_desc key xs = Inr ys"
  shows "mset ys = mset xs"
proof -
  obtain ks where ks: "map_exc key xs = Inr ks" and ys: "ys = map snd (rev (sort_key fst (rev (zip ks xs))))"
    using assms by (auto simp: py_sorted_desc_def bind_exc_def split: sum.splits)
  have "length ks = length xs" using ks by (rule map_exc_length)
  then have "mset (map snd (zip ks xs)) = mset xs" by simp
  then show ?thesis
    unfolding ys by (metis mset_map mset_rev mset_sort)
qed

text \<open>\<open>sorted(xs, key=k, reverse=True)\<close>, as \<open>list.sort\<close> computes it (reverse,
  stable ascending sort, reverse), is insertion sort into descending key order.\<close>

lemma rev_sort_key_rev_sort_desc: "rev (sort_key k (rev xs)) = sort_desc k xs"
proof -
  have "sort_key k (rev xs) = rev (sort_desc k xs)"
  proof (rule properties_for_sort_key)
    show "mset (rev (sort_desc k xs)) = mset (rev xs)"
      by (simp add: sort_desc_props)
    show "filter (\<lambda>y. k c = k y) (rev (sort_desc k xs)) = filter (\<lambda>y. k c = k y) (rev xs)" for c
      using sort_desc_props [of k xs "k c"] by (simp add: rev_filter [symmetric] eq_commute)
    show "sorted (map k (rev (sort_desc k xs)))"
      using sort_desc_props [of k xs] by (simp add: rev_map [symmetric] sorted_wrt_rev)
  qed
  then show ?thesis by simp
qed

lemma py_sorted_desc_insertion_sort:
  "py_sorted_desc (\<lambda>x. Inr (k x)) xs = Inr (sort_desc k xs)"
  using py_sorted_desc_Inr [of xs "\<lambda>x. Inr (k x)" k] by (simp add: rev_sort_key_rev_sort_desc)


text \<open>C15: The recent-expenses tree never shows more than twenty rows, and every row it shows is a stored record, whether or not the sort raised.\<close>

theorem refresh_data_recent_bound:
  "length (recent_rows (fst (refresh_data now m v))) \<le> 20 \<and>
   set (recent_rows (fst (refresh_data now m v))) \<subseteq> set (expenses m)"
proof (cases "py_sorted_desc expense_date_key (expenses m)")
  case (Inl e)
  then show ?thesis by (simp add: refresh_data_def Let_def)
next
  case (Inr srt)
  then have "set srt = set (expenses m)"
    by (metis py_sorted_desc_mset set_mset_mset)
  moreover have "recent_rows (fst (refresh_data now m v)) = take 20 srt"
    using Inr by (simp add: refresh_data_def Let_def split: sum.split)
  ultimately show ?thesis
    by (auto dest: in_set_takeD)
qed

text \<open>C6: When every stored date parses, refresh_data raises nothing; the recent tree shows the twenty most recent records, newest first, records of equal time in their stored order; the gaming tree shows every gaming record in the same order; the labels show get_budget_status with the remaining budget coloured red below zero, green above and gray at zero; the chart shows get_monthly_spending.\<close>

theorem refresh_data_ok:
  assumes "\<forall>e \<in> set (expenses m). date_parses e"
  shows "snd (refresh_data now m v) = None \<and>
    recent_rows (fst (refresh_data now m v)) = take 20 (rev (sort_key date_key (rev (expenses m)))) \<and>
    gaming_rows (fst (refresh_data now m v)) =
      rev (sort_key date_key (rev (filter is_gaming_instance (expenses m)))) \<and>
    status_shown (fst (refresh_data now m v)) = get_budget_status now m \<and>
    color_remaining (fst (refresh_data now m v)) =
      remaining_color (bs_remaining_budget (get_budget_status now m)) \<and>
    chart (fst (refresh_data now m v)) = get_monthly_spending now m"
  using assms by (simp add: refresh_data_def Let_def py_sorted_desc_dates)

lemma map_exc_Inl_from:
  "map_exc f xs = Inl e \<Longrightarrow> \<exists>x \<in> set xs. f x = Inl e"
  by (induction xs) (auto simp: bind_exc_def split: sum.splits)

lemma expense_date_key_Inl:
  "expense_date_key x = Inl e \<Longrightarrow> \<exists>msg. e = ValueError msg"
  by (auto simp: expense_date_key_def py_strptime_def bind_exc_def split: sum.splits list.splits if_splits)

lemma py_sorted_desc_date_Inl:
  assumes "e \<in> set xs" and "\<not> date_parses e"
  shows "\<exists>msg. py_sorted_desc expense_date_key xs = Inl (ValueError msg)"
proof -
  obtain msg where "expense_date_key e = Inl (ValueError msg)"
    using not_date_parses_key [OF assms(2)] by blast
  then obtain err where err: "map_exc expense_date_key xs = Inl err"
    using map_exc_Inl [OF assms(1)] by blast
  then obtain msg' where "err = ValueError msg'"
    using map_exc_Inl_from [OF err] expense_date_key_Inl by blast
  with err show ?thesis by (auto simp: py_sorted_desc_def)
qed

text \<open>C28: A stored record whose date strptime rejects makes refresh_data raise ValueError after it has set the labels and cleared the recent tree, which stays empty.\<close>

theorem refresh_data_bad_date:
  assumes "e \<in> set (expenses m)" and "\<not> date_parses e"
  shows "\<exists>msg. snd (refresh_data now m v) = Some (ValueError msg) \<and>
    recent_rows (fst (refresh_data now m v)) = [] \<and>
    status_shown (fst (refresh_data now m v)) = get_budget_status now m"
proof -
  obtain msg where "py_sorted_desc expense_date_key (expenses m) = Inl (ValueError msg)"
    using py_sorted_desc_date_Inl [OF assms] by blast
  then show ?thesis by (simp add: refresh_data_def Let_def)
qed

theorem refresh_data_ok_witness:
  "list_all date_parses (expenses example_manager) \<and>
   snd (refresh_data example_now example_manager initial_view) = None \<and>
   recent_rows (fst (refresh_data example_now example_manager initial_view)) =
     take 20 (rev (sort_key date_key (rev (expenses example_manager)))) \<and>
   gaming_rows (fst (refresh_data example_now example_manager initial_view)) =
     rev (sort_key date_key (rev (filter is_gaming_instance (expenses example_manager)))) \<and>
   status_shown (fst (refresh_data example_now example_manager initial_view)) =
     get_budget_status example_now example_manager \<and>
   color_remaining (fst (refresh_data example_now example_manager initial_view)) =
     remaining_color (bs_remaining_budget (get_budget_status example_now example_manager)) \<and>
   chart (fst (refresh_data example_now example_manager initial_view)) =
     get_monthly_spending example_now example_manager"
proof -
  have h: "list_all date_parses (expenses example_manager)"
    by code_simp
  then have h': "\<forall>e \<in> set (expenses example_manager). date_parses e"
    by (simp add: list_all_iff)
  show ?thesis by (rule conjI [OF h refresh_data_ok [OF h']])
qed

theorem refresh_data_bad_date_witness:
  "regular_expense_init example_hash example_now 5 ''x'' ''Food'' (Some ''yesterday'') \<in>
     set (expenses (example_manager\<lparr>expenses :=
       [regular_expense_init example_hash example_now 5 ''x'' ''Food'' (Some ''yesterday'')]\<rparr>)) \<and>
   \<not> date_parses (regular_expense_init example_hash example_now 5 ''x'' ''Food'' (Some ''yesterday'')) \<and>
   (\<exists>msg. snd (refresh_data example_now (example_manager\<lparr>expenses :=
       [regular_expense_init example_hash example_now 5 ''x'' ''Food'' (Some ''yesterday'')]\<rparr>) initial_view) =
       Some (ValueError msg))"
proof -
  have h1: "regular_expense_init example_hash example_now 5 ''x'' ''Food'' (Some ''yesterday'') \<in>
     set (expenses (example_manager\<lparr>expenses :=
       [regular_expense_init example_hash example_now 5 ''x'' ''Food'' (Some ''yesterday'')]\<rparr>))"
    by simp
  have h2: "\<not> date_parses (regular_expense_init example_hash example_now 5 ''x'' ''Food'' (Some ''yesterday''))"
    by code_simp
  show ?thesis using h1 h2 refresh_data_bad_date [OF h1 h2, of example_now initial_view] by blast
qed


end
