(* ===== verification/Gui.thy ===== *)
theory Gui
  imports Refresh
begin

text \<open>
  The window, \<open>GamerFinanceGUI\<close> in \<^verbatim>\<open>src/main.py\<close>: the contents of its
  entries and read-only comboboxes, the manager it owns and the widgets
  \<open>refresh_data\<close> fills (\<open>gui\<close>); its constructor (\<open>gui_init\<close>); the three
  button handlers, each a \<open>try\<close> body whose \<open>ValueError\<close> is caught and shown
  (\<open>except_value_error\<close>) while every other exception leaves the handler with the
  state it had reached; and the user's actions as one step function \<open>gui_step\<close>.
  Tk reports an exception that leaves a callback and keeps running, so the states
  reachable through the window (\<open>gui_reachable\<close>) are those of any sequence of
  events after a constructor that returned; \<open>gui_run\<close> is Tk's main loop over a
  sequence of timed events and \<open>gui_main\<close> the script's main block, whose states
  are reachable ones. Python's \<open>float()\<close> is a parameter
  \<open>flt\<close>: what it returns for the normalised text, or \<open>None\<close> where it raises.
\<close>

section \<open>The window's state\<close>

type_synonym float_parser = "string \<Rightarrow> int option"

text \<open>The readonly comboboxes' lists of values.\<close>

definition regular_categories :: "string list" where
  "regular_categories = [''Food'', ''Transportation'', ''Entertainment'', ''Utilities'', ''Other'']"

definition expense_types :: "string list" where
  "expense_types = [''Game Purchase'', ''DLC'', ''Microtransaction'', ''Hardware'',
                    ''Subscription'', ''Other Gaming'']"

record gui =
  finance_manager :: manager
  regular_amount :: string
  regular_desc :: string
  regular_category :: string
  gaming_amount :: string
  gaming_desc :: string
  game_title :: string
  expense_type :: string
  monthly_budget_entry :: string
  gaming_budget_entry :: string
  widgets :: view

type_synonym app = "gui \<times> world"

definition show_info :: "world \<Rightarrow> string \<Rightarrow> string \<Rightarrow> world" where
  "show_info w title msg = w\<lparr>shown := shown w @ [ShowInfo title msg]\<rparr>"

text \<open>\<open>float(s)\<close>: the parsed value, or the \<open>ValueError\<close> it raises.\<close>

definition py_float :: "float_parser \<Rightarrow> string \<Rightarrow> exc + int" where
  "py_float flt s =
     (case flt s of Some x \<Rightarrow> Inr x
      | None \<Rightarrow> Inl (ValueError (''could not convert string to float: '' @ CHR 0x27 # s @ [CHR 0x27])))"

text \<open>\<open>s.replace('.', '').replace(',', '')\<close>: the handlers drop every point and
  comma before parsing, taking both for thousands separators.\<close>

definition normalize_amount :: "string \<Rightarrow> string" where
  "normalize_amount s = py_remove CHR '','' (py_remove CHR ''.'' s)"

text \<open>\<open>except ValueError: messagebox.showerror("Input Error", msg)\<close> around a
  handler's body.\<close>

definition except_value_error :: "string \<Rightarrow> app \<times> exc option \<Rightarrow> app \<times> exc option" where
  "except_value_error msg r =
     (case r of ((g, w), Some (ValueError _)) \<Rightarrow> ((g, show_error w ''Input Error'' msg), None)
      | _ \<Rightarrow> r)"

text \<open>\<open>self.refresh_data()\<close>: the widgets take what it wrote before it returned or
  raised.\<close>

definition refresh_gui :: "datetime \<Rightarrow> app \<Rightarrow> app \<times> exc option" where
  "refresh_gui now s =
     (case refresh_data now (finance_manager (fst s)) (widgets (fst s)) of
        (v, e) \<Rightarrow> (((fst s)\<lparr>widgets := v\<rparr>, snd s), e))"

section \<open>Constructor and handlers\<close>

text \<open>\<open>__init__\<close>: the manager on its default file, \<open>create_widgets\<close> (empty
  entries, the comboboxes on their defaults, the budget entries holding
  \<open>f"{budget:,.0f}"\<close>), then \<open>refresh_data\<close>, whose exception leaves the constructor;
  \<open>None\<close> where loading the data file leaves the model.\<close>

definition gui_init :: "py_hash \<Rightarrow> datetime \<Rightarrow> world \<Rightarrow> (app \<times> exc option) option" where
  "gui_init hash now w =
     (case gfm_init hash now ''data/gamer_finance.json'' w of
        None \<Rightarrow> None
      | Some (m, w1) \<Rightarrow>
          Some (refresh_gui now
            (\<lparr>finance_manager = m, regular_amount = [], regular_desc = [],
              regular_category = ''Food'', gaming_amount = [], gaming_desc = [], game_title = [],
              expense_type = ''Game Purchase'',
              monthly_budget_entry = fmt_thousands (monthly_budget m),
              gaming_budget_entry = fmt_thousands (gaming_budget m),
              widgets = initial_view\<rparr>, w1)))"

text \<open>The body of \<open>add_regular_expense\<close>'s \<open>try\<close>. The success message's leading
  emoji lies outside the modelled characters and is left out.\<close>

definition add_regular_expense_body :: "float_parser \<Rightarrow> py_hash \<Rightarrow> datetime \<Rightarrow> app \<Rightarrow> app \<times> exc option" where
  "add_regular_expense_body flt hash now s =
     (case py_float flt (normalize_amount (regular_amount (fst s))) of
        Inl e \<Rightarrow> (s, Some e)
      | Inr amt \<Rightarrow>
          (let g = fst s; desc = py_strip (regular_desc g); cat = py_strip (regular_category g) in
           if desc = [] \<or> cat = [] \<or> amt \<le> 0 then
             ((g, show_error (snd s) ''Input Error''
                    ''Please ensure all fields are filled correctly and amount is positive.''), None)
           else
             (case add_expense hash now amt desc cat (finance_manager g, snd s) of
                ((m, w1), Some e) \<Rightarrow> ((g\<lparr>finance_manager := m\<rparr>, w1), Some e)
              | ((m, w1), None) \<Rightarrow>
                  refresh_gui now
                    (g\<lparr>finance_manager := m, regular_amount := [], regular_desc := [],
                       regular_category := ''Food''\<rparr>,
                     show_info w1 ''Success'' '' Regular expense added successfully!''))))"

definition add_regular_expense :: "float_parser \<Rightarrow> py_hash \<Rightarrow> datetime \<Rightarrow> app \<Rightarrow> app \<times> exc option" where
  "add_regular_expense flt hash now s =
     except_value_error ''Please enter a valid numeric amount for regular expense.''
       (add_regular_expense_body flt hash now s)"

definition add_gaming_expense_body :: "float_parser \<Rightarrow> py_hash \<Rightarrow> datetime \<Rightarrow> app \<Rightarrow> app \<times> exc option" where
  "add_gaming_expense_body flt hash now s =
     (case py_float flt (normalize_amount (gaming_amount (fst s))) of
        Inl e \<Rightarrow> (s, Some e)
      | Inr amt \<Rightarrow>
          (let g = fst s; desc = py_strip (gaming_desc g); title = py_strip (game_title g);
               et = py_strip (expense_type g) in
           if desc = [] \<or> title = [] \<or> et = [] \<or> amt \<le> 0 then
             ((g, show_error (snd s) ''Input Error''
                    ''Please ensure all fields are filled correctly and amount is positive.''), None)
           else
             (case Store.add_gaming_expense hash now amt desc title et (finance_manager g, snd s) of
                ((m, w1), Some e) \<Rightarrow> ((g\<lparr>finance_manager := m\<rparr>, w1), Some e)
              | ((m, w1), None) \<Rightarrow>
                  refresh_gui now
                    (g\<lparr>finance_manager := m, gaming_amount := [], gaming_desc := [], game_title := [],
                       expense_type := ''Game Purchase''\<rparr>,
                     show_info w1 ''Success'' '' Gaming expense added successfully!''))))"

definition add_gaming_expense_gui :: "float_parser \<Rightarrow> py_hash \<Rightarrow> datetime \<Rightarrow> app \<Rightarrow> app \<times> exc option" where
  "add_gaming_expense_gui flt hash now s =
     except_value_error ''Please enter a valid numeric amount for gaming expense.''
       (add_gaming_expense_body flt hash now s)"

definition save_budget_settings_body :: "float_parser \<Rightarrow> datetime \<Rightarrow> app \<Rightarrow> app \<times> exc option" where
  "save_budget_settings_body flt now s =
     (let g = fst s in
      case py_float flt (normalize_amount (monthly_budget_entry g)) of
        Inl e \<Rightarrow> (s, Some e)
      | Inr mb \<Rightarrow>
          (case py_float flt (normalize_amount (gaming_budget_entry g)) of
             Inl e \<Rightarrow> (s, Some e)
           | Inr gb \<Rightarrow>
               (if mb < 0 \<or> gb < 0 then
                  ((g, show_error (snd s) ''Input Error'' ''Budgets cannot be negative.''), None)
                else
                  (case set_budgets mb gb (finance_manager g, snd s) of
                     ((m, w1), Some e) \<Rightarrow> ((g\<lparr>finance_manager := m\<rparr>, w1), Some e)
                   | ((m, w1), None) \<Rightarrow>
                       refresh_gui now (g\<lparr>finance_manager := m\<rparr>,
                                        show_info w1 ''Success'' '' Budget settings saved!'')))))"

definition save_budget_settings :: "float_parser \<Rightarrow> datetime \<Rightarrow> app \<Rightarrow> app \<times> exc option" where
  "save_budget_settings flt now s =
     except_value_error ''Please enter valid numeric budget amounts.''
       (save_budget_settings_body flt now s)"

section \<open>Events\<close>

text \<open>What the user can do: type into an entry (any text), pick a value of a
  readonly combobox (nothing else can be entered there), press one of the three
  buttons, or switch tabs (\<open>on_tab_change\<close> refreshes).\<close>

datatype gui_event =
    TypeRegularAmount string | TypeRegularDesc string | PickRegularCategory string
  | TypeGamingAmount string | TypeGamingDesc string | TypeGameTitle string
  | PickExpenseType string | TypeMonthlyBudget string | TypeGamingBudget string
  | ClickAddRegular | ClickAddGaming | ClickSaveBudgets | TabChanged

fun gui_step :: "float_parser \<Rightarrow> py_hash \<Rightarrow> datetime \<Rightarrow> gui_event \<Rightarrow> app \<Rightarrow> app \<times> exc option" where
  "gui_step flt hash now (TypeRegularAmount x) (g, w) = ((g\<lparr>regular_amount := x\<rparr>, w), None)"
| "gui_step flt hash now (TypeRegularDesc x) (g, w) = ((g\<lparr>regular_desc := x\<rparr>, w), None)"
| "gui_step flt hash now (PickRegularCategory x) (g, w) =
     ((if x \<in> set regular_categories then g\<lparr>regular_category := x\<rparr> else g, w), None)"
| "gui_step flt hash now (TypeGamingAmount x) (g, w) = ((g\<lparr>gaming_amount := x\<rparr>, w), None)"
| "gui_step flt hash now (TypeGamingDesc x) (g, w) = ((g\<lparr>gaming_desc := x\<rparr>, w), None)"
| "gui_step flt hash now (TypeGameTitle x) (g, w) = ((g\<lparr>game_title := x\<rparr>, w), None)"
| "gui_step flt hash now (PickExpenseType x) (g, w) =
     ((if x \<in> set expense_types then g\<lparr>expense_type := x\<rparr> else g, w), None)"
| "gui_step flt hash now (TypeMonthlyBudget x) (g, w) = ((g\<lparr>monthly_budget_entry := x\<rparr>, w), None)"
| "gui_step flt hash now (TypeGamingBudget x) (g, w) = ((g\<lparr>gaming_budget_entry := x\<rparr>, w), None)"
| "gui_step flt hash now ClickAddRegular s = add_regular_expense flt hash now s"
| "gui_step flt hash now ClickAddGaming s = add_gaming_expense_gui flt hash now s"
| "gui_step flt hash now ClickSaveBudgets s = save_budget_settings flt now s"
| "gui_step flt hash now TabChanged s = refresh_gui now s"

text \<open>\<open>root.mainloop()\<close>: Tk dispatches the events one after the other, each
  handler running to completion at its own clock reading; an exception leaving a
  handler is printed by Tk and the loop goes on with the next event.\<close>

fun gui_run :: "float_parser \<Rightarrow> py_hash \<Rightarrow> (datetime \<times> gui_event) list \<Rightarrow> app \<Rightarrow> app" where
  "gui_run flt hash [] s = s"
| "gui_run flt hash ((now, ev) # evs) s = gui_run flt hash evs (fst (gui_step flt hash now ev s))"

text \<open>The script's \<open>__main__\<close> block: the constructor runs at the first clock
  reading; an exception it raises ends the script before the main loop starts.\<close>

definition gui_main ::
  "float_parser \<Rightarrow> py_hash \<Rightarrow> datetime \<Rightarrow> world \<Rightarrow> (datetime \<times> gui_event) list \<Rightarrow>
   (exc + app) option" where
  "gui_main flt hash now w evs =
     (case gui_init hash now w of
        None \<Rightarrow> None
      | Some (s, Some e) \<Rightarrow> Some (Inl e)
      | Some (s, None) \<Rightarrow> Some (Inr (gui_run flt hash evs s)))"

text \<open>The states of a run of the program on a machine where the data file does
  not exist yet: the constructor returned, then any events at any clock readings.
  An exception leaving a handler is reported by Tk and the run goes on.\<close>

inductive gui_reachable :: "float_parser \<Rightarrow> py_hash \<Rightarrow> app \<Rightarrow> bool" for flt hash where
  start: "\<not> os_path_exists w ''data/gamer_finance.json'' \<Longrightarrow> valid_datetime now \<Longrightarrow>
          gui_init hash now w = Some (s, None) \<Longrightarrow> gui_reachable flt hash s"
| step: "gui_reachable flt hash s \<Longrightarrow> valid_datetime now \<Longrightarrow>
          gui_reachable flt hash (fst (gui_step flt hash now ev s))"

section \<open>The invariant\<close>

text \<open>A record as the window creates it: positive amount, non-empty description,
  a date \<open>strptime\<close> reads, an id derived by this process's hash, a category or
  expense type from the combobox and a non-empty title.\<close>

definition valid_record :: "py_hash \<Rightarrow> expense \<Rightarrow> bool" where
  "valid_record hash e \<longleftrightarrow>
     0 < amount (txn e) \<and> description (txn e) \<noteq> [] \<and> date_parses e \<and> reloadable hash e \<and>
     (case e of RegularExpense _ c \<Rightarrow> c \<in> set regular_categories
      | GamingExpense _ gt et \<Rightarrow> gt \<noteq> [] \<and> et \<in> set expense_types)"

definition gui_inv :: "py_hash \<Rightarrow> gui \<Rightarrow> bool" where
  "gui_inv hash g \<longleftrightarrow>
     data_file (finance_manager g) = ''data/gamer_finance.json'' \<and>
     list_all (valid_record hash) (expenses (finance_manager g)) \<and>
     0 \<le> monthly_budget (finance_manager g) \<and> 0 \<le> gaming_budget (finance_manager g) \<and>
     regular_category g \<in> set regular_categories \<and> expense_type g \<in> set expense_types"

text \<open>\<open>float(s)\<close> on the inputs whose value is integral and written without
  exponent: an optionally signed run of decimal digits, with surrounding
  whitespace; \<open>None\<close> where this fragment gives no value.\<close>

definition py_float_int :: float_parser where
  "py_float_int s =
     (case py_strip s of
        [] \<Rightarrow> None
      | c # r \<Rightarrow>
          (if c = CHR ''-'' \<or> c = CHR ''+'' then
             (if r \<noteq> [] \<and> list_all is_digit r
              then Some ((if c = CHR ''-'' then -1 else 1) * int (nat_of_digits r)) else None)
           else if list_all is_digit (c # r) then Some (int (nat_of_digits (c # r))) else None))"

section \<open>Example data for the witnesses\<close>

text \<open>The window as the constructor leaves it on a machine without a data file.\<close>

definition example_gui :: gui where
  "example_gui = fst (fst (the (gui_init example_hash example_now example_world)))"

text \<open>The form filled in with an amount of 50000 and the description \<open>Lunch\<close>.\<close>

definition example_form :: gui where
  "example_form = example_gui\<lparr>regular_amount := ''50000'', regular_desc := ''Lunch''\<rparr>"

text \<open>A record whose date is not in the stored format, and a data file holding it.\<close>

definition example_bad_record :: expense where
  "example_bad_record = regular_expense_init example_hash example_now 5 ''x'' ''Food'' (Some ''07/03/2025'')"

definition example_bad_world :: world where
  "example_bad_world = example_world\<lparr>files := [''data/gamer_finance.json'' \<mapsto>
     JsonText (manager_to_json ((manager_fresh ''data/gamer_finance.json'')\<lparr>expenses := [example_bad_record]\<rparr>))]\<rparr>"

section \<open>Lemmas on the handlers\<close>

lemma refresh_gui_fst:
  "fst (refresh_gui now s) =
     ((fst s)\<lparr>widgets := fst (refresh_data now (finance_manager (fst s)) (widgets (fst s)))\<rparr>, snd s)"
  by (simp add: refresh_gui_def split: prod.splits)

lemma refresh_gui_snd:
  "snd (refresh_gui now s) = snd (refresh_data now (finance_manager (fst s)) (widgets (fst s)))"
  by (simp add: refresh_gui_def case_prod_unfold)

lemma except_value_error_gui: "fst (fst (except_value_error msg r)) = fst (fst r)"
  by (simp add: except_value_error_def split: prod.splits option.splits exc.splits)

lemma py_strip_regular_category:
  "c \<in> set regular_categories \<Longrightarrow> py_strip c = c"
  unfolding regular_categories_def by (auto; code_simp)

lemma py_strip_expense_type:
  "c \<in> set expense_types \<Longrightarrow> py_strip c = c"
  unfolding expense_types_def by (auto; code_simp)

lemma gaming_notin_regular_categories [simp]: "''gaming'' \<notin> set regular_categories"
  by (simp add: regular_categories_def)

lemma defaults_in_lists [simp]:
  "''Food'' \<in> set regular_categories" "''Game Purchase'' \<in> set expense_types"
  by (simp_all add: regular_categories_def expense_types_def)

lemma date_parses_now:
  "valid_datetime now \<Longrightarrow> date_parses (RegularExpense (transaction_init hash now amt desc None) c) \<and>
     date_parses (GamingExpense (transaction_init hash now amt desc None) gt et)"
  by (simp add: date_parses_def date_transaction_init strptime_strftime_full)

lemma valid_record_regular_init:
  "valid_datetime now \<Longrightarrow> 0 < amt \<Longrightarrow> desc \<noteq> [] \<Longrightarrow> c \<in> set regular_categories \<Longrightarrow>
   valid_record hash (regular_expense_init hash now amt desc c None)"
  using date_parses_now [of now hash amt desc c]
  by (auto simp: valid_record_def regular_expense_init_def reloadable_def
      date_transaction_init id_transaction_init)

lemma valid_record_gaming_init:
  "valid_datetime now \<Longrightarrow> 0 < amt \<Longrightarrow> desc \<noteq> [] \<Longrightarrow> gt \<noteq> [] \<Longrightarrow> et \<in> set expense_types \<Longrightarrow>
   valid_record hash (gaming_expense_init hash now amt desc gt et None)"
  using date_parses_now [of now hash amt desc _ gt et]
  by (auto simp: valid_record_def gaming_expense_init_def reloadable_def
      date_transaction_init id_transaction_init)

lemma gui_inv_append:
  "gui_inv hash g \<Longrightarrow> valid_record hash r \<Longrightarrow>
   gui_inv hash (g\<lparr>finance_manager := (finance_manager g)\<lparr>expenses := expenses (finance_manager g) @ [r]\<rparr>\<rparr>)"
  by (simp add: gui_inv_def)

lemma add_regular_expense_body_inv:
  assumes inv: "gui_inv hash (fst s)" and clk: "valid_datetime now"
  shows "gui_inv hash (fst (fst (add_regular_expense_body flt hash now s)))"
proof (cases "py_float flt (normalize_amount (regular_amount (fst s)))")
  case (Inl e)
  then show ?thesis using inv by (simp add: add_regular_expense_body_def)
next
  case (Inr amt)
  let ?g = "fst s"
  let ?r = "regular_expense_init hash now amt (py_strip (regular_desc ?g)) (regular_category ?g) None"
  let ?g1 = "?g\<lparr>finance_manager := (finance_manager ?g)\<lparr>expenses := expenses (finance_manager ?g) @ [?r]\<rparr>\<rparr>"
  have cat: "py_strip (regular_category ?g) = regular_category ?g"
    using inv by (simp add: gui_inv_def py_strip_regular_category)
  have cne: "regular_category ?g \<noteq> []"
    using inv by (auto simp: gui_inv_def regular_categories_def)
  show ?thesis
  proof (cases "py_strip (regular_desc ?g) = [] \<or> amt \<le> 0")
    case True
    then show ?thesis using inv Inr by (auto simp: add_regular_expense_body_def Let_def)
  next
    case False
    then have "valid_record hash ?r"
      using inv clk by (auto simp: gui_inv_def intro: valid_record_regular_init)
    then have g1: "gui_inv hash ?g1" using inv by (rule gui_inv_append [rotated])
    then have "gui_inv hash (?g1\<lparr>regular_amount := [], regular_desc := [], regular_category := ''Food'',
                                 widgets := v\<rparr>)" for v
      by (simp add: gui_inv_def)
    then show ?thesis using False Inr g1 cat cne
      by (auto simp: add_regular_expense_body_def Let_def add_expense_state refresh_gui_fst
          split: prod.splits option.splits)
  qed
qed

lemma add_gaming_expense_state:
  "Store.add_gaming_expense hash now amt desc gt et s =
     ((fst s\<lparr>expenses := expenses (fst s) @ [gaming_expense_init hash now amt desc gt et None]\<rparr>,
       fst (save_data (fst s\<lparr>expenses := expenses (fst s) @ [gaming_expense_init hash now amt desc gt et None]\<rparr>) (snd s))),
      snd (save_data (fst s\<lparr>expenses := expenses (fst s) @ [gaming_expense_init hash now amt desc gt et None]\<rparr>) (snd s)))"
  by (simp add: Store.add_gaming_expense_def Let_def case_prod_unfold)

lemma add_gaming_expense_body_inv:
  assumes inv: "gui_inv hash (fst s)" and clk: "valid_datetime now"
  shows "gui_inv hash (fst (fst (add_gaming_expense_body flt hash now s)))"
proof (cases "py_float flt (normalize_amount (gaming_amount (fst s)))")
  case (Inl e)
  then show ?thesis using inv by (simp add: add_gaming_expense_body_def)
next
  case (Inr amt)
  let ?g = "fst s"
  let ?r = "gaming_expense_init hash now amt (py_strip (gaming_desc ?g)) (py_strip (game_title ?g))
              (expense_type ?g) None"
  let ?g1 = "?g\<lparr>finance_manager := (finance_manager ?g)\<lparr>expenses := expenses (finance_manager ?g) @ [?r]\<rparr>\<rparr>"
  have et: "py_strip (expense_type ?g) = expense_type ?g"
    using inv by (simp add: gui_inv_def py_strip_expense_type)
  have ene: "expense_type ?g \<noteq> []"
    using inv by (auto simp: gui_inv_def expense_types_def)
  show ?thesis
  proof (cases "py_strip (gaming_desc ?g) = [] \<or> py_strip (game_title ?g) = [] \<or> amt \<le> 0")
    case True
    then show ?thesis using inv Inr by (auto simp: add_gaming_expense_body_def Let_def)
  next
    case False
    then have "valid_record hash ?r"
      using inv clk by (auto simp: gui_inv_def intro: valid_record_gaming_init)
    then have g1: "gui_inv hash ?g1" using inv by (rule gui_inv_append [rotated])
    then have "gui_inv hash (?g1\<lparr>gaming_amount := [], gaming_desc := [], game_title := [],
                                 expense_type := ''Game Purchase'', widgets := v\<rparr>)" for v
      by (simp add: gui_inv_def)
    then show ?thesis using False Inr g1 et ene
      by (auto simp: add_gaming_expense_body_def Let_def add_gaming_expense_state refresh_gui_fst
          split: prod.splits option.splits)
  qed
qed

lemma save_budget_settings_body_inv:
  assumes inv: "gui_inv hash (fst s)"
  shows "gui_inv hash (fst (fst (save_budget_settings_body flt now s)))"
  using inv
  by (auto simp: save_budget_settings_body_def set_budgets_def Let_def case_prod_unfold
      refresh_gui_fst gui_inv_def split: sum.splits option.splits)

lemma gui_step_inv:
  assumes "gui_inv hash (fst s)" and "valid_datetime now"
  shows "gui_inv hash (fst (fst (gui_step flt hash now ev s)))"
proof (cases ev)
  case ClickAddRegular
  then show ?thesis using assms
    by (simp add: add_regular_expense_def except_value_error_gui add_regular_expense_body_inv)
next
  case ClickAddGaming
  then show ?thesis using assms
    by (simp add: add_gaming_expense_gui_def except_value_error_gui add_gaming_expense_body_inv)
next
  case ClickSaveBudgets
  then show ?thesis using assms
    by (simp add: save_budget_settings_def except_value_error_gui save_budget_settings_body_inv)
next
  case TabChanged
  then show ?thesis using assms by (simp add: refresh_gui_fst gui_inv_def)
qed (cases s; use assms in \<open>auto simp: gui_inv_def\<close>)+

text \<open>Without a data file the constructor returns, raising nothing, with the fresh
  manager, the comboboxes on their defaults and the world unchanged.\<close>

lemma gui_init_fresh:
  assumes "\<not> os_path_exists w ''data/gamer_finance.json''"
  shows "\<exists>s. gui_init hash now w = Some (s, None) \<and>
    finance_manager (fst s) = manager_fresh ''data/gamer_finance.json'' \<and>
    regular_category (fst s) = ''Food'' \<and> expense_type (fst s) = ''Game Purchase'' \<and> snd s = w"
  using assms
  by (simp add: gui_init_def gfm_init_def load_data_def refresh_gui_def refresh_data_def Let_def
      py_sorted_desc_def manager_fresh_def)

lemma gui_init_inv:
  "\<not> os_path_exists w ''data/gamer_finance.json'' \<Longrightarrow> gui_init hash now w = Some (s, e) \<Longrightarrow>
   gui_inv hash (fst s)"
  using gui_init_fresh [of w hash now] by (auto simp: gui_inv_def)

lemma gui_reachable_gui_inv:
  "gui_reachable flt hash s \<Longrightarrow> gui_inv hash (fst s)"
proof (induction rule: gui_reachable.induct)
  case (start w now s)
  from start.hyps(1,3) show ?case by (rule gui_init_inv)
next
  case (step s now ev)
  from step.IH step.hyps(2) show ?case by (rule gui_step_inv)
qed

lemma gui_inv_dates:
  "gui_inv hash g \<Longrightarrow> \<forall>e \<in> set (expenses (finance_manager g)). date_parses e"
  by (auto simp: gui_inv_def valid_record_def list_all_iff)

lemma refresh_data_dates_ok:
  assumes "\<forall>e \<in> set (expenses m). date_parses e"
  shows "snd (refresh_data now m v) = None"
  using assms by (simp add: refresh_data_def Let_def py_sorted_desc_dates)

lemma normalize_amount_point:
  "normalize_amount (a @ CHR ''.'' # b) = normalize_amount (a @ b)"
  by (simp add: normalize_amount_def py_remove_def)

lemma dropWhile_all_not: "\<forall>c \<in> set s. \<not> P c \<Longrightarrow> dropWhile P s = s"
  by (cases s) auto

lemma py_strip_no_space:
  "\<forall>c \<in> set s. \<not> is_py_space c \<Longrightarrow> py_strip s = s"
  by (simp add: py_strip_def dropWhile_all_not)

lemma digit_not_space: "is_digit c \<Longrightarrow> \<not> is_py_space c"
  by (simp add: is_digit_def is_py_space_def)

lemma py_float_int_digits:
  assumes "s \<noteq> []" and "\<forall>c \<in> set s. is_digit c"
  shows "py_float_int s = Some (int (nat_of_digits s)) \<and>
         py_float_int (CHR ''-'' # s) = Some (- int (nat_of_digits s))"
proof -
  obtain c r where cr: "s = c # r" using assms(1) by (meson neq_Nil_conv)
  have sp: "\<forall>x \<in> set s. \<not> is_py_space x" using assms(2) digit_not_space by blast
  have sm: "\<not> is_py_space CHR ''-''" by (simp add: is_py_space_def)
  have st1: "py_strip s = s" using sp by (rule py_strip_no_space)
  have st2: "py_strip (CHR ''-'' # s) = CHR ''-'' # s" using sp sm by (intro py_strip_no_space) simp
  have "is_digit c" using assms(2) cr by simp
  then have c: "c \<noteq> CHR ''-'' \<and> c \<noteq> CHR ''+''" by (auto simp: is_digit_def)
  have la: "list_all is_digit s" using assms(2) by (simp add: list_all_iff)
  show ?thesis
    using st1 st2 c la assms(1) by (simp add: py_float_int_def cr)
qed

lemma py_float_int_str_of_int: "py_float_int (str_of_int i) = Some i"
proof -
  have d: "\<forall>c \<in> set (str_of_nat n). is_digit c" for n
    by (simp add: str_of_nat_digits)
  note pf = py_float_int_digits [OF str_of_nat_ne d]
  show ?thesis
    using pf [of "nat (- i)"] pf [of "nat i"]
    by (simp add: str_of_int_def nat_of_digits_str_of_nat)
qed

lemma py_remove_commute: "py_remove a (py_remove b s) = py_remove b (py_remove a s)"
  by (simp add: py_remove_def) meson

lemma py_remove_point_str_of_int: "py_remove CHR ''.'' (str_of_int i) = str_of_int i"
proof -
  have "CHR ''.'' \<notin> set (str_of_nat n)" for n
    using str_of_nat_digits [of "CHR ''.''" n] by auto
  then show ?thesis by (simp add: str_of_int_def py_remove_def py_remove_notin [unfolded py_remove_def])
qed

lemma normalize_amount_fmt_thousands: "normalize_amount (fmt_thousands i) = str_of_int i"
  by (simp add: normalize_amount_def py_remove_commute [of _ "CHR ''.''"] py_remove_fmt_thousands
      py_remove_point_str_of_int)

lemma example_world_fresh: "\<not> os_path_exists example_world ''data/gamer_finance.json''"
  by (simp add: os_path_exists_def example_world_def)

lemma example_gui_init:
  "gui_init example_hash example_now example_world = Some ((example_gui, example_world), None)"
proof -
  obtain s where i: "gui_init example_hash example_now example_world = Some (s, None)"
    and w: "snd s = example_world"
    using gui_init_fresh [OF example_world_fresh] by blast
  then show ?thesis by (cases s) (simp add: example_gui_def)
qed

lemma example_gui_fields:
  "finance_manager example_gui = manager_fresh ''data/gamer_finance.json''"
  "gui_inv example_hash example_gui"
  "regular_category example_gui = ''Food''"
  using gui_init_fresh [OF example_world_fresh, of example_hash example_now]
    gui_init_inv [OF example_world_fresh example_gui_init]
  by (auto simp: example_gui_init)

lemma example_now_valid: "valid_datetime example_now"
  by (simp add: valid_datetime_def example_now_def days_in_month_def)

lemma example_gui_reachable:
  "gui_reachable py_float_int example_hash (example_gui, example_world)"
  by (rule gui_reachable.start [OF example_world_fresh example_now_valid example_gui_init])

lemma except_value_error_parts:
  "snd (fst (except_value_error msg r)) =
     (case snd r of Some (ValueError _) \<Rightarrow> show_error (snd (fst r)) ''Input Error'' msg | _ \<Rightarrow> snd (fst r))"
  "snd (except_value_error msg r) = (case snd r of Some (ValueError _) \<Rightarrow> None | _ \<Rightarrow> snd r)"
  by (simp_all add: except_value_error_def split: prod.splits option.splits exc.splits)

lemma add_regular_expense_body_amount:
  assumes "normalize_amount x = normalize_amount y"
  shows "finance_manager (fst (fst (add_regular_expense_body flt hash now (g\<lparr>regular_amount := x\<rparr>, w)))) =
           finance_manager (fst (fst (add_regular_expense_body flt hash now (g\<lparr>regular_amount := y\<rparr>, w)))) \<and>
         snd (fst (add_regular_expense_body flt hash now (g\<lparr>regular_amount := x\<rparr>, w))) =
           snd (fst (add_regular_expense_body flt hash now (g\<lparr>regular_amount := y\<rparr>, w))) \<and>
         snd (add_regular_expense_body flt hash now (g\<lparr>regular_amount := x\<rparr>, w)) =
           snd (add_regular_expense_body flt hash now (g\<lparr>regular_amount := y\<rparr>, w))"
  using assms
  by (simp add: add_regular_expense_body_def Let_def refresh_gui_def case_prod_unfold
      split: sum.splits option.splits)

lemma gui_reachable_run:
  "gui_reachable flt hash s \<Longrightarrow> list_all (\<lambda>p. valid_datetime (fst p)) evs \<Longrightarrow>
   gui_reachable flt hash (gui_run flt hash evs s)"
proof (induction evs arbitrary: s)
  case Nil
  then show ?case by simp
next
  case (Cons p evs)
  then show ?case by (cases p) (simp add: gui_reachable.step)
qed

text \<open>C13: On a machine without a data file and with valid clock readings, the script's main block gets past the constructor and runs every event of any sequence, and the state it reaches is a state of gui_reachable.\<close>

theorem gui_main_starts:
  assumes "\<not> os_path_exists w ''data/gamer_finance.json''" and "valid_datetime now"
    and "list_all (\<lambda>p. valid_datetime (fst p)) evs"
  shows "\<exists>s. gui_main flt hash now w evs = Some (Inr s) \<and> gui_reachable flt hash s"
proof -
  obtain s0 where i: "gui_init hash now w = Some (s0, None)"
    using gui_init_fresh [OF assms(1)] by blast
  then have "gui_reachable flt hash s0"
    by (rule gui_reachable.start [OF assms(1,2)])
  then show ?thesis
    using i assms(3) by (simp add: gui_main_def gui_reachable_run)
qed

lemma add_regular_expense_appends:
  assumes inv: "gui_inv hash g" and amt: "flt (normalize_amount (regular_amount g)) = Some a"
    and pos: "0 < a" and desc: "py_strip (regular_desc g) \<noteq> []"
  shows "expenses (finance_manager (fst (fst (add_regular_expense flt hash now (g, w))))) =
    expenses (finance_manager g) @ [regular_expense_init hash now a (py_strip (regular_desc g)) (regular_category g) None]"
proof -
  have cat: "py_strip (regular_category g) = regular_category g" "regular_category g \<noteq> []"
    using inv by (auto simp: gui_inv_def py_strip_regular_category regular_categories_def)
  show ?thesis
    using amt pos desc cat
    by (simp add: add_regular_expense_def except_value_error_gui add_regular_expense_body_def
        py_float_def Let_def add_expense_state refresh_gui_fst split: option.split)
qed

text \<open>C10: From every state a run can reach, typing 1 into the regular amount entry, x into the description entry and pressing the add button appends exactly one record to the manager (amount 1, description x, the selected category, the current time), whether or not the data file can be written, and the state reached is again reachable.\<close>

theorem gui_can_always_add:
  assumes "gui_reachable flt hash s" and "valid_datetime now" and "flt ''1'' = Some 1"
  shows "gui_reachable flt hash
           (gui_run flt hash [(now, TypeRegularAmount ''1''), (now, TypeRegularDesc ''x''), (now, ClickAddRegular)] s) \<and>
         expenses (finance_manager (fst
           (gui_run flt hash [(now, TypeRegularAmount ''1''), (now, TypeRegularDesc ''x''), (now, ClickAddRegular)] s))) =
         expenses (finance_manager (fst s)) @ [regular_expense_init hash now 1 ''x'' (regular_category (fst s)) None]"
proof -
  obtain g w where s: "s = (g, w)" by (cases s)
  have inv: "gui_inv hash g"
    using gui_reachable_gui_inv [OF assms(1)] s by simp
  have n: "normalize_amount ''1'' = ''1''" "py_strip ''x'' = ''x''"
    by (simp_all add: normalize_amount_def py_remove_def py_strip_def is_py_space_def)
  have "expenses (finance_manager (fst (fst (add_regular_expense flt hash now
          (g\<lparr>regular_amount := ''1'', regular_desc := ''x''\<rparr>, w))))) =
        expenses (finance_manager g) @ [regular_expense_init hash now 1 ''x'' (regular_category g) None]"
    using add_regular_expense_appends [of hash "g\<lparr>regular_amount := ''1'', regular_desc := ''x''\<rparr>" flt 1]
      inv assms(3) n by (simp add: gui_inv_def)
  moreover have "gui_reachable flt hash
           (gui_run flt hash [(now, TypeRegularAmount ''1''), (now, TypeRegularDesc ''x''), (now, ClickAddRegular)] s)"
    by (rule gui_reachable_run [OF assms(1)]) (simp add: assms(2))
  ultimately show ?thesis using s by simp
qed

text \<open>C3: In every state reachable through the window from a first run, every stored record has a non-empty stripped description, a date strptime reads back, an id derived by the running process's hash from its description and date, a category from the regular combobox's list (RegularExpense) or a non-empty game title and an expense type from the gaming combobox's list (GamingExpense). The handlers' checks on the amount are left out: they depend on float(), modelled on integral values only.\<close>

theorem gui_reachable_records_valid:
  "gui_reachable flt hash s \<Longrightarrow>
   \<forall>e \<in> set (expenses (finance_manager (fst s))).
      description (txn e) \<noteq> [] \<and> date_parses e \<and> reloadable hash e \<and>
      (case e of RegularExpense _ c \<Rightarrow> c \<in> set regular_categories
       | GamingExpense _ gt et \<Rightarrow> gt \<noteq> [] \<and> et \<in> set expense_types)"
  by (drule gui_reachable_gui_inv) (auto simp: gui_inv_def valid_record_def list_all_iff)

text \<open>C18: In every reachable state, switching tabs refreshes the window without an exception: every stored date parses, so neither sort in refresh_data raises.\<close>

theorem gui_tab_change_never_raises:
  assumes "gui_reachable flt hash s"
  shows "snd (gui_step flt hash now TabChanged s) = None"
proof -
  have "gui_inv hash (fst s)" using gui_reachable_gui_inv [OF assms] .
  then have "snd (refresh_data now (finance_manager (fst s)) (widgets (fst s))) = None"
    by (intro refresh_data_dates_ok gui_inv_dates)
  then show ?thesis by (simp add: refresh_gui_snd)
qed

text \<open>C17: In every reachable state, when save_data writes the manager without an error, a new process started on the written file (with the same string hash) loads exactly the manager the window holds.\<close>

theorem gui_reachable_save_reload:
  assumes "gui_reachable flt hash (g, w)"
    and "save_data (finance_manager g) w = (w', None)" and "shown w' = shown w"
  shows "load_data hash now (manager_fresh ''data/gamer_finance.json'') w' = Some (finance_manager g, w')"
proof -
  have inv: "gui_inv hash g" using gui_reachable_gui_inv [OF assms(1)] by simp
  then have "list_all (reloadable hash) (expenses (finance_manager g))"
    by (auto simp: gui_inv_def valid_record_def list_all_iff)
  from load_data_after_save [OF this assms(2,3)] inv show ?thesis
    by (simp add: gui_inv_def)
qed

text \<open>C7: add_regular_expense on a valid form (the text parses to a positive amount, the description is not blank) whose save succeeds appends one RegularExpense with the parsed amount, the stripped description, the selected category and the current time, clears the form, resets the category to Food, shows the success message after whatever save_data showed, and raises nothing.\<close>

theorem add_regular_expense_adds:
  assumes inv: "gui_inv hash g" and clk: "valid_datetime now"
    and amt: "flt (normalize_amount (regular_amount g)) = Some a" and pos: "0 < a"
    and desc: "py_strip (regular_desc g) \<noteq> []"
    and sv: "save_data ((finance_manager g)\<lparr>expenses := expenses (finance_manager g) @
               [regular_expense_init hash now a (py_strip (regular_desc g)) (regular_category g) None]\<rparr>) w
             = (w1, None)"
  shows "snd (add_regular_expense flt hash now (g, w)) = None \<and>
    expenses (finance_manager (fst (fst (add_regular_expense flt hash now (g, w))))) =
      expenses (finance_manager g) @
        [RegularExpense \<lparr>amount = a, description = py_strip (regular_desc g), date = strftime_full now,
           id' = strftime_full now @ ''_'' @ str_of_int (hash (py_strip (regular_desc g)))\<rparr>
         (regular_category g)] \<and>
    regular_amount (fst (fst (add_regular_expense flt hash now (g, w)))) = [] \<and>
    regular_desc (fst (fst (add_regular_expense flt hash now (g, w)))) = [] \<and>
    regular_category (fst (fst (add_regular_expense flt hash now (g, w)))) = ''Food'' \<and>
    shown (snd (fst (add_regular_expense flt hash now (g, w)))) =
      shown w1 @ [ShowInfo ''Success'' '' Regular expense added successfully!'']"
proof -
  let ?r = "regular_expense_init hash now a (py_strip (regular_desc g)) (regular_category g) None"
  let ?g1 = "g\<lparr>finance_manager := (finance_manager g)\<lparr>expenses := expenses (finance_manager g) @ [?r]\<rparr>\<rparr>"
  have cat: "py_strip (regular_category g) = regular_category g" "regular_category g \<noteq> []"
    using inv by (auto simp: gui_inv_def py_strip_regular_category regular_categories_def)
  have "valid_record hash ?r"
    using inv clk pos desc by (auto simp: gui_inv_def intro: valid_record_regular_init)
  then have "gui_inv hash ?g1" using inv by (rule gui_inv_append [rotated])
  then have "snd (refresh_data now (finance_manager ?g1) v) = None" for v
    by (intro refresh_data_dates_ok gui_inv_dates)
  then obtain v' where rd: "refresh_data now (finance_manager ?g1) (widgets g) = (v', None)"
    by (metis prod.collapse)
  show ?thesis
    using amt pos desc cat sv rd
    by (simp add: add_regular_expense_def add_regular_expense_body_def except_value_error_def
        py_float_def Let_def add_expense_state refresh_gui_def show_info_def regular_expense_init_def
        transaction_init_def)
qed

text \<open>C25: add_regular_expense on an amount text float() rejects changes nothing but the message boxes: it shows the numeric-amount error and raises nothing.\<close>

theorem add_regular_expense_bad_amount:
  "flt (normalize_amount (regular_amount g)) = None \<Longrightarrow>
   add_regular_expense flt hash now (g, w) =
     ((g, show_error w ''Input Error'' ''Please enter a valid numeric amount for regular expense.''), None)"
  by (simp add: add_regular_expense_def add_regular_expense_body_def except_value_error_def py_float_def)

text \<open>C24: add_regular_expense with a blank description or a non-positive amount changes nothing but the message boxes: it shows the fields error and stores nothing.\<close>

theorem add_regular_expense_rejects:
  "flt (normalize_amount (regular_amount g)) = Some a \<Longrightarrow> py_strip (regular_desc g) = [] \<or> a \<le> 0 \<Longrightarrow>
   add_regular_expense flt hash now (g, w) =
     ((g, show_error w ''Input Error''
            ''Please ensure all fields are filled correctly and amount is positive.''), None)"
  by (auto simp: add_regular_expense_def add_regular_expense_body_def except_value_error_def
      py_float_def Let_def)

text \<open>C26: save_budget_settings with a negative budget changes nothing but the message boxes: it shows the negative-budget error and the manager keeps its budgets.\<close>

theorem save_budget_settings_rejects_negative:
  "flt (normalize_amount (monthly_budget_entry g)) = Some mb \<Longrightarrow>
   flt (normalize_amount (gaming_budget_entry g)) = Some gb \<Longrightarrow> mb < 0 \<or> gb < 0 \<Longrightarrow>
   save_budget_settings flt now (g, w) =
     ((g, show_error w ''Input Error'' ''Budgets cannot be negative.''), None)"
  by (auto simp: save_budget_settings_def save_budget_settings_body_def except_value_error_def
      py_float_def)

text \<open>C27: The budget entries as the constructor fills them, f"{budget:,.0f}", read back through the handler's normalisation and float() to the same budget, so saving the settings unedited stores the budgets the manager had.\<close>

theorem budget_entries_roundtrip:
  assumes "monthly_budget_entry g = fmt_thousands mb" and "gaming_budget_entry g = fmt_thousands gb"
    and "0 \<le> mb" and "0 \<le> gb"
  shows "monthly_budget (finance_manager (fst (fst (save_budget_settings py_float_int now (g, w))))) = mb \<and>
         gaming_budget (finance_manager (fst (fst (save_budget_settings py_float_int now (g, w))))) = gb"
  using assms
  by (simp add: save_budget_settings_def except_value_error_gui save_budget_settings_body_def
      py_float_def normalize_amount_fmt_thousands py_float_int_str_of_int set_budgets_def Let_def
      case_prod_unfold refresh_gui_fst split: option.splits)

text \<open>C30: The amount handlers drop every decimal point from the text before float(): a point anywhere in the amount is ignored, so 12.50 and 1250 store the same record and leave the same manager, message boxes and exception.\<close>

theorem add_regular_expense_ignores_point:
  "finance_manager (fst (fst (add_regular_expense flt hash now (g\<lparr>regular_amount := a @ CHR ''.'' # b\<rparr>, w)))) =
     finance_manager (fst (fst (add_regular_expense flt hash now (g\<lparr>regular_amount := a @ b\<rparr>, w)))) \<and>
   snd (fst (add_regular_expense flt hash now (g\<lparr>regular_amount := a @ CHR ''.'' # b\<rparr>, w))) =
     snd (fst (add_regular_expense flt hash now (g\<lparr>regular_amount := a @ b\<rparr>, w))) \<and>
   snd (add_regular_expense flt hash now (g\<lparr>regular_amount := a @ CHR ''.'' # b\<rparr>, w)) =
     snd (add_regular_expense flt hash now (g\<lparr>regular_amount := a @ b\<rparr>, w))"
proof -
  note eqs = add_regular_expense_body_amount [of "a @ CHR ''.'' # b" "a @ b" flt hash now g w,
      OF normalize_amount_point]
  show ?thesis
    unfolding add_regular_expense_def except_value_error_gui except_value_error_parts
    using eqs by (simp only:)
qed

text \<open>C29: A data file that load_data accepts but that holds a record whose date strptime rejects makes the window's constructor raise ValueError from refresh_data: the program does not start.\<close>

theorem gui_init_bad_date_raises:
  assumes "gfm_init hash now ''data/gamer_finance.json'' w = Some (m, w1)"
    and "e \<in> set (expenses m)" and "\<not> date_parses e"
  shows "\<exists>s msg. gui_init hash now w = Some (s, Some (ValueError msg))"
proof -
  obtain msg where "py_sorted_desc expense_date_key (expenses m) = Inl (ValueError msg)"
    using py_sorted_desc_date_Inl [OF assms(2,3)] by blast
  then show ?thesis
    using assms(1) by (simp add: gui_init_def refresh_gui_def refresh_data_def Let_def)
qed

lemma example_save_fresh:
  "save_data (manager_fresh ''data/gamer_finance.json'') example_world =
     (example_world\<lparr>files := [''data/gamer_finance.json'' \<mapsto>
        JsonText (manager_to_json (manager_fresh ''data/gamer_finance.json''))], dirs := {''data''}\<rparr>, None)"
  by (simp add: save_data_def example_world_def os_makedirs_top os_path_dirname_def write_json_def
      os_path_exists_def)

theorem gui_reachable_records_valid_witness:
  "gui_reachable py_float_int example_hash
     (gui_run py_float_int example_hash
        [(example_now, TypeRegularAmount ''1''), (example_now, TypeRegularDesc ''x''),
         (example_now, ClickAddRegular)] (example_gui, example_world)) \<and>
   list_all (\<lambda>e. description (txn e) \<noteq> [] \<and> date_parses e \<and> reloadable example_hash e \<and>
      (case e of RegularExpense _ c \<Rightarrow> c \<in> set regular_categories
       | GamingExpense _ gt et \<Rightarrow> gt \<noteq> [] \<and> et \<in> set expense_types))
     (expenses (finance_manager (fst (gui_run py_float_int example_hash
        [(example_now, TypeRegularAmount ''1''), (example_now, TypeRegularDesc ''x''),
         (example_now, ClickAddRegular)] (example_gui, example_world)))))"
proof -
  have r: "gui_reachable py_float_int example_hash
     (gui_run py_float_int example_hash
        [(example_now, TypeRegularAmount ''1''), (example_now, TypeRegularDesc ''x''),
         (example_now, ClickAddRegular)] (example_gui, example_world))"
    by (rule gui_reachable_run [OF example_gui_reachable]) (simp add: example_now_valid)
  show ?thesis
    unfolding list_all_iff using r gui_reachable_records_valid [OF r] by (rule conjI)
qed

theorem gui_tab_change_never_raises_witness:
  "gui_reachable py_float_int example_hash (example_gui, example_world) \<and>
   snd (gui_step py_float_int example_hash example_now TabChanged (example_gui, example_world)) = None"
  using example_gui_reachable gui_tab_change_never_raises [OF example_gui_reachable] by simp

theorem gui_reachable_save_reload_witness:
  "gui_reachable py_float_int example_hash (example_gui, example_world) \<and>
   save_data (finance_manager example_gui) example_world =
     (fst (save_data (finance_manager example_gui) example_world), None) \<and>
   shown (fst (save_data (finance_manager example_gui) example_world)) = shown example_world \<and>
   load_data example_hash example_now (manager_fresh ''data/gamer_finance.json'')
     (fst (save_data (finance_manager example_gui) example_world)) =
   Some (finance_manager example_gui, fst (save_data (finance_manager example_gui) example_world))"
proof -
  have s: "save_data (finance_manager example_gui) example_world =
     (fst (save_data (finance_manager example_gui) example_world), None)"
    and sh: "shown (fst (save_data (finance_manager example_gui) example_world)) = shown example_world"
    by (simp_all add: example_gui_fields example_save_fresh)
  show ?thesis
    using example_gui_reachable s sh gui_reachable_save_reload [OF example_gui_reachable s sh] by simp
qed

lemma py_float_int_examples:
  "py_float_int (normalize_amount ''50000'') = Some 50000"
  "py_float_int (normalize_amount ''abc'') = None"
  "py_float_int (normalize_amount ''-5'') = Some (-5)"
  "py_float_int (normalize_amount ''-1'') = Some (-1)"
  "py_float_int (normalize_amount ''0'') = Some 0"
  by (simp_all add: py_float_int_def normalize_amount_def py_remove_def py_strip_def is_py_space_def
      is_digit_def nat_of_digits_def digit_val_def)

theorem add_regular_expense_bad_amount_witness:
  "py_float_int (normalize_amount (regular_amount (example_gui\<lparr>regular_amount := ''abc''\<rparr>))) = None \<and>
   add_regular_expense py_float_int example_hash example_now (example_gui\<lparr>regular_amount := ''abc''\<rparr>, example_world) =
     ((example_gui\<lparr>regular_amount := ''abc''\<rparr>, show_error example_world ''Input Error''
        ''Please enter a valid numeric amount for regular expense.''), None)"
proof -
  have h: "py_float_int (normalize_amount (regular_amount (example_gui\<lparr>regular_amount := ''abc''\<rparr>))) = None"
    by (simp add: py_float_int_examples)
  show ?thesis using h add_regular_expense_bad_amount [where flt = py_float_int and g = "example_gui\<lparr>regular_amount := ''abc''\<rparr>", OF h] by simp
qed

theorem add_regular_expense_rejects_witness:
  "py_float_int (normalize_amount (regular_amount (example_gui\<lparr>regular_amount := ''-5''\<rparr>))) = Some (-5) \<and>
   (py_strip (regular_desc (example_gui\<lparr>regular_amount := ''-5''\<rparr>)) = [] \<or> (-5::int) \<le> 0) \<and>
   add_regular_expense py_float_int example_hash example_now (example_gui\<lparr>regular_amount := ''-5''\<rparr>, example_world) =
     ((example_gui\<lparr>regular_amount := ''-5''\<rparr>, show_error example_world ''Input Error''
        ''Please ensure all fields are filled correctly and amount is positive.''), None)"
proof -
  have h1: "py_float_int (normalize_amount (regular_amount (example_gui\<lparr>regular_amount := ''-5''\<rparr>))) = Some (-5)"
    by (simp add: py_float_int_examples)
  have h2: "py_strip (regular_desc (example_gui\<lparr>regular_amount := ''-5''\<rparr>)) = [] \<or> (-5::int) \<le> 0"
    by simp
  show ?thesis using h1 h2 add_regular_expense_rejects [where flt = py_float_int and g = "example_gui\<lparr>regular_amount := ''-5''\<rparr>", OF h1 h2] by simp
qed

theorem save_budget_settings_rejects_negative_witness:
  "py_float_int (normalize_amount (monthly_budget_entry (example_gui\<lparr>monthly_budget_entry := ''-1'', gaming_budget_entry := ''0''\<rparr>))) = Some (-1) \<and>
   py_float_int (normalize_amount (gaming_budget_entry (example_gui\<lparr>monthly_budget_entry := ''-1'', gaming_budget_entry := ''0''\<rparr>))) = Some 0 \<and>
   ((-1::int) < 0 \<or> (0::int) < 0) \<and>
   save_budget_settings py_float_int example_now
     (example_gui\<lparr>monthly_budget_entry := ''-1'', gaming_budget_entry := ''0''\<rparr>, example_world) =
     ((example_gui\<lparr>monthly_budget_entry := ''-1'', gaming_budget_entry := ''0''\<rparr>,
       show_error example_world ''Input Error'' ''Budgets cannot be negative.''), None)"
proof -
  have h1: "py_float_int (normalize_amount (monthly_budget_entry (example_gui\<lparr>monthly_budget_entry := ''-1'', gaming_budget_entry := ''0''\<rparr>))) = Some (-1)"
    and h2: "py_float_int (normalize_amount (gaming_budget_entry (example_gui\<lparr>monthly_budget_entry := ''-1'', gaming_budget_entry := ''0''\<rparr>))) = Some 0"
    by (simp_all add: py_float_int_examples)
  have h3: "(-1::int) < 0 \<or> (0::int) < 0" by simp
  show ?thesis using h1 h2 h3 save_budget_settings_rejects_negative [where flt = py_float_int and g = "example_gui\<lparr>monthly_budget_entry := ''-1'', gaming_budget_entry := ''0''\<rparr>", OF h1 h2 h3] by simp
qed

theorem budget_entries_roundtrip_witness:
  "monthly_budget_entry (example_gui\<lparr>monthly_budget_entry := fmt_thousands 1000000,
      gaming_budget_entry := fmt_thousands 300000\<rparr>) = fmt_thousands 1000000 \<and>
   gaming_budget_entry (example_gui\<lparr>monthly_budget_entry := fmt_thousands 1000000,
      gaming_budget_entry := fmt_thousands 300000\<rparr>) = fmt_thousands 300000 \<and>
   (0::int) \<le> 1000000 \<and> (0::int) \<le> 300000 \<and>
   monthly_budget (finance_manager (fst (fst (save_budget_settings py_float_int example_now
     (example_gui\<lparr>monthly_budget_entry := fmt_thousands 1000000,
        gaming_budget_entry := fmt_thousands 300000\<rparr>, example_world))))) = 1000000 \<and>
   gaming_budget (finance_manager (fst (fst (save_budget_settings py_float_int example_now
     (example_gui\<lparr>monthly_budget_entry := fmt_thousands 1000000,
        gaming_budget_entry := fmt_thousands 300000\<rparr>, example_world))))) = 300000"
proof -
  have h1: "monthly_budget_entry (example_gui\<lparr>monthly_budget_entry := fmt_thousands 1000000,
      gaming_budget_entry := fmt_thousands 300000\<rparr>) = fmt_thousands 1000000"
    and h2: "gaming_budget_entry (example_gui\<lparr>monthly_budget_entry := fmt_thousands 1000000,
      gaming_budget_entry := fmt_thousands 300000\<rparr>) = fmt_thousands 300000"
    by simp_all
  have h3: "(0::int) \<le> 1000000" and h4: "(0::int) \<le> 300000" by simp_all
  show ?thesis using h1 h2 h3 h4 budget_entries_roundtrip [OF h1 h2 h3 h4] by simp
qed

lemma example_bad_load:
  "gfm_init example_hash example_now ''data/gamer_finance.json'' example_bad_world =
     Some ((manager_fresh ''data/gamer_finance.json'')\<lparr>expenses := [example_bad_record]\<rparr>, example_bad_world)"
proof -
  have r: "list_all (reloadable example_hash)
             (expenses ((manager_fresh ''data/gamer_finance.json'')\<lparr>expenses := [example_bad_record]\<rparr>))"
    by (simp add: example_bad_record_def reloadable_def regular_expense_init_def transaction_init_def)
  have d: "data_file (manager_fresh ''data/gamer_finance.json'') \<notin> dirs example_bad_world"
    and f: "files example_bad_world (data_file (manager_fresh ''data/gamer_finance.json'')) =
      Some (JsonText (manager_to_json ((manager_fresh ''data/gamer_finance.json'')\<lparr>expenses := [example_bad_record]\<rparr>)))"
    by (simp_all add: example_bad_world_def example_world_def)
  have e: "os_path_exists example_bad_world ''data/gamer_finance.json''"
    by (simp add: os_path_exists_def example_bad_world_def)
  show ?thesis
    using load_body_manager_to_json [OF r d f, of example_now] e
    by (simp add: gfm_init_def load_data_def)
qed

lemma example_bad_record_date: "\<not> date_parses example_bad_record"
  by (simp add: example_bad_record_def date_parses_def regular_expense_init_def transaction_init_def
      py_strptime_def strptime_matches_def chr_rng_def)

theorem gui_init_bad_date_raises_witness:
  "gfm_init example_hash example_now ''data/gamer_finance.json'' example_bad_world =
     Some ((manager_fresh ''data/gamer_finance.json'')\<lparr>expenses := [example_bad_record]\<rparr>, example_bad_world) \<and>
   example_bad_record \<in> set (expenses ((manager_fresh ''data/gamer_finance.json'')\<lparr>expenses := [example_bad_record]\<rparr>)) \<and>
   \<not> date_parses example_bad_record \<and>
   (\<exists>s msg. gui_init example_hash example_now example_bad_world = Some (s, Some (ValueError msg)))"
proof -
  have h2: "example_bad_record \<in> set (expenses ((manager_fresh ''data/gamer_finance.json'')\<lparr>expenses := [example_bad_record]\<rparr>))"
    by simp
  show ?thesis
    using example_bad_load h2 example_bad_record_date
      gui_init_bad_date_raises [OF example_bad_load h2 example_bad_record_date] by simp
qed

theorem add_regular_expense_adds_witness:
  "gui_inv example_hash example_form \<and> valid_datetime example_now \<and>
   py_float_int (normalize_amount (regular_amount example_form)) = Some 50000 \<and> (0::int) < 50000 \<and>
   py_strip (regular_desc example_form) \<noteq> [] \<and>
   save_data ((finance_manager example_form)\<lparr>expenses := expenses (finance_manager example_form) @
       [regular_expense_init example_hash example_now 50000 (py_strip (regular_desc example_form))
          (regular_category example_form) None]\<rparr>) example_world =
     (fst (save_data ((finance_manager example_form)\<lparr>expenses := expenses (finance_manager example_form) @
       [regular_expense_init example_hash example_now 50000 (py_strip (regular_desc example_form))
          (regular_category example_form) None]\<rparr>) example_world), None) \<and>
   snd (add_regular_expense py_float_int example_hash example_now (example_form, example_world)) = None \<and>
   expenses (finance_manager (fst (fst (add_regular_expense py_float_int example_hash example_now
       (example_form, example_world))))) =
     expenses (finance_manager example_form) @
       [RegularExpense \<lparr>amount = 50000, description = py_strip (regular_desc example_form),
          date = strftime_full example_now,
          id' = strftime_full example_now @ ''_'' @ str_of_int (example_hash (py_strip (regular_desc example_form)))\<rparr>
        (regular_category example_form)] \<and>
   regular_amount (fst (fst (add_regular_expense py_float_int example_hash example_now (example_form, example_world)))) = [] \<and>
   regular_desc (fst (fst (add_regular_expense py_float_int example_hash example_now (example_form, example_world)))) = [] \<and>
   regular_category (fst (fst (add_regular_expense py_float_int example_hash example_now (example_form, example_world)))) = ''Food'' \<and>
   shown (snd (fst (add_regular_expense py_float_int example_hash example_now (example_form, example_world)))) =
     shown (fst (save_data ((finance_manager example_form)\<lparr>expenses := expenses (finance_manager example_form) @
       [regular_expense_init example_hash example_now 50000 (py_strip (regular_desc example_form))
          (regular_category example_form) None]\<rparr>) example_world)) @
     [ShowInfo ''Success'' '' Regular expense added successfully!'']"
proof -
  have h1: "gui_inv example_hash example_form"
    using example_gui_fields(2) by (simp add: example_form_def gui_inv_def)
  have h3: "py_float_int (normalize_amount (regular_amount example_form)) = Some 50000"
    by (simp add: example_form_def py_float_int_def normalize_amount_def py_remove_def py_strip_def
        is_py_space_def is_digit_def nat_of_digits_def digit_val_def)
  have h4: "(0::int) < 50000" by simp
  have h5: "py_strip (regular_desc example_form) \<noteq> []"
    by (simp add: example_form_def py_strip_def is_py_space_def)
  let ?m = "(finance_manager example_form)\<lparr>expenses := expenses (finance_manager example_form) @
       [regular_expense_init example_hash example_now 50000 (py_strip (regular_desc example_form))
          (regular_category example_form) None]\<rparr>"
  have "snd (save_data ?m example_world) = None"
    by (rule save_data_no_exc [of example_world ?m "example_world\<lparr>dirs := {''data''}\<rparr>"])
      (simp add: example_form_def example_gui_fields os_path_dirname_def example_world_def os_makedirs_top)
  then have h6: "save_data ?m example_world = (fst (save_data ?m example_world), None)"
    by (simp add: prod_eq_iff)
  show ?thesis
    using h1 example_now_valid h3 h4 h5 h6 add_regular_expense_adds [where flt = py_float_int, OF h1 example_now_valid h3 h4 h5 h6]
    by simp
qed

theorem gui_main_starts_witness:
  "\<not> os_path_exists example_world ''data/gamer_finance.json'' \<and> valid_datetime example_now \<and>
   list_all (\<lambda>p. valid_datetime (fst p)) [(example_now, TabChanged)] \<and>
   (\<exists>s. gui_main py_float_int example_hash example_now example_world [(example_now, TabChanged)] = Some (Inr s) \<and>
     gui_reachable py_float_int example_hash s)"
  using gui_main_starts [OF example_world_fresh example_now_valid, of "[(example_now, TabChanged)]"]
    example_world_fresh example_now_valid by simp

theorem gui_can_always_add_witness:
  "gui_reachable py_float_int example_hash (example_gui, example_world) \<and> valid_datetime example_now \<and>
   py_float_int ''1'' = Some 1 \<and>
   expenses (finance_manager (fst (gui_run py_float_int example_hash
       [(example_now, TypeRegularAmount ''1''), (example_now, TypeRegularDesc ''x''), (example_now, ClickAddRegular)]
       (example_gui, example_world)))) =
     [regular_expense_init example_hash example_now 1 ''x'' ''Food'' None]"
proof -
  have f: "py_float_int ''1'' = Some 1"
    by (simp add: py_float_int_def py_strip_def is_py_space_def is_digit_def nat_of_digits_def digit_val_def)
  have c: "regular_category example_gui = ''Food''"
    by (rule example_gui_fields(3))
  show ?thesis
    using gui_can_always_add [OF example_gui_reachable example_now_valid f] f c
      example_gui_reachable example_now_valid example_gui_fields(1) by simp
qed

end
