(* ===== verification/Tracker.thy ===== *)
theory Tracker
  imports Aggregation
begin

text \<open>
  The abstract base class \<open>ExpenseTracker\<close> (\<^verbatim>\<open>src/models/expense_tracker.py\<close>)
  as an interface: a record of its four abstract methods over a state type
  \<open>'s\<close>. What an implementation promises is \<open>tracker_contract\<close>; clients reason
  with the contract only (\<open>et_add_all\<close> and its lemma hold for every implementation),
  and \<open>GamerFinanceManager\<close> (\<open>gfm_tracker\<close>, over manager and world at one clock
  reading) is shown to meet it.
\<close>

section \<open>The interface and its contract\<close>

record 's expense_tracker =
  et_add_expense :: "int \<Rightarrow> string \<Rightarrow> string \<Rightarrow> 's \<Rightarrow> 's \<times> exc option"
  et_get_expenses_by_category :: "string \<Rightarrow> 's \<Rightarrow> json list"
  et_get_monthly_spending :: "'s \<Rightarrow> monthly"
  et_save_data :: "'s \<Rightarrow> 's \<times> exc option"

text \<open>The value of a key of a JSON object.\<close>

definition json_field :: "json \<Rightarrow> string \<Rightarrow> json option" where
  "json_field j k = (case j of JObj d \<Rightarrow> dict_lookup d k | _ \<Rightarrow> None)"

text \<open>The contract: \<open>add_expense(a, d, c)\<close> appends one record with that amount,
  description and category to the list of its category and to no other, and adds
  the amount to this month's bucket of the category (the record is dated now),
  whatever the save did; \<open>save_data\<close> changes no query.\<close>

definition tracker_contract :: "'s expense_tracker \<Rightarrow> bool" where
  "tracker_contract T \<longleftrightarrow>
     (\<forall>a d c s.
        (\<exists>r. et_get_expenses_by_category T c (fst (et_add_expense T a d c s)) =
               et_get_expenses_by_category T c s @ [r] \<and>
             json_field r ''amount'' = Some (JNum a) \<and> json_field r ''description'' = Some (JStr d) \<and>
             json_field r ''category'' = Some (JStr c)) \<and>
        (\<forall>c'. c' \<noteq> c \<longrightarrow>
           et_get_expenses_by_category T c' (fst (et_add_expense T a d c s)) =
           et_get_expenses_by_category T c' s) \<and>
        et_get_monthly_spending T (fst (et_add_expense T a d c s)) =
          (if c = ''gaming''
           then (et_get_monthly_spending T s)\<lparr>sp_gaming := sp_gaming (et_get_monthly_spending T s) + a\<rparr>
           else (et_get_monthly_spending T s)\<lparr>sp_other := sp_other (et_get_monthly_spending T s) + a\<rparr>)) \<and>
     (\<forall>c s. et_get_expenses_by_category T c (fst (et_save_data T s)) = et_get_expenses_by_category T c s \<and>
            et_get_monthly_spending T (fst (et_save_data T s)) = et_get_monthly_spending T s)"

text \<open>A client: add a batch of records, one call after the other.\<close>

fun et_add_all :: "'s expense_tracker \<Rightarrow> (int \<times> string \<times> string) list \<Rightarrow> 's \<Rightarrow> 's" where
  "et_add_all T [] s = s"
| "et_add_all T ((a, d, c) # xs) s = et_add_all T xs (fst (et_add_expense T a d c s))"

section \<open>The manager as an implementation\<close>

text \<open>\<open>class GamerFinanceManager(ExpenseTracker)\<close>: its four methods at one clock
  reading, over the manager and the world.\<close>

definition gfm_tracker :: "py_hash \<Rightarrow> datetime \<Rightarrow> sys expense_tracker" where
  "gfm_tracker hash now =
     \<lparr>et_add_expense = add_expense hash now,
      et_get_expenses_by_category = (\<lambda>c s. get_expenses_by_category c (fst s)),
      et_get_monthly_spending = (\<lambda>s. get_monthly_spending now (fst s)),
      et_save_data = (\<lambda>s. case save_data (fst s) (snd s) of (w, e) \<Rightarrow> ((fst s, w), e))\<rparr>"

section \<open>Lemmas\<close>

lemma json_field_regular:
  "json_field (JObj (transaction_to_dict t @ [(''category'', JStr c)])) ''amount'' = Some (JNum (amount t))"
  "json_field (JObj (transaction_to_dict t @ [(''category'', JStr c)])) ''description'' = Some (JStr (description t))"
  "json_field (JObj (transaction_to_dict t @ [(''category'', JStr c)])) ''category'' = Some (JStr c)"
  by (simp_all add: json_field_def dict_lookup_def transaction_to_dict_def)

lemma gfm_add_by_category:
  "get_expenses_by_category c' (fst (fst (add_expense hash now a d c s))) =
     get_expenses_by_category c' (fst s) @
       (if c' = c then [JObj (expense_to_dict (regular_expense_init hash now a d c None))] else [])"
  by (simp add: add_expense_state get_expenses_by_category_def regular_expense_init_def)

lemma gfm_add_monthly:
  "get_monthly_spending now (fst (fst (add_expense hash now a d c s))) =
     (if c = ''gaming''
      then (get_monthly_spending now (fst s))\<lparr>sp_gaming := sp_gaming (get_monthly_spending now (fst s)) + a\<rparr>
      else (get_monthly_spending now (fst s))\<lparr>sp_other := sp_other (get_monthly_spending now (fst s)) + a\<rparr>)"
  using strftime_full_ym [of now]
  by (simp add: add_expense_state get_monthly_spending_sums in_month_def regular_expense_init_def
      date_transaction_init expense_amount_def)

lemmas gfm_tracker_parts = gfm_add_by_category gfm_add_monthly json_field_regular

lemma contract_add_monthly:
  "tracker_contract T \<Longrightarrow>
   et_get_monthly_spending T (fst (et_add_expense T a d c s)) =
     (if c = ''gaming''
      then (et_get_monthly_spending T s)\<lparr>sp_gaming := sp_gaming (et_get_monthly_spending T s) + a\<rparr>
      else (et_get_monthly_spending T s)\<lparr>sp_other := sp_other (et_get_monthly_spending T s) + a\<rparr>)"
  by (simp add: tracker_contract_def)

lemma contract_add_by_category:
  "tracker_contract T \<Longrightarrow>
   \<exists>r. et_get_expenses_by_category T c (fst (et_add_expense T a d c s)) =
        et_get_expenses_by_category T c s @ [r]"
  "tracker_contract T \<Longrightarrow> c' \<noteq> c \<Longrightarrow>
   et_get_expenses_by_category T c' (fst (et_add_expense T a d c s)) = et_get_expenses_by_category T c' s"
  by (simp_all add: tracker_contract_def) blast

lemma contract_add_by_category_length:
  "tracker_contract T \<Longrightarrow>
   length (et_get_expenses_by_category T c' (fst (et_add_expense T a d c s))) =
     length (et_get_expenses_by_category T c' s) + (if c' = c then 1 else 0)"
  using contract_add_by_category(1) [of T c a d s] contract_add_by_category(2) [of T c' c a d s]
  by (cases "c' = c") auto

text \<open>For every implementation of the ExpenseTracker contract, adding a batch of records one after the other adds the sum of the gaming amounts to this month's gaming bucket and the sum of the others to the other bucket, and lengthens each category's list by the number of records of that category.\<close>

lemma et_add_all_spec:
  assumes "tracker_contract T"
  shows "et_get_monthly_spending T (et_add_all T xs s) =
           (et_get_monthly_spending T s)\<lparr>
              sp_gaming := sp_gaming (et_get_monthly_spending T s) +
                sum_list (map fst (filter (\<lambda>(a, d, c). c = ''gaming'') xs)),
              sp_other := sp_other (et_get_monthly_spending T s) +
                sum_list (map fst (filter (\<lambda>(a, d, c). c \<noteq> ''gaming'') xs))\<rparr> \<and>
         length (et_get_expenses_by_category T c' (et_add_all T xs s)) =
           length (et_get_expenses_by_category T c' s) + length (filter (\<lambda>(a, d, c). c = c') xs)"
proof (induction xs arbitrary: s)
  case Nil
  then show ?case by simp
next
  case (Cons x xs)
  obtain a d c where x: "x = (a, d, c)" by (cases x) auto
  show ?case
    using Cons.IH [of "fst (et_add_expense T a d c s)"]
      contract_add_monthly [OF assms, of a d c s] contract_add_by_category_length [OF assms, of c' a d c s]
    by (simp add: x)
qed

text \<open>C16: ExpenseTracker refinement: GamerFinanceManager, over manager and world at one clock reading, meets the ExpenseTracker contract. add_expense appends one record with the given amount, description and category to that category's list and to no other, and adds the amount to this month's bucket of the category, whatever the save did. save_data changes no query.\<close>

theorem gfm_tracker_contract: "tracker_contract (gfm_tracker hash now)"
  unfolding tracker_contract_def
  by (simp add: gfm_tracker_def gfm_tracker_parts regular_expense_init_def transaction_init_def
      Let_def case_prod_unfold)

text \<open>C23: GamerFinanceManager's add_expense called on a batch of records one after the other: this month's gaming bucket grows by the sum of the gaming amounts and the other bucket by the sum of the others, and each category's list is extended by exactly the records of that category, in the order of the batch, each built by RegularExpense from its amount, description and category at the clock reading.\<close>

theorem gfm_add_all:
  "get_monthly_spending now (fst (et_add_all (gfm_tracker hash now) xs s)) =
     (get_monthly_spending now (fst s))\<lparr>
        sp_gaming := sp_gaming (get_monthly_spending now (fst s)) +
          sum_list (map fst (filter (\<lambda>(a, d, c). c = ''gaming'') xs)),
        sp_other := sp_other (get_monthly_spending now (fst s)) +
          sum_list (map fst (filter (\<lambda>(a, d, c). c \<noteq> ''gaming'') xs))\<rparr> \<and>
   get_expenses_by_category c' (fst (et_add_all (gfm_tracker hash now) xs s)) =
     get_expenses_by_category c' (fst s) @
       map (\<lambda>(a, d, c). JObj (expense_to_dict (regular_expense_init hash now a d c None)))
         (filter (\<lambda>(a, d, c). c = c') xs)"
proof (induction xs arbitrary: s)
  case Nil
  then show ?case by simp
next
  case (Cons x xs)
  obtain a d c where x: "x = (a, d, c)" by (cases x) auto
  show ?case
    using Cons.IH [of "fst (add_expense hash now a d c s)"]
    by (simp add: x gfm_tracker_def gfm_add_monthly gfm_add_by_category)
qed

theorem gfm_tracker_contract_witness: "tracker_contract (gfm_tracker example_hash example_now)"
  by (rule gfm_tracker_contract)

end
