(* ===== verification/Schema.thy ===== *)
theory Schema
  imports Persistence
begin

text \<open>
  The persisted document of the specification's external interface (section 6),
  as an executable schema over JSON values, with the key names the code writes
  (\<open>monthly_budget\<close>, \<open>gaming_budget\<close>, \<open>expenses\<close>, and per entry \<open>id\<close>,
  \<open>amount\<close>, \<open>description\<close>, \<open>date\<close>, \<open>category\<close>, \<open>game_title\<close>,
  \<open>expense_type\<close>). The lemmas show which managers \<open>save_data\<close> writes as a
  document of this schema, and that \<open>load_data\<close> reads every such document without
  an exception.
\<close>

section \<open>The schema\<close>

fun json_is_str :: "json option \<Rightarrow> bool" where
  "json_is_str (Some (JStr _)) = True"
| "json_is_str _ = False"

fun json_is_nonneg :: "json option \<Rightarrow> bool" where
  "json_is_nonneg (Some (JNum n)) = (0 \<le> n)"
| "json_is_nonneg _ = False"

fun json_is_num :: "json option \<Rightarrow> bool" where
  "json_is_num (Some (JNum _)) = True"
| "json_is_num _ = False"

text \<open>An entry: the five common fields; an entry whose category is \<open>gaming\<close>
  also carries the title and the expense type, any other entry neither.\<close>

fun entry_ok :: "json \<Rightarrow> bool" where
  "entry_ok (JObj d) =
     (json_is_str (dict_lookup d ''id'') \<and> json_is_num (dict_lookup d ''amount'') \<and>
      json_is_str (dict_lookup d ''description'') \<and> json_is_str (dict_lookup d ''date'') \<and>
      (case dict_lookup d ''category'' of
         Some (JStr c) \<Rightarrow>
           (if c = ''gaming''
            then json_is_str (dict_lookup d ''game_title'') \<and> json_is_str (dict_lookup d ''expense_type'')
            else dict_lookup d ''game_title'' = None \<and> dict_lookup d ''expense_type'' = None)
       | _ \<Rightarrow> False))"
| "entry_ok _ = False"

text \<open>The document: two non-negative budgets and the ordered list of entries.\<close>

fun document_ok :: "json \<Rightarrow> bool" where
  "document_ok (JObj d) =
     (json_is_nonneg (dict_lookup d ''monthly_budget'') \<and> json_is_nonneg (dict_lookup d ''gaming_budget'') \<and>
      (case dict_lookup d ''expenses'' of Some (JArr xs) \<Rightarrow> list_all entry_ok xs | _ \<Rightarrow> False))"
| "document_ok _ = False"

text \<open>An expense whose category attribute names its class.\<close>

definition tag_matches :: "expense \<Rightarrow> bool" where
  "tag_matches e \<longleftrightarrow> (category e = ''gaming'') = is_gaming_instance e"

text \<open>A data file written by hand or by another version: a stale id, and a
  regular entry without the gaming fields.\<close>

definition example_document :: json where
  "example_document =
     JObj [(''monthly_budget'', JNum 500000), (''gaming_budget'', JNum 0),
           (''expenses'', JArr [JObj [(''id'', JStr ''old-id''), (''amount'', JNum 15000),
              (''description'', JStr ''Bus''), (''date'', JStr ''2025-03-01 08:00:00''),
              (''category'', JStr ''Transportation'')]])]"

definition example_document_world :: world where
  "example_document_world = example_world\<lparr>files := [''data/gamer_finance.json'' \<mapsto> JsonText example_document]\<rparr>"

section \<open>Lemmas\<close>

lemma entry_ok_to_dict: "entry_ok (JObj (expense_to_dict e)) \<longleftrightarrow> tag_matches e"
  by (cases e) (simp_all add: tag_matches_def transaction_to_dict_def dict_lookup_def)

lemma list_all_entry_ok:
  "list_all entry_ok (map (\<lambda>e. JObj (expense_to_dict e)) es) \<longleftrightarrow> list_all tag_matches es"
  by (induction es) (simp_all del: entry_ok.simps add: entry_ok_to_dict)

text \<open>C14: The document save_data writes for a manager satisfies the schema of the persisted document exactly when both budgets are non-negative and every expense's category is gaming just when it is a GamingExpense.\<close>

theorem manager_to_json_schema:
  "document_ok (manager_to_json m) \<longleftrightarrow>
     0 \<le> monthly_budget m \<and> 0 \<le> gaming_budget m \<and> list_all tag_matches (expenses m)"
  by (simp add: manager_to_json_def dict_lookup_def list_all_entry_ok del: entry_ok.simps)

lemma entry_ok_loads: "entry_ok j \<Longrightarrow> \<exists>e. expense_of_json hash now j = Some (Inr e)"
proof (cases j)
  case (JObj d)
  assume ok: "entry_ok j"
  then obtain c where c: "dict_lookup d ''category'' = Some (JStr c)"
    using JObj by (auto split: option.splits json.splits)
  show ?thesis
    using ok JObj c
    by (auto simp: expense_of_json_def build_gaming_def build_regular_def
        elim!: json_is_str.elims json_is_num.elims split: if_splits)
qed simp_all

lemma load_expenses_entries_ok:
  "list_all entry_ok xs \<Longrightarrow> \<exists>m'. load_expenses hash now xs m = Some (m', None)"
proof (induction xs arbitrary: m)
  case Nil
  then show ?case by simp
next
  case (Cons x xs)
  then obtain e where "expense_of_json hash now x = Some (Inr e)"
    using entry_ok_loads by fastforce
  with Cons show ?case by simp
qed

text \<open>C9: load_data reads every data file that satisfies the schema without an exception and within the model: it returns a manager, shows no error box and leaves the world unchanged, whatever the ids and dates the file holds.\<close>

theorem load_data_document_ok:
  assumes "document_ok j" and "data_file m \<notin> dirs w"
    and "files w (data_file m) = Some (JsonText j)"
  shows "\<exists>m'. load_data hash now m w = Some (m', w)"
proof -
  obtain d where d: "j = JObj d" using assms(1) by (cases j) simp_all
  have "\<exists>m'. load_body hash now m w = Some (m', None)"
    using assms d
    by (auto simp: load_body_def read_json_def Let_def load_expenses_entries_ok
        elim!: json_is_nonneg.elims split: option.splits json.splits)
  then show ?thesis
    using assms(3) by (auto simp: load_data_def os_path_exists_def)
qed

theorem load_data_document_ok_witness:
  "document_ok example_document \<and>
   data_file (manager_fresh ''data/gamer_finance.json'') \<notin> dirs example_document_world \<and>
   files example_document_world (data_file (manager_fresh ''data/gamer_finance.json'')) =
     Some (JsonText example_document) \<and>
   (\<exists>m'. load_data example_hash example_now (manager_fresh ''data/gamer_finance.json'') example_document_world =
     Some (m', example_document_world))"
proof -
  have h1: "document_ok example_document"
    by (simp add: example_document_def dict_lookup_def)
  have h2: "data_file (manager_fresh ''data/gamer_finance.json'') \<notin> dirs example_document_world"
    by (simp add: example_document_world_def example_world_def)
  have h3: "files example_document_world (data_file (manager_fresh ''data/gamer_finance.json'')) =
     Some (JsonText example_document)"
    by (simp add: example_document_world_def)
  show ?thesis using h1 h2 h3 load_data_document_ok [OF h1 h2 h3] by simp
qed

end
