(* ===== verification/Spec2Isabelle.thy ===== *)
theory Spec2Isabelle
  imports Gui Tracker Schema
begin

text \<open>
  \<^bold>\<open>A verification development of the Gamer Finance Manager\<close>
  (repository MuhammadFasya/GABUT).

  \<^bold>\<open>The program.\<close> A single-user expense tracker written in Python. The model
  layer under \<^verbatim>\<open>src/models/\<close> keeps a list of expenses and two budgets in a
  \<open>GamerFinanceManager\<close> object, persists them to a JSON file after every change,
  and computes the views the Tk window in \<^verbatim>\<open>src/main.py\<close> displays. The window's
  handlers parse and check the form input and call the manager; the manager itself
  checks nothing. After every change, and on every tab switch, the window's
  \<open>refresh_data\<close> re-reads the manager, parses every stored date and sorts by it.

  \<^bold>\<open>Theories and what they model.\<close>
  \<^item> \<open>Prelude\<close>: Python's \<open>str(n)\<close> (\<open>str_of_nat\<close>, \<open>str_of_int\<close>) and its
    inverse, \<open>str.strip\<close>, \<open>str.replace\<close>, \<open>str.startswith\<close>, the format
    \<open>{:,.0f}\<close> (\<open>fmt_thousands\<close>); JSON-compatible values (\<open>json\<close>) with ordered
    dictionaries (\<open>dict_lookup\<close>, \<open>dict_set\<close>, \<open>dict_update\<close>); the exceptions the
    code can raise (\<open>exc\<close>, \<open>exc_str\<close>) and sequencing of raising code
    (\<open>bind_exc\<close>); message boxes (\<open>dialog\<close>).
  \<^item> \<open>Transaction\<close> (\<^verbatim>\<open>transaction.py\<close>): clock readings (\<open>datetime\<close>) and
    the two \<open>strftime\<close> formats the code uses; the record \<open>transaction\<close> and its
    constructor \<open>transaction_init\<close> (\<open>date or now\<close>, the id
    \<open>date_hash(description)\<close>), \<open>to_dict\<close> and \<open>__str__\<close>.
  \<^item> \<open>Expense\<close> (\<^verbatim>\<open>expense.py\<close>): the subclasses as the constructors of
    \<open>expense\<close>, their constructors, their \<open>to_dict\<close> and \<open>__str__\<close> overrides, and
    calls on an object of either class (\<open>expense_to_dict\<close>, \<open>expense_str\<close>).
  \<^item> \<open>Os\<close> (the standard library the persistence code calls): the file system and
    the message boxes as an explicit \<open>world\<close>; \<open>os.mkdir\<close>; \<open>os.makedirs\<close> as
    the recursive function of CPython's \<^verbatim>\<open>os.py\<close>, total by its termination proof
    (a library function: no claim of the development is about it alone);
    \<open>open\<close> with \<open>json.dump\<close> and with \<open>json.load\<close>.
  \<^item> \<open>Persistence\<close> (\<^verbatim>\<open>finance_manager.py\<close> \<open>__init__\<close>, \<open>load_data\<close>,
    \<open>save_data\<close>): the manager's state (\<open>manager\<close>), \<open>save_data\<close> with its
    uncaught \<open>os.makedirs\<close> and its caught write failure, and \<open>load_data\<close> as the
    sequence of assignments it performs (\<open>load_body\<close>, the loop
    \<open>load_expenses\<close>, one iteration \<open>expense_of_json\<close>, the constructors on
    loaded values \<open>build_gaming\<close> and \<open>build_regular\<close>), each of which may raise.
  \<^item> \<open>Store\<close> (\<^verbatim>\<open>finance_manager.py\<close> \<open>add_expense\<close>, \<open>add_gaming_expense\<close>,
    \<open>set_budgets\<close>): each mutates the manager and then saves; the state is the pair
    of manager and world and each operation returns the exception it let through.
    Runs of these operations at given clock readings (\<open>mgr_run\<close>).
  \<^item> \<open>Aggregation\<close> (\<^verbatim>\<open>finance_manager.py\<close> queries): \<open>get_monthly_spending\<close>
    and \<open>get_spending_by_game\<close> as the loops they are, with abstract
    specifications (sums over filtered expenses, a map from titles to totals);
    \<open>get_budget_status\<close>, \<open>get_expense_summary\<close>, \<open>get_expenses_by_category\<close>.
  \<^item> \<open>Tracker\<close> (\<^verbatim>\<open>expense_tracker.py\<close>): the abstract class \<open>ExpenseTracker\<close>
    as a record of its four methods (\<open>expense_tracker\<close>), the contract every
    implementation must meet (\<open>tracker_contract\<close>), a client of the interface
    (\<open>et_add_all\<close>, a batch of adds), and the manager as an implementation
    (\<open>gfm_tracker\<close>).
  \<^item> \<open>Strptime\<close>: \<open>datetime.strptime(s, '%Y-%m-%d %H:%M:%S')\<close> as CPython's
    \<open>_strptime\<close> computes it (the directive regular expressions with their
    alternatives in order, \<open>\s+\<close> for the space, unconverted data and the date check).
  \<^item> \<open>Refresh\<close> (\<^verbatim>\<open>main.py\<close> \<open>create_dashboard\<close>, \<open>refresh_data\<close>): the data the
    dashboard widgets show (\<open>view\<close>), \<open>sorted(..., reverse=True)\<close> as CPython
    sorts (\<open>py_sorted_desc\<close>) beside a reference insertion sort (\<open>sort_desc\<close>),
    and \<open>refresh_data\<close> with the colour coding.
  \<^item> \<open>Gui\<close> (\<^verbatim>\<open>main.py\<close> \<open>__init__\<close>, the form, the three handlers,
    \<open>on_tab_change\<close>): the window's state \<open>gui\<close>, its constructor \<open>gui_init\<close>, each
    handler as its \<open>try\<close> body wrapped in \<open>except ValueError\<close>, user events
    (\<open>gui_event\<close>, \<open>gui_step\<close>) and the states reachable from a first run
    (\<open>gui_reachable\<close>, an inductive relation), with the invariant \<open>gui_inv\<close>;
    Tk's main loop over a sequence of timed events (\<open>gui_run\<close>) and the script's
    \<open>__main__\<close> block (\<open>gui_main\<close>).
  \<^item> \<open>Schema\<close> (no code of its own): the persisted document of the
    specification's section 6 as an executable check (\<open>document_ok\<close>,
    \<open>entry_ok\<close>) with the key names the code writes.
  \<^item> This theory: the property that spans the window and the persisted
    document (the entries written in every reachable state meet the schema).

  \<^bold>\<open>What the lemmas show.\<close> Round trip of saving and loading, and exactly which
  records survive it; the error paths of loading (a record that cannot be rebuilt,
  partial load, an unhashable description) and saving (no directory part,
  unwritable file); the effect of each
  mutating operation, including that nothing is validated and nothing is rolled
  back; that runs of operations only ever append; that each query computes its
  specification (loop refinement), that the month filter on date strings selects
  exactly one calendar month (injectivity of the \<open>strftime\<close> formats), that
  spending by game is all-time, and that remaining budgets are unclamped
  differences; that \<open>get_expense_summary\<close> counts the gaming records as
  \<open>get_expenses_by_category\<close> lists them and splits the totals. That \<open>strptime\<close>
  reads back every date \<open>strftime\<close> printed; that \<open>refresh_data\<close> fills its trees
  by insertion sort on the date, newest first (CPython's \<open>sorted(reverse=True)\<close>
  computes it), the recent tree with the twenty newest records, and raises on a
  stored date in another format. For the window: the handlers' success and
  rejection paths; by rule induction over \<open>gui_reachable\<close>, that every record
  created through the window has a description, a date \<open>strptime\<close> reads, an id
  from the process's hash and a category or expense type from the comboboxes, and
  survives a reload, so a tab switch never raises; that the budget entries read back
  to the budgets. Progress: the script starts on a fresh machine and runs any
  sequence of events to a reachable state, and from every reachable state three
  events add a record, even when the file cannot be written. Bounds: the recent
  tree holds at most twenty stored records. Type: the saved document satisfies the
  schema exactly when the budgets are non-negative and each category names its
  class; its entries do in every reachable state, and every document of the schema
  loads without an exception. The manager meets the \<open>ExpenseTracker\<close> contract,
  and a batch of its adds grows the monthly buckets by the sums of the amounts and
  each category list by exactly its records. Several properties record where the code departs from its spec or
  from itself: they are listed as findings in the manifest.

  \<^bold>\<open>Modelling choices.\<close> Python strings are \<open>string\<close>, one character per code
  point below 256 (the emoji of the success messages are left out). Amounts and
  budgets are \<open>int\<close>, where Python stores a float: the model covers the
  integral finite values, for which float addition below \<open>2^53\<close> is exact. The
  window strips \<open>.\<close> and \<open>,\<close> from its input before \<open>float()\<close>, but that does
  not make every input integral: \<open>float('1e-3')\<close>, \<open>float('nan')\<close> and
  \<open>float('inf')\<close> survive it. \<open>float()\<close> is therefore a parameter
  \<open>flt :: string \<Rightarrow> int option\<close> of the handlers, which stands for \<open>float()\<close>
  on the inputs whose value is an integer (with \<open>py_float_int\<close>, its fragment on
  signed decimal integers, for the examples); inputs with another value are not
  modelled, and no claim depends on the handlers' amount and budget checks, which
  \<open>nan\<close> passes. Python's string hash is randomised per process and is a parameter
  \<open>hash\<close> of every operation that builds a transaction; the clock is a parameter
  \<open>now\<close>, a valid \<open>datetime\<close>, read once per operation: \<open>refresh_data\<close> calls
  \<open>datetime.now()\<close> twice (in \<open>get_budget_status\<close> and
  \<open>get_monthly_spending\<close>), which the model takes as one reading, so a refresh
  across the turn of a month is not modelled. \<open>%Y\<close> prints four zero-padded digits, as Python
  documents. \<open>json.dump\<close> then \<open>json.load\<close> is taken to return the dumped value, so
  a file holds a \<open>json\<close> value (or the decoder's complaint). Paths are taken as
  written, without normalisation, and the world lists every directory that exists.
  Loading is modelled exactly where the model can hold the result: every exception
  Python raises there is a value \<open>Inl\<close>, \<open>date or now\<close> tests Python
  truthiness, and a list or dictionary as description raises \<open>hash\<close>'s
  \<open>TypeError\<close>. Python stores a loaded value of a type the program never writes (a
  string amount, a numeric description) as it is; the model's records are typed, so
  there the loader, the manager's constructor and the window's constructor return
  \<open>None\<close>, and the theorems about loading say when they return \<open>Some\<close>. No
  loop needs fuel: every loop of the program runs over a finite list,
  \<open>strptime\<close>'s backtracking is the finite list of matches, and the one recursion,
  \<open>os.makedirs\<close>, is on ever shorter paths (\<open>makedirs_head_shorter\<close>).

  \<^bold>\<open>Not modelled.\<close> Records holding loaded values of another type than the
  program writes (a string where an amount is expected): Python stores them and fails
  later at the first arithmetic, the model stops at load with \<open>None\<close>; JSON numbers
  that are not integral (the loader's type test names every JSON number
  \<open>float\<close>); permissions of directories; non-integral and non-finite
  numbers (\<open>float('nan')\<close> passes the handlers' positivity and
  non-negativity tests and is stored: a finding without a theorem). The text of tree rows and labels (only the values they show are
  modelled). Widget layout, styling and chart drawing are presentation only;
  \<^verbatim>\<open>models/__init__.py\<close> only re-exports names.

  \<^bold>\<open>Plan.\<close> (1) the gaming handler's success path and the budget handler's
  success path as claims of their own; (2) the label and row texts
  (\<open>Rp {x:,.0f}\<close>, \<open>date.split()[0]\<close>, \<open>str.title\<close>); (3) the data file kept
  in step with memory along runs of \<open>gui_run\<close> whose saves succeed.
\<close>

section \<open>Properties across components\<close>

lemma valid_record_tag: "valid_record hash e \<Longrightarrow> tag_matches e"
  by (cases e) (auto simp: valid_record_def tag_matches_def)

text \<open>C12: In every state reachable through the window, every entry of the expenses array of the document save_data writes satisfies the schema of the persisted document: it has the id, amount, description and date fields, and its category is gaming exactly when it carries the gaming fields game_title and expense_type.\<close>

theorem gui_reachable_entries_ok:
  assumes "gui_reachable flt hash s"
  shows "case manager_to_json (finance_manager (fst s)) of
           JObj d \<Rightarrow> (case dict_lookup d ''expenses'' of Some (JArr es) \<Rightarrow> list_all entry_ok es | _ \<Rightarrow> False)
         | _ \<Rightarrow> False"
proof -
  have "gui_inv hash (fst s)" using assms by (rule gui_reachable_gui_inv)
  then have "list_all tag_matches (expenses (finance_manager (fst s)))"
    by (auto simp: gui_inv_def list_all_iff intro: valid_record_tag)
  then show ?thesis
    by (simp add: manager_to_json_def dict_lookup_def list_all_entry_ok del: entry_ok.simps)
qed

theorem gui_reachable_entries_ok_witness:
  "gui_reachable py_float_int example_hash
     (gui_run py_float_int example_hash
        [(example_now, TypeGamingAmount ''60''), (example_now, TypeGamingDesc ''Pass''),
         (example_now, TypeGameTitle ''Valorant''), (example_now, ClickAddGaming)] (example_gui, example_world)) \<and>
   (case manager_to_json (finance_manager (fst
     (gui_run py_float_int example_hash
        [(example_now, TypeGamingAmount ''60''), (example_now, TypeGamingDesc ''Pass''),
         (example_now, TypeGameTitle ''Valorant''), (example_now, ClickAddGaming)] (example_gui, example_world)))) of
      JObj d \<Rightarrow> (case dict_lookup d ''expenses'' of Some (JArr es) \<Rightarrow> list_all entry_ok es | _ \<Rightarrow> False)
    | _ \<Rightarrow> False)"
proof -
  have r: "gui_reachable py_float_int example_hash
     (gui_run py_float_int example_hash
        [(example_now, TypeGamingAmount ''60''), (example_now, TypeGamingDesc ''Pass''),
         (example_now, TypeGameTitle ''Valorant''), (example_now, ClickAddGaming)] (example_gui, example_world))"
    by (rule gui_reachable_run [OF example_gui_reachable]) (simp add: example_now_valid)
  show ?thesis by (rule conjI [OF r gui_reachable_entries_ok [OF r]])
qed

end
